theory Spec2Isabelle
  imports Complex_Main "HOL-Library.Sublist"
begin

section \<open>ESC/POS encoder (src/services/printer/ESCPOSEncoder.ts)\<close>

text \<open>
  Strings are lists of characters; one \<^typ>\<open>char\<close> stands for one UTF-16 code unit of
  the JavaScript string, restricted to the code units below 256. The \<open>length\<close> of a
  string is the number of code units, as \<open>String.prototype.length\<close> counts them.
  JavaScript numbers that hold lengths, widths and paddings are integers here.
  An exception thrown by a built-in is a value of \<open>js_error\<close> on the left of a sum.
\<close>

datatype js_error = RangeError | TypeError | Error string

type_synonym 'a result = "js_error + 'a"

definition bind_result :: "'a result \<Rightarrow> ('a \<Rightarrow> 'b result) \<Rightarrow> 'b result" where
  "bind_result r f = (case r of Inl e \<Rightarrow> Inl e | Inr x \<Rightarrow> f x)"

subsection \<open>Built-ins of the host language used by the encoder\<close>

definition SP :: char where
  "SP = CHR '' ''"

text \<open>\<open>String.prototype.repeat(count)\<close>: a negative count throws a RangeError.\<close>

definition repeat :: "string \<Rightarrow> int \<Rightarrow> string result" where
  "repeat s n = (if n < 0 then Inl RangeError else Inr (concat (replicate (nat n) s)))"

text \<open>\<open>padEnd\<close> and \<open>padStart\<close> with the default filler, a space; they never shorten.\<close>

definition padEnd :: "string \<Rightarrow> int \<Rightarrow> string" where
  "padEnd s n = s @ replicate (nat (n - int (length s))) SP"

definition padStart :: "string \<Rightarrow> int \<Rightarrow> string" where
  "padStart s n = replicate (nat (n - int (length s))) SP @ s"

text \<open>\<open>s.slice(0, end)\<close>: a negative end counts from the end of the string.\<close>

definition slice0 :: "string \<Rightarrow> int \<Rightarrow> string" where
  "slice0 s e = (if e < 0 then take (nat (max (int (length s) + e) 0)) s else take (nat e) s)"

text \<open>White space of \<open>String.prototype.trim\<close> among the code units below 256:
  TAB, LF, VT, FF, CR, SPACE and NBSP.\<close>

definition is_ws :: "char \<Rightarrow> bool" where
  "is_ws c = (of_char c \<in> {9::nat, 10, 11, 12, 13, 32, 160})"

definition trim :: "string \<Rightarrow> string" where
  "trim s = rev (dropWhile is_ws (rev (dropWhile is_ws s)))"

text \<open>\<open>content.split(" ")\<close>: the pieces between single spaces; the empty string gives
  one empty piece, two adjacent spaces give an empty piece between them.\<close>

fun split_sp :: "string \<Rightarrow> string list" where
  "split_sp [] = [[]]"
| "split_sp (c # cs) =
     (if c = SP then [] # split_sp cs
      else (case split_sp cs of w # ws \<Rightarrow> (c # w) # ws | [] \<Rightarrow> [[c]]))"

text \<open>\<open>TextEncoder.encode\<close> (UTF-8) on code units below 256: one byte below 128,
  two bytes from 128 on.\<close>

definition utf8_unit :: "char \<Rightarrow> nat list" where
  "utf8_unit c =
     (let n = (of_char c :: nat)
      in if n < 128 then [n] else [192 + n div 64, 128 + n mod 64])"

definition text_encode :: "string \<Rightarrow> nat list" where
  "text_encode s = concat (map utf8_unit s)"

subsection \<open>Command constants\<close>

definition ESC :: nat where "ESC = 0x1b"
definition GS :: nat where "GS = 0x1d"
definition LF :: nat where "LF = 0x0a"

definition CMD_INIT :: "nat list" where "CMD_INIT = [ESC, 0x40]"
definition CMD_BOLD_ON :: "nat list" where "CMD_BOLD_ON = [ESC, 0x45, 0x01]"
definition CMD_BOLD_OFF :: "nat list" where "CMD_BOLD_OFF = [ESC, 0x45, 0x00]"
definition CMD_ALIGN_LEFT :: "nat list" where "CMD_ALIGN_LEFT = [ESC, 0x61, 0x00]"
definition CMD_ALIGN_CENTER :: "nat list" where "CMD_ALIGN_CENTER = [ESC, 0x61, 0x01]"
definition CMD_ALIGN_RIGHT :: "nat list" where "CMD_ALIGN_RIGHT = [ESC, 0x61, 0x02]"
definition CMD_SIZE_NORMAL :: "nat list" where "CMD_SIZE_NORMAL = [GS, 0x21, 0x00]"
definition CMD_SIZE_DOUBLE_HEIGHT :: "nat list" where "CMD_SIZE_DOUBLE_HEIGHT = [GS, 0x21, 0x01]"
definition CMD_SIZE_DOUBLE_WIDTH :: "nat list" where "CMD_SIZE_DOUBLE_WIDTH = [GS, 0x21, 0x10]"
definition CMD_SIZE_DOUBLE :: "nat list" where "CMD_SIZE_DOUBLE = [GS, 0x21, 0x11]"
definition CMD_CUT_PARTIAL :: "nat list" where "CMD_CUT_PARTIAL = [GS, 0x56, 0x01]"
definition CMD_CUT_FULL :: "nat list" where "CMD_CUT_FULL = [GS, 0x56, 0x00]"

subsection \<open>The encoder object\<close>

datatype paper = P58 | P80

text \<open>\<open>PAPER_CONFIG[paperWidth].charsPerLine\<close>.\<close>

definition paper_chars :: "paper \<Rightarrow> int" where
  "paper_chars p = (case p of P58 \<Rightarrow> 32 | P80 \<Rightarrow> 48)"

record encoder =
  buffer :: "nat list"
  paperWidth :: paper
  charsPerLine :: int

definition initialize :: "encoder \<Rightarrow> encoder" where
  "initialize e = e\<lparr>buffer := buffer e @ CMD_INIT\<rparr>"

definition new_encoder :: "paper \<Rightarrow> encoder" where
  "new_encoder p = initialize \<lparr>buffer = [], paperWidth = p, charsPerLine = paper_chars p\<rparr>"

definition raw :: "nat list \<Rightarrow> encoder \<Rightarrow> encoder" where
  "raw bytes e = e\<lparr>buffer := buffer e @ bytes\<rparr>"

definition text_out :: "string \<Rightarrow> encoder \<Rightarrow> encoder" where
  "text_out content e = e\<lparr>buffer := buffer e @ text_encode content\<rparr>"

definition line :: "string \<Rightarrow> encoder \<Rightarrow> encoder" where
  "line content e = (let e1 = text_out content e in e1\<lparr>buffer := buffer e1 @ [LF]\<rparr>)"

definition bold :: "bool \<Rightarrow> encoder \<Rightarrow> encoder" where
  "bold enabled e = raw (if enabled then CMD_BOLD_ON else CMD_BOLD_OFF) e"

datatype alignment = AlignLeft | AlignCenter | AlignRight

definition align :: "alignment \<Rightarrow> encoder \<Rightarrow> encoder" where
  "align a e =
     raw (if a = AlignCenter then CMD_ALIGN_CENTER
          else if a = AlignRight then CMD_ALIGN_RIGHT
          else CMD_ALIGN_LEFT) e"

datatype text_size = SizeNormal | SizeDouble | SizeDoubleHeight | SizeDoubleWidth

definition size_cmd :: "text_size \<Rightarrow> encoder \<Rightarrow> encoder" where
  "size_cmd s e =
     raw (if s = SizeDouble then CMD_SIZE_DOUBLE
          else if s = SizeDoubleHeight then CMD_SIZE_DOUBLE_HEIGHT
          else if s = SizeDoubleWidth then CMD_SIZE_DOUBLE_WIDTH
          else CMD_SIZE_NORMAL) e"

text \<open>\<open>feed(lines)\<close>: the loop \<open>for (i = 0; i < lines; i++)\<close> pushes one LF per round.\<close>

fun feed :: "nat \<Rightarrow> encoder \<Rightarrow> encoder" where
  "feed 0 e = e"
| "feed (Suc n) e = feed n (e\<lparr>buffer := buffer e @ [LF]\<rparr>)"

definition cut :: "bool \<Rightarrow> encoder \<Rightarrow> encoder" where
  "cut partial e = raw (if partial then CMD_CUT_PARTIAL else CMD_CUT_FULL) (feed 3 e)"

definition separator :: "string \<Rightarrow> encoder \<Rightarrow> encoder result" where
  "separator ch e = bind_result (repeat ch (charsPerLine e)) (\<lambda>s. Inr (line s e))"

subsection \<open>Layout primitives\<close>

text \<open>The string that \<open>twoColumn\<close> hands to \<open>line\<close>.\<close>

definition twoColumn_text :: "int \<Rightarrow> string \<Rightarrow> string \<Rightarrow> string result" where
  "twoColumn_text cpl left right =
     (let space = max (cpl - int (length left) - int (length right)) 1
      in bind_result (repeat [SP] space) (\<lambda>pad. Inr (left @ pad @ right)))"

definition twoColumn :: "string \<Rightarrow> string \<Rightarrow> encoder \<Rightarrow> encoder result" where
  "twoColumn left right e =
     bind_result (twoColumn_text (charsPerLine e) left right) (\<lambda>s. Inr (line s e))"

text \<open>The two gaps of \<open>threeColumn\<close>: \<open>leftSpace\<close> and \<open>rightSpace\<close>.\<close>

definition threeColumn_gaps :: "int \<Rightarrow> string \<Rightarrow> string \<Rightarrow> string \<Rightarrow> int \<times> int" where
  "threeColumn_gaps cpl left center right =
     (let totalLen = int (length left) + int (length center) + int (length right);
          remainingSpace = cpl - totalLen;
          leftSpace = remainingSpace div 2;
          rightSpace = remainingSpace - leftSpace
      in (leftSpace, rightSpace))"

definition threeColumn_text :: "int \<Rightarrow> string \<Rightarrow> string \<Rightarrow> string \<Rightarrow> string result" where
  "threeColumn_text cpl left center right =
     (case threeColumn_gaps cpl left center right of
        (leftSpace, rightSpace) \<Rightarrow>
          bind_result (repeat [SP] leftSpace) (\<lambda>lpad.
          bind_result (repeat [SP] rightSpace) (\<lambda>rpad.
            Inr (left @ lpad @ center @ rpad @ right))))"

definition threeColumn :: "string \<Rightarrow> string \<Rightarrow> string \<Rightarrow> encoder \<Rightarrow> encoder result" where
  "threeColumn left center right e =
     bind_result (threeColumn_text (charsPerLine e) left center right) (\<lambda>s. Inr (line s e))"

definition centerText_text :: "int \<Rightarrow> string \<Rightarrow> string result" where
  "centerText_text cpl content =
     (let padding = max 0 ((cpl - int (length content)) div 2)
      in bind_result (repeat [SP] padding) (\<lambda>pad. Inr (pad @ content)))"

definition centerText :: "string \<Rightarrow> encoder \<Rightarrow> encoder result" where
  "centerText content e =
     bind_result (centerText_text (charsPerLine e) content) (\<lambda>s. Inr (line s e))"

text \<open>
  \<open>wrap\<close>: the loop over the words carries \<open>currentLine\<close> and the lines already handed
  to \<open>line\<close>, oldest first; a line is emitted only when \<open>currentLine\<close> is not empty.
\<close>

definition flush_line :: "string \<Rightarrow> string list \<Rightarrow> string list" where
  "flush_line cur out = (if cur \<noteq> [] then out @ [cur] else out)"

fun wrap_loop :: "int \<Rightarrow> string list \<Rightarrow> string \<Rightarrow> string list \<Rightarrow> string list" where
  "wrap_loop cpl [] cur out = flush_line cur out"
| "wrap_loop cpl (w # ws) cur out =
     (if int (length (trim (cur @ [SP] @ w))) \<le> cpl
      then wrap_loop cpl ws (trim (cur @ [SP] @ w)) out
      else wrap_loop cpl ws w (flush_line cur out))"

definition wrap_lines :: "int \<Rightarrow> string \<Rightarrow> string list" where
  "wrap_lines cpl content = wrap_loop cpl (split_sp content) [] []"

definition wrap :: "string \<Rightarrow> encoder \<Rightarrow> encoder" where
  "wrap content e = fold line (wrap_lines (charsPerLine e) content) e"

definition encode :: "encoder \<Rightarrow> nat list" where
  "encode e = map (\<lambda>b. b mod 256) (buffer e)"

subsection \<open>Numbers and host functions used by the receipt generators\<close>

text \<open>
  A JavaScript number is a double: a finite one is given by the rational it denotes, the
  others are NaN and the two infinities. The operations of the generators on numbers are
  computed where they are exact. \<open>Number::toString\<close> of an integer of magnitude at most
  2^53 is its decimal digits (every such integer is a double, and no shorter digit string
  reads back as it); the sum of two such integers whose sum is again such an integer is
  that sum; \<open>Math.round\<close> of a finite number is the nearest integer, a tie going up, and
  leaves NaN and the infinities as they are; \<open>x > 0\<close> compares the values. The text of
  every other finite number (a fraction, an integer above 2^53, where the digits are the
  shortest that read back, or the exponent form from 10^21 on), every other sum, the locale
  text of a date and the parsing of a numeric string belong to the host and are taken as
  parameters.
\<close>

datatype jsnum = Finite rat | NaN | PosInfinity | NegInfinity

record host =
  toLocaleString :: "string \<Rightarrow> string"
  numberText :: "rat \<Rightarrow> string"
  parseNumber :: "string \<Rightarrow> jsnum"
  numberSum :: "jsnum \<Rightarrow> jsnum \<Rightarrow> jsnum"

definition digit_char :: "nat \<Rightarrow> char" where
  "digit_char d = ''0123456789'' ! d"

fun nat_string :: "nat \<Rightarrow> string" where
  "nat_string n = (if n < 10 then [digit_char n] else nat_string (n div 10) @ [digit_char (n mod 10)])"

declare nat_string.simps [simp del]

definition int_string :: "int \<Rightarrow> string" where
  "int_string i = (if i < 0 then CHR ''-'' # nat_string (nat (- i)) else nat_string (nat i))"

definition is_integer :: "rat \<Rightarrow> bool" where
  "is_integer x = (of_int \<lfloor>x\<rfloor> = x)"

definition safe_integer :: "rat \<Rightarrow> bool" where
  "safe_integer x = (is_integer x \<and> \<bar>x\<bar> \<le> 2 ^ 53)"

definition number_string :: "host \<Rightarrow> rat \<Rightarrow> string" where
  "number_string h x = (if safe_integer x then int_string \<lfloor>x\<rfloor> else numberText h x)"

definition jsnum_string :: "host \<Rightarrow> jsnum \<Rightarrow> string" where
  "jsnum_string h v =
     (case v of Finite x \<Rightarrow> number_string h x | NaN \<Rightarrow> ''NaN''
      | PosInfinity \<Rightarrow> ''Infinity'' | NegInfinity \<Rightarrow> ''-Infinity'')"

definition math_round :: "jsnum \<Rightarrow> jsnum" where
  "math_round v =
     (case v of Finite x \<Rightarrow> Finite (of_int \<lfloor>x + 1 / 2\<rfloor>) | NaN \<Rightarrow> NaN
      | PosInfinity \<Rightarrow> PosInfinity | NegInfinity \<Rightarrow> NegInfinity)"

text \<open>\<open>a + b\<close> on numbers, \<open>v > 0\<close>, and the truthiness of a number (zero and NaN are
  falsy).\<close>

definition number_plus :: "host \<Rightarrow> jsnum \<Rightarrow> jsnum \<Rightarrow> jsnum" where
  "number_plus h a b =
     (case a of
        Finite x \<Rightarrow>
          (case b of
             Finite y \<Rightarrow>
               if safe_integer x \<and> safe_integer y \<and> safe_integer (x + y) then Finite (x + y)
               else numberSum h a b
           | _ \<Rightarrow> numberSum h a b)
      | _ \<Rightarrow> numberSum h a b)"

definition greater_zero :: "jsnum \<Rightarrow> bool" where
  "greater_zero v = (case v of Finite x \<Rightarrow> 0 < x | PosInfinity \<Rightarrow> True | _ \<Rightarrow> False)"

definition truthy_jsnum :: "jsnum \<Rightarrow> bool" where
  "truthy_jsnum v = (case v of Finite x \<Rightarrow> x \<noteq> 0 | NaN \<Rightarrow> False | _ \<Rightarrow> True)"

subsection \<open>Receipt data (src/types/printer.ts), the fields the generators read\<close>

record invoice_item =
  productName :: string
  details :: string
  quantity :: jsnum
  subtotal :: jsnum

datatype pay_method = Cash | Card | MobileBanking | Mixed

datatype special_notes = NoteNumber jsnum | NoteText string

record invoice_data =
  invoiceNumber :: string
  guestNumber :: "jsnum option"
  specialNotes :: "special_notes option"
  tableNumber :: "string option"
  date :: string
  customerName :: string
  customerPhone :: string
  items :: "invoice_item list"
  summaryTotal :: string
  paymentMethod :: pay_method
  paymentStatus :: string
  paidAmount :: jsnum
  remainingAmount :: jsnum
  businessName :: string
  businessAddress :: string
  businessPhone :: string

text \<open>Truthiness of the optional fields: an absent value, the empty string, the number
  zero and NaN are falsy.\<close>

definition truthy_string :: "string option \<Rightarrow> bool" where
  "truthy_string v = (case v of None \<Rightarrow> False | Some t \<Rightarrow> t \<noteq> [])"

definition truthy_number :: "jsnum option \<Rightarrow> bool" where
  "truthy_number v = (case v of None \<Rightarrow> False | Some n \<Rightarrow> truthy_jsnum n)"

definition truthy_notes :: "special_notes option \<Rightarrow> bool" where
  "truthy_notes v =
     (case v of None \<Rightarrow> False | Some (NoteNumber n) \<Rightarrow> truthy_jsnum n
      | Some (NoteText t) \<Rightarrow> t \<noteq> [])"

definition notes_string :: "host \<Rightarrow> special_notes option \<Rightarrow> string" where
  "notes_string h v =
     (case v of None \<Rightarrow> ''undefined'' | Some (NoteNumber n) \<Rightarrow> jsnum_string h n
      | Some (NoteText t) \<Rightarrow> t)"

definition method_upper :: "pay_method \<Rightarrow> string" where
  "method_upper m =
     (case m of Cash \<Rightarrow> ''CASH'' | Card \<Rightarrow> ''CARD'' | MobileBanking \<Rightarrow> ''MOBILE_BANKING''
      | Mixed \<Rightarrow> ''MIXED'')"

subsection \<open>Receipt generators\<close>

definition WIDTH_of :: "paper \<Rightarrow> int" where
  "WIDTH_of pw = (if pw = P58 then 32 else 48)"

text \<open>The body of \<open>data.items.forEach\<close> in \<open>generateKOT\<close>.\<close>

definition kot_item :: "host \<Rightarrow> int \<Rightarrow> invoice_item \<Rightarrow> encoder \<Rightarrow> encoder" where
  "kot_item h WIDTH item e =
     (let QTY_WIDTH = 5;
          ITEM_WIDTH = WIDTH - QTY_WIDTH - 2;
          qty = padEnd (jsnum_string h (quantity item) @ ''x'') QTY_WIDTH;
          name = slice0 (productName item) ITEM_WIDTH;
          e = line (qty @ name) e
      in if details item \<noteq> []
         then line (''     '' @ slice0 (details item) (WIDTH - 5)) e
         else e)"

text \<open>\<open>generateKOT\<close>, in the order of the source: the header (lines 203-213), table and
  guest (216-221), the items header and the items (224-239), the total and the notes
  (241-255), the cut (257).\<close>

definition kot_header :: "host \<Rightarrow> invoice_data \<Rightarrow> encoder \<Rightarrow> encoder result" where
  "kot_header h data e =
     (let e = align AlignCenter e;
          e = bold True e;
          e = line (businessName data) e;
          e = bold False e;
          e = size_cmd SizeDouble e;
          e = line ''KITCHEN ORDER TICKET'' e;
          e = size_cmd SizeNormal e;
          e = line (toLocaleString h (date data)) e
      in bind_result (separator ''-'' e) (\<lambda>e. Inr (align AlignLeft e)))"

definition kot_table_guest :: "host \<Rightarrow> invoice_data \<Rightarrow> encoder \<Rightarrow> encoder" where
  "kot_table_guest h data e =
     (let e = (if truthy_string (tableNumber data)
               then line (''Table : '' @ the (tableNumber data)) e else e)
      in if truthy_number (guestNumber data)
         then line (''Guests: '' @ jsnum_string h (the (guestNumber data))) e else e)"

definition kot_items :: "host \<Rightarrow> int \<Rightarrow> invoice_data \<Rightarrow> encoder \<Rightarrow> encoder result" where
  "kot_items h WIDTH data e =
     bind_result (separator ''-'' e) (\<lambda>e.
       let QTY_WIDTH = 5;
           e = bold True e;
           e = line (padEnd ''QTY '' QTY_WIDTH @ ''ITEM'') e;
           e = bold False e
       in Inr (fold (kot_item h WIDTH) (items data) e))"

definition kot_footer :: "host \<Rightarrow> invoice_data \<Rightarrow> encoder \<Rightarrow> encoder result" where
  "kot_footer h data e =
     bind_result (separator ''-'' e) (\<lambda>e.
       let totalQty = foldl (\<lambda>sum item. number_plus h sum (quantity item)) (Finite 0) (items data);
           e = bold True e;
           e = line (''Total Items: '' @ jsnum_string h totalQty) e;
           e = (if truthy_notes (specialNotes data) \<and> trim (notes_string h (specialNotes data)) \<noteq> []
                then wrap (notes_string h (specialNotes data))
                       (bold False (line ''SPECIAL INSTRUCTIONS:'' (bold True (feed 1 e))))
                else e)
       in Inr (cut False e))"

definition generateKOT :: "host \<Rightarrow> invoice_data \<Rightarrow> paper \<Rightarrow> nat list result" where
  "generateKOT h data pw =
     (let encoder = new_encoder pw;
          WIDTH = WIDTH_of pw
      in bind_result (kot_header h data encoder) (\<lambda>e.
         bind_result (kot_items h WIDTH data (kot_table_guest h data e)) (\<lambda>e.
         bind_result (kot_footer h data e) (\<lambda>e. Inr (encode e)))))"

text \<open>The body of \<open>data.items.forEach\<close> in \<open>generateInvoice\<close>.\<close>

definition invoice_item_row :: "host \<Rightarrow> int \<Rightarrow> invoice_item \<Rightarrow> string" where
  "invoice_item_row h WIDTH item =
     (let QTY_WIDTH = 5;
          TOTAL_WIDTH = 10;
          ITEM_WIDTH = WIDTH - QTY_WIDTH - TOTAL_WIDTH;
          qty = padEnd (jsnum_string h (quantity item) @ ''x'') QTY_WIDTH;
          name = slice0 (productName item) (ITEM_WIDTH - 2);
          total = padStart (jsnum_string h (math_round (subtotal item))) (TOTAL_WIDTH - 2)
      in qty @ padEnd name (ITEM_WIDTH - 1) @ ''..'' @ total)"

definition invoice_item_step :: "host \<Rightarrow> int \<Rightarrow> invoice_item \<Rightarrow> encoder \<Rightarrow> encoder" where
  "invoice_item_step h WIDTH item e =
     (let e = line (invoice_item_row h WIDTH item) e
      in if details item \<noteq> []
         then line (''     '' @ slice0 (details item) (WIDTH - 5)) e
         else e)"

text \<open>\<open>generateInvoice\<close>, in the order of the source: the header (lines 271-282), the
  meta information (285-299), the items header and the items (302-321), the totals
  (323-330), the payment information (333-346), the footer (349-354).\<close>

definition invoice_header :: "invoice_data \<Rightarrow> encoder \<Rightarrow> encoder result" where
  "invoice_header data e =
     (let e = align AlignCenter e;
          e = bold True e;
          e = line (businessName data) e;
          e = bold False e;
          e = line (businessAddress data) e;
          e = line (''Tel: '' @ businessPhone data) e
      in bind_result (separator ''-'' e) (\<lambda>e.
           let e = bold True e;
               e = line ''INVOICE'' e;
               e = bold False e
           in Inr (align AlignLeft e)))"

definition invoice_meta :: "host \<Rightarrow> invoice_data \<Rightarrow> encoder \<Rightarrow> encoder result" where
  "invoice_meta h data e =
     (let e = line (''Invoice : #'' @ invoiceNumber data) e;
          e = line (''Date    : '' @ toLocaleString h (date data)) e;
          e = (if truthy_string (tableNumber data)
               then line (''Table   : '' @ the (tableNumber data)) e else e);
          e = (if truthy_number (guestNumber data)
               then line (''Guests  : '' @ jsnum_string h (the (guestNumber data))) e else e);
          e = line (''Customer: '' @ customerName data) e;
          e = line (''Phone   : '' @ customerPhone data) e
      in separator ''-'' e)"

definition invoice_items :: "host \<Rightarrow> int \<Rightarrow> invoice_data \<Rightarrow> encoder \<Rightarrow> encoder" where
  "invoice_items h WIDTH data e =
     (let QTY_WIDTH = 5;
          TOTAL_WIDTH = 10;
          ITEM_WIDTH = WIDTH - QTY_WIDTH - TOTAL_WIDTH;
          e = bold True e;
          e = line (padEnd ''QTY '' QTY_WIDTH @ padEnd ''ITEM'' ITEM_WIDTH
                    @ padStart ''TOTAL'' TOTAL_WIDTH) e;
          e = bold False e
      in fold (invoice_item_step h WIDTH) (items data) e)"

definition invoice_totals :: "host \<Rightarrow> invoice_data \<Rightarrow> encoder \<Rightarrow> encoder result" where
  "invoice_totals h data e =
     bind_result (separator ''-'' e) (\<lambda>e.
     bind_result (twoColumn ''TOTAL:'' (jsnum_string h (parseNumber h (summaryTotal data)))
                    (bold True e)) (\<lambda>e.
       Inr (feed 1 (bold False e))))"

definition invoice_payment :: "host \<Rightarrow> invoice_data \<Rightarrow> encoder \<Rightarrow> encoder result" where
  "invoice_payment h data e =
     (let paymentMethod =
            (if paymentMethod data = MobileBanking then ''Mobile Banking''
             else method_upper (paymentMethod data))
      in bind_result (twoColumn ''Payment Method:'' paymentMethod e) (\<lambda>e.
         bind_result (twoColumn ''Payment Status:'' (paymentStatus data) e) (\<lambda>e.
         bind_result (twoColumn ''Paid Amount:'' (jsnum_string h (paidAmount data)) (bold True e)) (\<lambda>e.
           if greater_zero (remainingAmount data)
           then twoColumn ''Remaining:'' (jsnum_string h (remainingAmount data)) e
           else Inr e))))"

definition invoice_footer :: "encoder \<Rightarrow> encoder result" where
  "invoice_footer e =
     bind_result (separator ''-'' e) (\<lambda>e.
       let e = align AlignCenter e;
           e = bold True e;
           e = line ''THANK YOU!'' e
       in Inr (cut False e))"

definition generateInvoice :: "host \<Rightarrow> invoice_data \<Rightarrow> paper \<Rightarrow> nat list result" where
  "generateInvoice h data pw =
     (let encoder = new_encoder pw;
          WIDTH = WIDTH_of pw
      in bind_result (invoice_header data encoder) (\<lambda>e.
         bind_result (invoice_meta h data e) (\<lambda>e.
         bind_result (invoice_totals h data (invoice_items h WIDTH data e)) (\<lambda>e.
         bind_result (invoice_payment h data e) (\<lambda>e.
         bind_result (invoice_footer e) (\<lambda>e. Inr (encode e)))))))"

text \<open>The item-name width as the specification words it: the line budget minus the
  quantity width of 5 minus, for invoices, the totals column of 10. Used only to state
  what the specification says, next to what the generators compute.\<close>

definition spec_name_width :: "bool \<Rightarrow> int \<Rightarrow> int" where
  "spec_name_width is_invoice budget = budget - 5 - (if is_invoice then 10 else 0)"

subsection \<open>Barcode label generator\<close>

record barcode_data =
  bc_sku :: string
  bc_brandName :: "string option"
  bc_categoryName :: "string option"
  bc_modelNo :: "string option"
  bc_shopName :: "string option"

text \<open>\<open>Array.prototype.join\<close>.\<close>

fun join_with :: "string \<Rightarrow> string list \<Rightarrow> string" where
  "join_with sep [] = []"
| "join_with sep [x] = x"
| "join_with sep (x # y # ys) = x @ sep @ join_with sep (y # ys)"

definition or_empty :: "string option \<Rightarrow> string" where
  "or_empty v = (case v of None \<Rightarrow> [] | Some t \<Rightarrow> t)"

definition printBarcode :: "string \<Rightarrow> encoder \<Rightarrow> encoder" where
  "printBarcode d e =
     (let e = raw [GS, 0x68, 50] e;
          e = raw [GS, 0x77, 2] e;
          e = raw [GS, 0x48, 2] e;
          barcodeData = text_encode d;
          cmd = map (\<lambda>b. b mod 256) ([GS, 0x6b, 73, length barcodeData] @ barcodeData)
      in raw cmd e)"

definition generateBarcodeLabel :: "barcode_data \<Rightarrow> paper \<Rightarrow> nat list" where
  "generateBarcodeLabel data pw =
     (let encoder = new_encoder pw;
          topText = join_with '' / ''
                      (filter (\<lambda>t. t \<noteq> [])
                         (map or_empty [bc_brandName data, bc_categoryName data, bc_modelNo data]));
          e = align AlignCenter encoder;
          e = line (take (if pw = P58 then 28 else 44) topText) e;
          e = bold True e;
          e = line (''SHOP: '' @ or_empty (bc_shopName data)) e;
          e = bold False e;
          e = feed 1 e;
          e = printBarcode (bc_sku data) e;
          e = feed 2 e;
          e = cut False e
      in encode e)"

section \<open>Printer storage (src/services/printer/PrinterStorage.ts)\<close>

datatype conn_type = Bluetooth | Usb | Network | Wifi

record printer_config =
  cfg_id :: string
  cfg_name :: string
  cfg_type :: conn_type
  cfg_address :: string
  cfg_isDefault :: bool
  cfg_paperWidth :: paper
  cfg_lastConnected :: "nat option"

text \<open>
  The key-value backend (AsyncStorage) holds, under the key of the printers, the JSON text
  of a list of configurations, here the list itself, and under the key of the default
  printer an id. Every call of the backend is asynchronous and may reject: \<open>faults\<close> says,
  call by call, whether the coming calls reject (the empty list: none does).
\<close>

record backend =
  printersItem :: "printer_config list option"
  defaultItem :: "string option"
  settingsItem :: "string option"
  faults :: "bool list"

datatype storage_error = StorageError

definition next_fault :: "backend \<Rightarrow> bool \<times> backend" where
  "next_fault b = (case faults b of [] \<Rightarrow> (False, b) | f # fs \<Rightarrow> (f, b\<lparr>faults := fs\<rparr>))"

definition getItem_printers :: "backend \<Rightarrow> (storage_error + printer_config list option) \<times> backend" where
  "getItem_printers b =
     (case next_fault b of (f, b') \<Rightarrow>
        if f then (Inl StorageError, b') else (Inr (printersItem b'), b'))"

definition setItem_printers :: "printer_config list \<Rightarrow> backend \<Rightarrow> (storage_error + unit) \<times> backend" where
  "setItem_printers ps b =
     (case next_fault b of (f, b') \<Rightarrow>
        if f then (Inl StorageError, b') else (Inr (), b'\<lparr>printersItem := Some ps\<rparr>))"

definition getItem_default :: "backend \<Rightarrow> (storage_error + string option) \<times> backend" where
  "getItem_default b =
     (case next_fault b of (f, b') \<Rightarrow>
        if f then (Inl StorageError, b') else (Inr (defaultItem b'), b'))"

definition setItem_default :: "string \<Rightarrow> backend \<Rightarrow> (storage_error + unit) \<times> backend" where
  "setItem_default v b =
     (case next_fault b of (f, b') \<Rightarrow>
        if f then (Inl StorageError, b') else (Inr (), b'\<lparr>defaultItem := Some v\<rparr>))"

definition removeItem_default :: "backend \<Rightarrow> (storage_error + unit) \<times> backend" where
  "removeItem_default b =
     (case next_fault b of (f, b') \<Rightarrow>
        if f then (Inl StorageError, b') else (Inr (), b'\<lparr>defaultItem := None\<rparr>))"

definition multiRemove_all :: "backend \<Rightarrow> (storage_error + unit) \<times> backend" where
  "multiRemove_all b =
     (case next_fault b of (f, b') \<Rightarrow>
        if f then (Inl StorageError, b')
        else (Inr (), b'\<lparr>printersItem := None, defaultItem := None, settingsItem := None\<rparr>))"

text \<open>\<open>getAllPrinters\<close>: a failed read is caught and gives the empty list.\<close>

definition getAllPrinters :: "backend \<Rightarrow> printer_config list \<times> backend" where
  "getAllPrinters b =
     (case getItem_printers b of
        (Inl e, b') \<Rightarrow> ([], b')
      | (Inr data, b') \<Rightarrow> ((case data of None \<Rightarrow> [] | Some ps \<Rightarrow> ps), b'))"

text \<open>\<open>Array.prototype.findIndex\<close>: the first index whose element satisfies the test;
  \<open>None\<close> stands for -1.\<close>

fun findIndex :: "('a \<Rightarrow> bool) \<Rightarrow> 'a list \<Rightarrow> nat option" where
  "findIndex P [] = None"
| "findIndex P (x # xs) = (if P x then Some 0 else map_option Suc (findIndex P xs))"

definition setDefaultPrinter :: "string \<Rightarrow> backend \<Rightarrow> (storage_error + unit) \<times> backend" where
  "setDefaultPrinter printerId b =
     (case getAllPrinters b of (printers, b1) \<Rightarrow>
        let updated = map (\<lambda>p. p\<lparr>cfg_isDefault := (cfg_id p = printerId)\<rparr>) printers
        in case setItem_printers updated b1 of
             (Inl e, b2) \<Rightarrow> (Inl e, b2)
           | (Inr u, b2) \<Rightarrow> setItem_default printerId b2)"

definition savePrinter :: "printer_config \<Rightarrow> backend \<Rightarrow> (storage_error + unit) \<times> backend" where
  "savePrinter printer b =
     (case getAllPrinters b of (printers, b1) \<Rightarrow>
        let existingIndex = findIndex (\<lambda>p. cfg_id p = cfg_id printer) printers;
            printers' = (case existingIndex of
                           Some i \<Rightarrow> printers[i := printer]
                         | None \<Rightarrow> printers @ [printer])
        in case setItem_printers printers' b1 of
             (Inl e, b2) \<Rightarrow> (Inl e, b2)
           | (Inr u, b2) \<Rightarrow>
               if cfg_isDefault printer then setDefaultPrinter (cfg_id printer) b2
               else (Inr (), b2))"

definition getPrinterById :: "string \<Rightarrow> backend \<Rightarrow> printer_config option \<times> backend" where
  "getPrinterById i b =
     (case getAllPrinters b of (printers, b1) \<Rightarrow> (find (\<lambda>p. cfg_id p = i) printers, b1))"

text \<open>\<open>getDefaultPrinterId\<close>: a failed read is caught and gives null.\<close>

definition getDefaultPrinterId :: "backend \<Rightarrow> string option \<times> backend" where
  "getDefaultPrinterId b =
     (case getItem_default b of (Inl e, b') \<Rightarrow> (None, b') | (Inr v, b') \<Rightarrow> (v, b'))"

definition deletePrinter :: "string \<Rightarrow> backend \<Rightarrow> (storage_error + unit) \<times> backend" where
  "deletePrinter i b =
     (case getAllPrinters b of (printers, b1) \<Rightarrow>
        let filtered = filter (\<lambda>p. cfg_id p \<noteq> i) printers
        in case setItem_printers filtered b1 of
             (Inl e, b2) \<Rightarrow> (Inl e, b2)
           | (Inr u, b2) \<Rightarrow>
               (case getDefaultPrinterId b2 of (defaultId, b3) \<Rightarrow>
                  if defaultId = Some i then removeItem_default b3 else (Inr (), b3)))"

definition getDefaultPrinter :: "backend \<Rightarrow> printer_config option \<times> backend" where
  "getDefaultPrinter b =
     (case getDefaultPrinterId b of (i, b1) \<Rightarrow>
        (case i of
           None \<Rightarrow> (None, b1)
         | Some v \<Rightarrow> if v = [] then (None, b1) else getPrinterById v b1))"

definition clearAll :: "backend \<Rightarrow> (storage_error + unit) \<times> backend" where
  "clearAll b = multiRemove_all b"

text \<open>\<open>updateLastConnected(printerId)\<close>; \<open>now\<close> is the value of \<open>Date.now()\<close>.\<close>

definition updateLastConnected :: "string \<Rightarrow> nat \<Rightarrow> backend \<Rightarrow> (storage_error + unit) \<times> backend" where
  "updateLastConnected printerId now b =
     (case getPrinterById printerId b of
        (None, b1) \<Rightarrow> (Inr (), b1)
      | (Some printer, b1) \<Rightarrow> savePrinter (printer\<lparr>cfg_lastConnected := Some now\<rparr>) b1)"

text \<open>What \<open>getAllPrinters\<close> returns when the read succeeds: the stored profile list.\<close>

definition stored :: "backend \<Rightarrow> printer_config list" where
  "stored b = (case printersItem b of None \<Rightarrow> [] | Some ps \<Rightarrow> ps)"

definition distinct_ids :: "printer_config list \<Rightarrow> bool" where
  "distinct_ids ps = distinct (map cfg_id ps)"

definition at_most_one_default :: "printer_config list \<Rightarrow> bool" where
  "at_most_one_default ps = (length (filter cfg_isDefault ps) \<le> 1)"

text \<open>The list that \<open>savePrinter\<close> writes: the profile replaces the first one with its id,
  or is added at the end.\<close>

definition save_list :: "printer_config \<Rightarrow> printer_config list \<Rightarrow> printer_config list" where
  "save_list printer printers =
     (case findIndex (\<lambda>p. cfg_id p = cfg_id printer) printers of
        Some i \<Rightarrow> printers[i := printer]
      | None \<Rightarrow> printers @ [printer])"


section \<open>Print orchestrator (src/services/printer/PrinterService.ts)\<close>

text \<open>
  The service runs on one event loop. Each method is cut at its \<open>await\<close>s on a transport
  adapter or on the storage: a call runs up to the first such \<open>await\<close> and leaves a task;
  the settling of the awaited promise is a later step that resumes the task. Between two
  steps any other call, settling or timer may come. An \<open>await\<close> on a promise that is
  already settled when it is reached (a method that threw before its own first \<open>await\<close>,
  the loop of \<open>processQueue\<close> after such a job) continues in the same step.

  Objects that the service shares by reference live in a store: the state objects, the
  arrays that hold the print queue, and the job objects. \<open>this.state\<close> is the address of
  the current state object. Every event handed to the subscribers is appended to
  \<open>events\<close>; together with it, \<open>printing_seen\<close> records how many jobs had the status
  printing at that moment.
\<close>

datatype printer_status = Disconnected | Connecting | Connected | Printing | ErrorStatus

datatype job_status = Pending | JobPrinting | Completed | Failed

datatype print_job_type = KOT | INVOICE | BARCODE | BARCODE_LABEL

datatype payload = InvoicePayload invoice_data | BarcodePayload barcode_data

record print_job =
  job_id :: string
  job_type :: print_job_type
  job_payload :: payload
  job_timestamp :: nat
  job_status :: job_status
  retryCount :: nat
  job_error :: "string option"

text \<open>\<open>PrinterState\<close>; \<open>printQueue\<close> is the address of the queue array. The profile
  of the connected printer is held by value: the service never assigns to a field of a
  profile object, and the sharing of profile objects is not followed. The list of scanned
  devices and the scanning methods are left out.\<close>

record printer_state =
  status :: printer_status
  connectedPrinter :: "printer_config option"
  printQueue :: nat
  lastError :: "string option"

datatype event =
    StateChanged nat
  | DeviceConnected printer_config
  | DeviceDisconnected
  | JobAdded nat
  | PrintStarted nat
  | PrintCompleted nat
  | PrintFailed nat string
  | QueueCleared
  | ErrorEvent string

datatype alert = NoPrinterAlert | PrintFailedAlert print_job_type string

text \<open>A suspended method: \<open>connect\<close> at the adapter, at \<open>updateLastConnected\<close> or at
  \<open>savePrinter\<close>; \<open>disconnect\<close> at the adapter; \<open>processQueue\<close> inside \<open>executePrintJob\<close>
  at \<open>sendToPrinter\<close>, with the job and the rest of its \<open>pendingJobs\<close>.\<close>

datatype task =
    AwaitAdapterConnect printer_config
  | AwaitUpdateLastConnected printer_config
  | AwaitSavePrinter printer_config
  | AwaitAdapterDisconnect
  | AwaitSend nat "nat list"

record service =
  objs :: "nat \<Rightarrow> printer_state"
  arrays :: "nat \<Rightarrow> nat list"
  jobs :: "nat \<Rightarrow> print_job"
  next_ref :: nat
  this_state :: nat
  isProcessingQueue :: bool
  tasks :: "task list"
  timers :: nat
  events :: "event list"
  printing_seen :: "nat list"
  alerts :: "alert list"

text \<open>The host: the functions of the encoder's host and the message text of the errors
  that built-ins throw.\<close>

record runtime =
  rt_host :: host
  builtinMessage :: "js_error \<Rightarrow> string"

definition error_message :: "runtime \<Rightarrow> js_error \<Rightarrow> string" where
  "error_message rt e = (case e of Error m \<Rightarrow> m | _ \<Rightarrow> builtinMessage rt e)"

definition empty_barcode :: barcode_data where
  "empty_barcode = \<lparr>bc_sku = [], bc_brandName = None, bc_categoryName = None,
     bc_modelNo = None, bc_shopName = None\<rparr>"

text \<open>
  The choice of the generator in \<open>executePrintJob\<close>. The payload is cast, not checked: a
  kitchen ticket or an invoice generator on a barcode payload reads a field of the missing
  \<open>businessInfo\<close> and throws a TypeError; the barcode generator on an invoice payload finds
  none of its fields and encodes an empty label.
\<close>

definition encode_job :: "host \<Rightarrow> print_job_type \<Rightarrow> payload \<Rightarrow> paper \<Rightarrow> nat list result" where
  "encode_job h t p pw =
     (if t = KOT then
        (case p of InvoicePayload d \<Rightarrow> generateKOT h d pw | BarcodePayload b \<Rightarrow> Inl TypeError)
      else if t = INVOICE then
        (case p of InvoicePayload d \<Rightarrow> generateInvoice h d pw | BarcodePayload b \<Rightarrow> Inl TypeError)
      else if t = BARCODE \<or> t = BARCODE_LABEL then
        (case p of BarcodePayload b \<Rightarrow> Inr (generateBarcodeLabel b pw)
                 | InvoicePayload d \<Rightarrow> Inr (generateBarcodeLabel empty_barcode pw))
      else Inl (Error ''Unsupported print job type''))"

text \<open>The payloads on which the chosen generator does not throw.\<close>

definition payload_fits :: "print_job_type \<Rightarrow> payload \<Rightarrow> bool" where
  "payload_fits t p =
     (case p of InvoicePayload d \<Rightarrow> True | BarcodePayload b \<Rightarrow> t = BARCODE \<or> t = BARCODE_LABEL)"

definition cur_state :: "service \<Rightarrow> printer_state" where
  "cur_state s = objs s (this_state s)"

definition queue :: "service \<Rightarrow> nat list" where
  "queue s = arrays s (printQueue (cur_state s))"

definition printing_count :: "service \<Rightarrow> nat" where
  "printing_count s = length (filter (\<lambda>r. job_status (jobs s r) = JobPrinting) [0..<next_ref s])"

definition emit :: "event \<Rightarrow> service \<Rightarrow> service" where
  "emit ev s = s\<lparr>events := events s @ [ev], printing_seen := printing_seen s @ [printing_count s]\<rparr>"

text \<open>\<open>getState\<close>: a new object with the fields of the current one; the address of the
  new object is the value returned.\<close>

definition getState :: "service \<Rightarrow> nat \<times> service" where
  "getState s =
     (let r = next_ref s
      in (r, s\<lparr>objs := (objs s)(r := cur_state s), next_ref := Suc r\<rparr>))"

text \<open>\<open>updateState(updates)\<close>: \<open>this.state\<close> becomes a new object, the spread of the old
  one and of the updates, and that same object is the data of the event.\<close>

definition updateState :: "(printer_state \<Rightarrow> printer_state) \<Rightarrow> service \<Rightarrow> service" where
  "updateState updates s =
     (let r = next_ref s
      in emit (StateChanged r)
           (s\<lparr>objs := (objs s)(r := updates (cur_state s)), next_ref := Suc r, this_state := r\<rparr>))"

definition setStatus :: "printer_status \<Rightarrow> service \<Rightarrow> service" where
  "setStatus st s = updateState (\<lambda>p. p\<lparr>status := st\<rparr>) s"

definition setError :: "string option \<Rightarrow> service \<Rightarrow> service" where
  "setError err s = updateState (\<lambda>p. p\<lparr>lastError := err\<rparr>) s"

definition set_job :: "nat \<Rightarrow> (print_job \<Rightarrow> print_job) \<Rightarrow> service \<Rightarrow> service" where
  "set_job j f s = s\<lparr>jobs := (jobs s)(j := f (jobs s j))\<rparr>"

text \<open>\<open>removeJobFromQueue\<close> and \<open>clearQueue\<close> assign a new, filtered array to the field
  \<open>printQueue\<close> of the current state object.\<close>

definition assign_queue :: "nat list \<Rightarrow> service \<Rightarrow> service" where
  "assign_queue xs s =
     (let r = next_ref s
      in s\<lparr>arrays := (arrays s)(r := xs),
           objs := (objs s)(this_state s := (cur_state s)\<lparr>printQueue := r\<rparr>),
           next_ref := Suc r\<rparr>)"

definition removeJobFromQueue :: "string \<Rightarrow> service \<Rightarrow> service" where
  "removeJobFromQueue jobId s =
     assign_queue (filter (\<lambda>j. job_id (jobs s j) \<noteq> jobId) (queue s)) s"

definition clearQueue :: "service \<Rightarrow> service" where
  "clearQueue s =
     emit QueueCleared
       (assign_queue (filter (\<lambda>j. job_status (jobs s j) = JobPrinting) (queue s)) s)"

definition showNoPrinterAlert :: "service \<Rightarrow> service" where
  "showNoPrinterAlert s = s\<lparr>alerts := alerts s @ [NoPrinterAlert]\<rparr>"

text \<open>\<open>executePrintJob\<close> after \<open>sendToPrinter\<close> has resolved.\<close>

definition executePrintJob_done :: "nat \<Rightarrow> service \<Rightarrow> service" where
  "executePrintJob_done j s =
     (let s = set_job j (\<lambda>x. x\<lparr>job_status := Completed\<rparr>) s;
          s = removeJobFromQueue (job_id (jobs s j)) s;
          s = setStatus Connected s
      in emit (PrintCompleted j) s)"

text \<open>The \<open>catch\<close> block of \<open>executePrintJob\<close>; \<open>msg\<close> is \<open>error.message\<close>, empty when
  there is none. The retry timer is counted in \<open>timers\<close>.\<close>

definition executePrintJob_catch :: "nat \<Rightarrow> string \<Rightarrow> service \<Rightarrow> service" where
  "executePrintJob_catch j msg s =
     (let s = set_job j (\<lambda>x. x\<lparr>retryCount := retryCount x + 1\<rparr>) s;
          s = set_job j (\<lambda>x. x\<lparr>job_error := Some (if msg \<noteq> [] then msg else ''Print failed'')\<rparr>) s;
          s = (if retryCount (jobs s j) < 3
               then (let s = set_job j (\<lambda>x. x\<lparr>job_status := Pending\<rparr>) s
                     in s\<lparr>timers := timers s + 1\<rparr>)
               else (let s = set_job j (\<lambda>x. x\<lparr>job_status := Failed\<rparr>) s;
                         s = removeJobFromQueue (job_id (jobs s j)) s;
                         s = emit (PrintFailed j msg) s
                     in s\<lparr>alerts := alerts s @ [PrintFailedAlert (job_type (jobs s j)) msg]\<rparr>))
      in setStatus Connected s)"

text \<open>
  The loop of \<open>processQueue\<close> over \<open>pendingJobs\<close>, with the \<open>try\<close> block of
  \<open>executePrintJob\<close> up to \<open>await this.sendToPrinter(printData)\<close>. An error of the
  encoder, or the missing printer in \<open>sendToPrinter\<close>, goes to the \<open>catch\<close> block and the
  loop goes on; otherwise the adapter is called and the method is suspended.
\<close>

fun drain :: "runtime \<Rightarrow> nat list \<Rightarrow> service \<Rightarrow> service" where
  "drain rt [] s = s\<lparr>isProcessingQueue := False\<rparr>"
| "drain rt (j # rest) s =
     (if status (cur_state s) \<noteq> Connected then s\<lparr>isProcessingQueue := False\<rparr>
      else
        let s = set_job j (\<lambda>x. x\<lparr>job_status := JobPrinting\<rparr>) s;
            s = setStatus Printing s;
            s = emit (PrintStarted j) s;
            paperWidth = (case connectedPrinter (cur_state s) of
                            None \<Rightarrow> P80 | Some c \<Rightarrow> cfg_paperWidth c)
        in case encode_job (rt_host rt) (job_type (jobs s j)) (job_payload (jobs s j)) paperWidth of
             Inl e \<Rightarrow> drain rt rest (executePrintJob_catch j (error_message rt e) s)
           | Inr printData \<Rightarrow>
               (case connectedPrinter (cur_state s) of
                  None \<Rightarrow> drain rt rest (executePrintJob_catch j ''No printer connected'' s)
                | Some c \<Rightarrow> s\<lparr>tasks := tasks s @ [AwaitSend j rest]\<rparr>))"

definition processQueue :: "runtime \<Rightarrow> service \<Rightarrow> service" where
  "processQueue rt s =
     (if isProcessingQueue s then s
      else
        let pendingJobs = filter (\<lambda>j. job_status (jobs s j) = Pending) (queue s)
        in if pendingJobs = [] then s
           else if status (cur_state s) \<noteq> Connected \<or> connectedPrinter (cur_state s) = None
           then showNoPrinterAlert s
           else drain rt pendingJobs (s\<lparr>isProcessingQueue := True\<rparr>))"

text \<open>\<open>addPrintJob\<close>; \<open>jobId\<close> and \<open>now\<close> are the generated id and \<open>Date.now()\<close>.\<close>

text \<open>A new job object in the store, and \<open>this.state.printQueue.push(job)\<close>, which
  changes the queue array in place.\<close>

definition new_job :: "print_job \<Rightarrow> service \<Rightarrow> service" where
  "new_job job s = s\<lparr>jobs := (jobs s)(next_ref s := job), next_ref := Suc (next_ref s)\<rparr>"

definition push_queue :: "nat \<Rightarrow> service \<Rightarrow> service" where
  "push_queue j s = s\<lparr>arrays := (arrays s)(printQueue (cur_state s) := queue s @ [j])\<rparr>"

definition addPrintJob :: "runtime \<Rightarrow> print_job_type \<Rightarrow> payload \<Rightarrow> string \<Rightarrow> nat \<Rightarrow> service \<Rightarrow> service" where
  "addPrintJob rt t p jobId now s =
     (let j = next_ref s;
          job = \<lparr>job_id = jobId, job_type = t, job_payload = p, job_timestamp = now,
                 job_status = Pending, retryCount = 0, job_error = None\<rparr>;
          s = new_job job s;
          s = push_queue j s;
          s = emit (JobAdded j) s
      in processQueue rt s)"

text \<open>The \<open>catch\<close> block of \<open>connect\<close>.\<close>

definition connect_catch :: "string \<Rightarrow> service \<Rightarrow> service" where
  "connect_catch msg s =
     emit (ErrorEvent msg)
       (updateState (\<lambda>p. p\<lparr>status := ErrorStatus,
                             lastError := Some (if msg \<noteq> [] then msg else ''Connection failed'')\<rparr>) s)"

datatype settled = Resolved | Rejected string

datatype connect_result = ConnectTrue | ConnectFalse | ConnectRejected string

datatype label =
    CallConnect printer_config
  | AdapterConnectSettled nat connect_result
  | StorageSettled nat settled
  | CallDisconnect
  | AdapterDisconnectSettled nat settled
  | CallAddPrintJob print_job_type payload string nat
  | SendSettled nat settled
  | TimerFires
  | CallClearQueue
  | CallGetState

definition remove_task :: "nat \<Rightarrow> service \<Rightarrow> service" where
  "remove_task i s = s\<lparr>tasks := take i (tasks s) @ drop (Suc i) (tasks s)\<rparr>"

definition task_at :: "service \<Rightarrow> nat \<Rightarrow> task option" where
  "task_at s i = (if i < length (tasks s) then Some (tasks s ! i) else None)"

text \<open>One step of the event loop; \<open>None\<close> when the step cannot happen in the state (no such
  task, no timer pending).\<close>

fun step :: "runtime \<Rightarrow> label \<Rightarrow> service \<Rightarrow> service option" where
  "step rt (CallConnect config) s =
     (let s = setStatus Connecting s;
          s = setError None s
      in Some (s\<lparr>tasks := tasks s @ [AwaitAdapterConnect config]\<rparr>))"
| "step rt (AdapterConnectSettled i r) s =
     (case task_at s i of
        Some (AwaitAdapterConnect config) \<Rightarrow>
          (case r of
             ConnectTrue \<Rightarrow>
               (let s = updateState (\<lambda>p. p\<lparr>status := Connected, connectedPrinter := Some config,
                                              lastError := None\<rparr>) s
                in Some (s\<lparr>tasks := (tasks s)[i := AwaitUpdateLastConnected config]\<rparr>))
           | ConnectFalse \<Rightarrow> Some (connect_catch ''Connection failed'' (remove_task i s))
           | ConnectRejected msg \<Rightarrow> Some (connect_catch msg (remove_task i s)))
      | _ \<Rightarrow> None)"
| "step rt (StorageSettled i r) s =
     (case task_at s i of
        Some (AwaitUpdateLastConnected config) \<Rightarrow>
          (case r of
             Resolved \<Rightarrow> Some (s\<lparr>tasks := (tasks s)[i := AwaitSavePrinter config]\<rparr>)
           | Rejected msg \<Rightarrow> Some (connect_catch msg (remove_task i s)))
      | Some (AwaitSavePrinter config) \<Rightarrow>
          (case r of
             Resolved \<Rightarrow> Some (processQueue rt (emit (DeviceConnected config) (remove_task i s)))
           | Rejected msg \<Rightarrow> Some (connect_catch msg (remove_task i s)))
      | _ \<Rightarrow> None)"
| "step rt CallDisconnect s =
     (case connectedPrinter (cur_state s) of
        None \<Rightarrow> Some s
      | Some c \<Rightarrow> Some (s\<lparr>tasks := tasks s @ [AwaitAdapterDisconnect]\<rparr>))"
| "step rt (AdapterDisconnectSettled i r) s =
     (case task_at s i of
        Some AwaitAdapterDisconnect \<Rightarrow>
          Some (emit DeviceDisconnected
                  (updateState (\<lambda>p. p\<lparr>status := Disconnected, connectedPrinter := None\<rparr>)
                     (remove_task i s)))
      | _ \<Rightarrow> None)"
| "step rt (CallAddPrintJob t p jobId now) s = Some (addPrintJob rt t p jobId now s)"
| "step rt (SendSettled i r) s =
     (case task_at s i of
        Some (AwaitSend j rest) \<Rightarrow>
          (case r of
             Resolved \<Rightarrow> Some (drain rt rest (executePrintJob_done j (remove_task i s)))
           | Rejected msg \<Rightarrow> Some (drain rt rest (executePrintJob_catch j msg (remove_task i s))))
      | _ \<Rightarrow> None)"
| "step rt TimerFires s =
     (if timers s = 0 then None
      else Some (processQueue rt (s\<lparr>timers := timers s - 1, isProcessingQueue := False\<rparr>)))"
| "step rt CallClearQueue s = Some (clearQueue s)"
| "step rt CallGetState s = Some (snd (getState s))"

fun run :: "runtime \<Rightarrow> label list \<Rightarrow> service \<Rightarrow> service option" where
  "run rt [] s = Some s"
| "run rt (l # ls) s = (case step rt l s of None \<Rightarrow> None | Some s' \<Rightarrow> run rt ls s')"

text \<open>The service as constructed: disconnected, no printer, an empty queue.\<close>

definition no_job :: print_job where
  "no_job = \<lparr>job_id = [], job_type = KOT, job_payload = BarcodePayload empty_barcode,
     job_timestamp = 0, job_status = Completed, retryCount = 0, job_error = None\<rparr>"

definition init :: service where
  "init = \<lparr>objs = (\<lambda>r. \<lparr>status = Disconnected, connectedPrinter = None, printQueue = 1,
                          lastError = None\<rparr>),
            arrays = (\<lambda>r. []),
            jobs = (\<lambda>r. no_job),
            next_ref = 2,
            this_state = 0,
            isProcessingQueue = False,
            tasks = [],
            timers = 0,
            events = [],
            printing_seen = [],
            alerts = []\<rparr>"

text \<open>What a holder of the address \<open>r\<close> of a state object sees through it: the fields,
  the queue array and the jobs in it.\<close>

definition view :: "service \<Rightarrow> nat \<Rightarrow> printer_status \<times> printer_config option \<times> string option \<times> print_job list" where
  "view s r =
     (status (objs s r), connectedPrinter (objs s r), lastError (objs s r),
      map (jobs s) (arrays s (printQueue (objs s r))))"

text \<open>Writes of a client through an address it was handed: an assignment to fields of a
  state object, a change of an array (push, splice, length), an assignment to fields of a
  job.\<close>

definition client_write_state :: "nat \<Rightarrow> (printer_state \<Rightarrow> printer_state) \<Rightarrow> service \<Rightarrow> service" where
  "client_write_state r f s = s\<lparr>objs := (objs s)(r := f (objs s r))\<rparr>"

definition client_write_array :: "nat \<Rightarrow> (nat list \<Rightarrow> nat list) \<Rightarrow> service \<Rightarrow> service" where
  "client_write_array a f s = s\<lparr>arrays := (arrays s)(a := f (arrays s a))\<rparr>"

text \<open>The states after each step of a run, up to the first step that cannot happen.\<close>

fun run_states :: "runtime \<Rightarrow> label list \<Rightarrow> service \<Rightarrow> service list" where
  "run_states rt [] s = []"
| "run_states rt (l # ls) s =
     (case step rt l s of None \<Rightarrow> [] | Some s' \<Rightarrow> s' # run_states rt ls s')"

text \<open>Descriptions of states used in the statements below: no job, or no job but \<open>j\<close>, has
  the status printing; every count recorded at an event is at most one; the service is
  connected to \<open>c\<close> with nothing in flight.\<close>

definition none_printing :: "service \<Rightarrow> bool" where
  "none_printing s = (\<forall>r. job_status (jobs s r) \<noteq> JobPrinting)"

definition at_most_printing :: "nat \<Rightarrow> service \<Rightarrow> bool" where
  "at_most_printing j s = (\<forall>r. r \<noteq> j \<longrightarrow> job_status (jobs s r) \<noteq> JobPrinting)"

definition seen_ok :: "service \<Rightarrow> bool" where
  "seen_ok s = list_all (\<lambda>n. n \<le> 1) (printing_seen s)"

definition idle_connected :: "printer_config \<Rightarrow> service \<Rightarrow> bool" where
  "idle_connected c s =
     (status (cur_state s) = Connected \<and> connectedPrinter (cur_state s) = Some c
      \<and> tasks s = [] \<and> \<not> isProcessingQueue s \<and> none_printing s)"

text \<open>An address \<open>r\<close> of a state object that is allocated and is not the current state
  object of the service (whose address is below the next free one); \<open>kept r s s'\<close>: it is
  so in \<open>s'\<close> too, with the same fields as in \<open>s\<close>.\<close>

definition detached :: "nat \<Rightarrow> service \<Rightarrow> bool" where
  "detached r s = (r < next_ref s \<and> r \<noteq> this_state s \<and> this_state s < next_ref s)"

definition kept :: "nat \<Rightarrow> service \<Rightarrow> service \<Rightarrow> bool" where
  "kept r s s' = (detached r s' \<and> objs s' r = objs s r)"

text \<open>The job \<open>j\<close> waits alone in the queue of a service connected to \<open>c\<close>, with nothing in
  flight, after \<open>n\<close> failed attempts, and its payload is one that its generator accepts.\<close>

definition waiting :: "printer_config \<Rightarrow> nat \<Rightarrow> nat \<Rightarrow> service \<Rightarrow> bool" where
  "waiting c j n s =
     (status (cur_state s) = Connected \<and> connectedPrinter (cur_state s) = Some c
      \<and> tasks s = [] \<and> \<not> isProcessingQueue s \<and> queue s = [j]
      \<and> job_status (jobs s j) = Pending \<and> retryCount (jobs s j) = n
      \<and> payload_fits (job_type (jobs s j)) (job_payload (jobs s j)))"

definition is_print_started :: "event \<Rightarrow> bool" where
  "is_print_started ev = (case ev of PrintStarted j \<Rightarrow> True | _ \<Rightarrow> False)"

definition is_print_failed :: "event \<Rightarrow> bool" where
  "is_print_failed ev = (case ev of PrintFailed j m \<Rightarrow> True | _ \<Rightarrow> False)"

section \<open>Properties of the encoder\<close>

subsection \<open>Auxiliary facts about trimming, splitting and the wrap loop\<close>














subsection \<open>Two-column layout\<close>



subsection \<open>Three-column layout\<close>



subsection \<open>Word wrap\<close>



subsection \<open>Auxiliary facts about the receipt generators\<close>

lemma replicate_numeral: "replicate (numeral k) x = x # replicate (pred_numeral k) x"
  by (simp add: numeral_eq_Suc)

lemma line_buffer: "buffer (line s e) = buffer e @ text_encode s @ [LF]"
  by (simp add: line_def text_out_def Let_def)

lemma kot_item_eq:
  "kot_item h (WIDTH_of pw) item e =
     (if details item = []
      then line (padEnd (jsnum_string h (quantity item) @ ''x'') 5
                 @ take (nat (WIDTH_of pw - 7)) (productName item)) e
      else line (''     '' @ take (nat (WIDTH_of pw - 5)) (details item))
             (line (padEnd (jsnum_string h (quantity item) @ ''x'') 5
                    @ take (nat (WIDTH_of pw - 7)) (productName item)) e))"
  by (simp add: kot_item_def Let_def slice0_def WIDTH_of_def)

lemma invoice_item_row_eq:
  "invoice_item_row h (WIDTH_of pw) item =
     padEnd (jsnum_string h (quantity item) @ ''x'') 5
     @ padEnd (take (nat (WIDTH_of pw - 17)) (productName item)) (WIDTH_of pw - 16)
     @ ''..''
     @ padStart (jsnum_string h (math_round (subtotal item))) 8"
  by (simp add: invoice_item_row_def Let_def slice0_def WIDTH_of_def)

lemma invoice_item_step_eq:
  "invoice_item_step h (WIDTH_of pw) item e =
     (if details item = []
      then line (invoice_item_row h (WIDTH_of pw) item) e
      else line (''     '' @ take (nat (WIDTH_of pw - 5)) (details item))
             (line (invoice_item_row h (WIDTH_of pw) item) e))"
  by (simp add: invoice_item_step_def Let_def slice0_def WIDTH_of_def)

lemma kot_items_buffer:
  "buffer (fold (kot_item h (WIDTH_of pw)) its e) =
     buffer e @ concat (map (\<lambda>item.
        text_encode (padEnd (jsnum_string h (quantity item) @ ''x'') 5
                     @ take (nat (WIDTH_of pw - 7)) (productName item)) @ [LF]
        @ (if details item = [] then []
           else text_encode (''     '' @ take (nat (WIDTH_of pw - 5)) (details item)) @ [LF])) its)"
  (is "buffer (fold ?f its e) = buffer e @ concat (map ?g its)")
proof (induction its arbitrary: e)
  case Nil
  show ?case by simp
next
  case (Cons item its)
  have "buffer (fold ?f (item # its) e) = buffer (fold ?f its (?f item e))"
    by simp
  also have "\<dots> = buffer (?f item e) @ concat (map ?g its)"
    by (rule Cons.IH)
  also have "buffer (?f item e) = buffer e @ ?g item"
    by (simp add: kot_item_eq line_buffer)
  finally show ?case by simp
qed

lemma invoice_items_buffer:
  "buffer (fold (invoice_item_step h (WIDTH_of pw)) its e) =
     buffer e @ concat (map (\<lambda>item.
        text_encode (invoice_item_row h (WIDTH_of pw) item) @ [LF]
        @ (if details item = [] then []
           else text_encode (''     '' @ take (nat (WIDTH_of pw - 5)) (details item)) @ [LF])) its)"
  (is "buffer (fold ?f its e) = buffer e @ concat (map ?g its)")
proof (induction its arbitrary: e)
  case Nil
  show ?case by simp
next
  case (Cons item its)
  have "buffer (fold ?f (item # its) e) = buffer (fold ?f its (?f item e))"
    by simp
  also have "\<dots> = buffer (?f item e) @ concat (map ?g its)"
    by (rule Cons.IH)
  also have "buffer (?f item e) = buffer e @ ?g item"
    by (simp add: invoice_item_step_eq line_buffer)
  finally show ?case by simp
qed

lemma padEnd_length: "int (length (padEnd s n)) = max (int (length s)) n"
  by (simp add: padEnd_def)

lemma padStart_length: "int (length (padStart s n)) = max (int (length s)) n"
  by (simp add: padStart_def)

lemma invoice_item_row_length:
  assumes "length (jsnum_string h (quantity item)) \<le> 4"
      and "length (jsnum_string h (math_round (subtotal item))) \<le> 8"
  shows "int (length (invoice_item_row h (WIDTH_of pw) item)) = WIDTH_of pw - 1"
proof -
  have "int (length (padEnd (take (nat (WIDTH_of pw - 17)) (productName item)) (WIDTH_of pw - 16)))
     = WIDTH_of pw - 16"
    by (auto simp add: padEnd_length WIDTH_of_def)
  moreover have "int (length (padEnd (jsnum_string h (quantity item) @ ''x'') 5)) = 5"
    using assms(1) by (simp add: padEnd_length)
  moreover have "int (length (padStart (jsnum_string h (math_round (subtotal item))) 8)) = 8"
    using assms(2) by (simp add: padStart_length)
  ultimately show ?thesis
    by (simp only: invoice_item_row_eq length_append of_nat_add) simp
qed

lemma safe_integer_of_int: "\<bar>k\<bar> \<le> 2 ^ 53 \<Longrightarrow> safe_integer (of_int k)"
proof -
  assume k: "\<bar>k\<bar> \<le> 2 ^ 53"
  have "\<bar>(of_int k :: rat)\<bar> = of_int \<bar>k\<bar>" by simp
  also have "\<dots> \<le> of_int (2 ^ 53)" using k by (simp only: of_int_le_iff)
  finally have "\<bar>(of_int k :: rat)\<bar> \<le> 2 ^ 53" by simp
  then show ?thesis by (simp add: safe_integer_def is_integer_def)
qed

lemma safe_integer_string:
  "safe_integer x \<Longrightarrow> jsnum_string h (Finite x) = int_string \<lfloor>x\<rfloor>"
  by (simp add: jsnum_string_def number_string_def)

lemma math_round_string:
  assumes "\<bar>\<lfloor>x + 1 / 2\<rfloor>\<bar> \<le> 2 ^ 53"
  shows "jsnum_string h (math_round (Finite x)) = int_string \<lfloor>x + 1 / 2\<rfloor>"
  using safe_integer_of_int[OF assms]
  by (simp add: jsnum_string_def number_string_def math_round_def)

lemma repeat_char: "0 \<le> n \<Longrightarrow> repeat [c] n = Inr (replicate (nat n) c)"
proof -
  have "concat (replicate k [c]) = replicate k c" for k
    by (induction k) auto
  then show "0 \<le> n \<Longrightarrow> repeat [c] n = Inr (replicate (nat n) c)"
    by (simp add: repeat_def)
qed

lemma separator_ok:
  "0 \<le> charsPerLine e \<Longrightarrow> separator ''-'' e = Inr (line (replicate (nat (charsPerLine e)) CHR ''-'') e)"
  by (simp add: separator_def repeat_char bind_result_def)

lemma twoColumn_ok:
  "twoColumn left right e =
     Inr (line (left @ replicate (nat (max (charsPerLine e - int (length left) - int (length right)) 1)) SP
                @ right) e)"
  by (simp add: twoColumn_def twoColumn_text_def repeat_def bind_result_def Let_def)

lemma centerText_ok:
  "centerText content e =
     Inr (line (replicate (nat (max 0 ((charsPerLine e - int (length content)) div 2))) SP @ content) e)"
  by (simp add: centerText_def centerText_text_def repeat_char bind_result_def Let_def)

lemma invoice_totals_eq:
  "0 \<le> charsPerLine e \<Longrightarrow>
   invoice_totals h data e =
     Inr (feed 1 (bold False
       (line (''TOTAL:''
              @ replicate (nat (max (charsPerLine e - 6
                   - int (length (jsnum_string h (parseNumber h (summaryTotal data))))) 1)) SP
              @ jsnum_string h (parseNumber h (summaryTotal data)))
         (bold True (line (replicate (nat (charsPerLine e)) CHR ''-'') e)))))"
  by (simp add: invoice_totals_def separator_ok twoColumn_ok bind_result_def bold_def raw_def
      line_def text_out_def Let_def)

subsection \<open>Item rows\<close>

text \<open>
  Claim C6, as the generators compute it. The quantity field is the text "<qty>x", where
  <qty> is the text of the number, padded with spaces on the right to 5 characters; it is
  never cut, so it is 5 characters wide when "<qty>x" has at most 5 characters and wider
  otherwise. The item name is cut to the line budget minus 7 on a kitchen ticket, and to
  the line budget minus 17 on an invoice, where it is then padded to the budget minus 16
  and followed by two dots and the per-row total, right-aligned in 8 characters. A detail
  line that is not empty follows its row, indented by 5 spaces and cut to the budget minus
  5. The per-row total is the text of the subtotal rounded to the nearest whole number; the
  summary total line carries the text of the parsed total, not rounded. The text of a
  number is its decimal digits when it is an integer of magnitude at most 2^53, and the
  host's text otherwise.
\<close>

theorem item_rows_layout:
  "kot_item h (WIDTH_of pw) item e =
     (if details item = []
      then line (padEnd (jsnum_string h (quantity item) @ ''x'') 5
                 @ take (nat (WIDTH_of pw - 7)) (productName item)) e
      else line (''     '' @ take (nat (WIDTH_of pw - 5)) (details item))
             (line (padEnd (jsnum_string h (quantity item) @ ''x'') 5
                    @ take (nat (WIDTH_of pw - 7)) (productName item)) e))
   \<and> invoice_item_step h (WIDTH_of pw) item e =
     (if details item = []
      then line (invoice_item_row h (WIDTH_of pw) item) e
      else line (''     '' @ take (nat (WIDTH_of pw - 5)) (details item))
             (line (invoice_item_row h (WIDTH_of pw) item) e))
   \<and> invoice_item_row h (WIDTH_of pw) item =
       padEnd (jsnum_string h (quantity item) @ ''x'') 5
       @ padEnd (take (nat (WIDTH_of pw - 17)) (productName item)) (WIDTH_of pw - 16)
       @ ''..''
       @ padStart (jsnum_string h (math_round (subtotal item))) 8
   \<and> int (length (padEnd (jsnum_string h (quantity item) @ ''x'') 5))
       = max (int (length (jsnum_string h (quantity item))) + 1) 5
   \<and> (length (jsnum_string h (quantity item)) \<le> 4 \<longrightarrow>
        length (padEnd (jsnum_string h (quantity item) @ ''x'') 5) = 5)
   \<and> (\<forall>q. quantity item = Finite q \<and> safe_integer q \<longrightarrow>
          jsnum_string h (quantity item) = int_string \<lfloor>q\<rfloor>)
   \<and> int (length (take (nat (WIDTH_of pw - 7)) (productName item))) \<le> WIDTH_of pw - 7
   \<and> int (length (take (nat (WIDTH_of pw - 17)) (productName item))) \<le> WIDTH_of pw - 17
   \<and> int (length (''     '' @ take (nat (WIDTH_of pw - 5)) (details item))) \<le> WIDTH_of pw
   \<and> (length (jsnum_string h (quantity item)) \<le> 4
        \<and> length (jsnum_string h (math_round (subtotal item))) \<le> 8 \<longrightarrow>
        int (length (invoice_item_row h (WIDTH_of pw) item)) = WIDTH_of pw - 1)
   \<and> (\<forall>x. subtotal item = Finite x \<and> \<bar>\<lfloor>x + 1 / 2\<rfloor>\<bar> \<le> 2 ^ 53 \<longrightarrow>
          jsnum_string h (math_round (subtotal item)) = int_string \<lfloor>x + 1 / 2\<rfloor>)
   \<and> buffer (fold (kot_item h (WIDTH_of pw)) its e) =
       buffer e @ concat (map (\<lambda>item.
          text_encode (padEnd (jsnum_string h (quantity item) @ ''x'') 5
                       @ take (nat (WIDTH_of pw - 7)) (productName item)) @ [LF]
          @ (if details item = [] then []
             else text_encode (''     '' @ take (nat (WIDTH_of pw - 5)) (details item)) @ [LF])) its)
   \<and> buffer (fold (invoice_item_step h (WIDTH_of pw)) its e) =
       buffer e @ concat (map (\<lambda>item.
          text_encode (invoice_item_row h (WIDTH_of pw) item) @ [LF]
          @ (if details item = [] then []
             else text_encode (''     '' @ take (nat (WIDTH_of pw - 5)) (details item)) @ [LF])) its)
   \<and> (0 \<le> charsPerLine e \<longrightarrow>
        invoice_totals h data e =
          Inr (feed 1 (bold False
            (line (''TOTAL:''
                   @ replicate (nat (max (charsPerLine e - 6
                        - int (length (jsnum_string h (parseNumber h (summaryTotal data))))) 1)) SP
                   @ jsnum_string h (parseNumber h (summaryTotal data)))
              (bold True (line (replicate (nat (charsPerLine e)) CHR ''-'') e))))))
   \<and> (\<forall>x. parseNumber h (summaryTotal data) = Finite x \<and> \<not> safe_integer x \<longrightarrow>
          jsnum_string h (parseNumber h (summaryTotal data)) = numberText h x)"
proof -
  have q: "int (length (padEnd (jsnum_string h (quantity item) @ ''x'') 5))
       = max (int (length (jsnum_string h (quantity item))) + 1) 5"
    by (simp add: padEnd_length)
  have q5: "length (jsnum_string h (quantity item)) \<le> 4 \<longrightarrow>
        length (padEnd (jsnum_string h (quantity item) @ ''x'') 5) = 5"
    using q by auto
  have qt: "\<forall>q. quantity item = Finite q \<and> safe_integer q \<longrightarrow>
          jsnum_string h (quantity item) = int_string \<lfloor>q\<rfloor>"
    by (simp add: safe_integer_string)
  have n7: "int (length (take (nat (WIDTH_of pw - 7)) (productName item))) \<le> WIDTH_of pw - 7"
    by (simp add: WIDTH_of_def)
  have n17: "int (length (take (nat (WIDTH_of pw - 17)) (productName item))) \<le> WIDTH_of pw - 17"
    by (simp add: WIDTH_of_def)
  have d5: "int (length (''     '' @ take (nat (WIDTH_of pw - 5)) (details item))) \<le> WIDTH_of pw"
    by (simp add: WIDTH_of_def)
  have rd: "\<forall>x. subtotal item = Finite x \<and> \<bar>\<lfloor>x + 1 / 2\<rfloor>\<bar> \<le> 2 ^ 53 \<longrightarrow>
          jsnum_string h (math_round (subtotal item)) = int_string \<lfloor>x + 1 / 2\<rfloor>"
    using math_round_string[of _ h] by auto
  have s: "\<forall>x. parseNumber h (summaryTotal data) = Finite x \<and> \<not> safe_integer x \<longrightarrow>
          jsnum_string h (parseNumber h (summaryTotal data)) = numberText h x"
    by (simp add: jsnum_string_def number_string_def)
  show ?thesis
    using kot_item_eq [of h pw item e] invoice_item_step_eq [of h pw item e]
      invoice_item_row_eq [of h pw item] q q5 qt n7 n17 d5
      invoice_item_row_length [of h item pw] rd
      kot_items_buffer [of h pw its e] invoice_items_buffer [of h pw its e]
      invoice_totals_eq [of e h data] s
    by blast
qed

theorem item_rows_layout_witness:
  "length (jsnum_string \<lparr>toLocaleString = (\<lambda>t. t), numberText = (\<lambda>x. ''12.5''), parseNumber = (\<lambda>t. Finite (25 / 2)), numberSum = (\<lambda>a b. NaN)\<rparr>
      (quantity \<lparr>productName = ''Chicken Biryani Special Family Pack'', details = ''extra raita'',
                 quantity = Finite 2, subtotal = Finite (1251 / 2)\<rparr>)) \<le> 4
   \<and> length (jsnum_string \<lparr>toLocaleString = (\<lambda>t. t), numberText = (\<lambda>x. ''12.5''), parseNumber = (\<lambda>t. Finite (25 / 2)), numberSum = (\<lambda>a b. NaN)\<rparr> (math_round (Finite (1251 / 2)))) \<le> 8
   \<and> safe_integer 2
   \<and> \<bar>\<lfloor>(1251 / 2 :: rat) + 1 / 2\<rfloor>\<bar> \<le> 2 ^ 53
   \<and> invoice_item_row \<lparr>toLocaleString = (\<lambda>t. t), numberText = (\<lambda>x. ''12.5''), parseNumber = (\<lambda>t. Finite (25 / 2)), numberSum = (\<lambda>a b. NaN)\<rparr>
         (WIDTH_of P58)
         \<lparr>productName = ''Chicken Biryani Special Family Pack'', details = ''extra raita'',
           quantity = Finite 2, subtotal = Finite (1251 / 2)\<rparr>
       = ''2x   Chicken Biryani ..     626''
   \<and> int (length ''2x   Chicken Biryani ..     626'') = WIDTH_of P58 - 1
   \<and> 0 \<le> charsPerLine (new_encoder P58)
   \<and> parseNumber \<lparr>toLocaleString = (\<lambda>t. t), numberText = (\<lambda>x. ''12.5''), parseNumber = (\<lambda>t. Finite (25 / 2)), numberSum = (\<lambda>a b. NaN)\<rparr> ''12.50''
       = Finite (25 / 2)
   \<and> \<not> safe_integer (25 / 2)
   \<and> jsnum_string \<lparr>toLocaleString = (\<lambda>t. t), numberText = (\<lambda>x. ''12.5''), parseNumber = (\<lambda>t. Finite (25 / 2)), numberSum = (\<lambda>a b. NaN)\<rparr>
         (Finite (25 / 2)) = ''12.5''"
proof -
  let ?h = "\<lparr>toLocaleString = (\<lambda>t. t), numberText = (\<lambda>x. ''12.5''), parseNumber = (\<lambda>t. Finite (25 / 2)), numberSum = (\<lambda>a b. NaN)\<rparr>"
  let ?item = "\<lparr>productName = ''Chicken Biryani Special Family Pack'', details = ''extra raita'',
                     quantity = Finite 2, subtotal = Finite (1251 / 2)\<rparr>"
  let ?data = "\<lparr>invoiceNumber = ''1'', guestNumber = None, specialNotes = None, tableNumber = None,
      date = ''2024-01-01'', customerName = ''A'', customerPhone = ''0'', items = [?item],
      summaryTotal = ''12.50'', paymentMethod = Cash, paymentStatus = ''paid'',
      paidAmount = Finite (25 / 2), remainingAmount = Finite 0, businessName = ''B'',
      businessAddress = ''C'', businessPhone = ''1''\<rparr>"
  note main = item_rows_layout [of ?h P58 ?item "new_encoder P58" "[?item]" ?data]
  have s2: "safe_integer 2"
    by (simp add: safe_integer_def is_integer_def)
  have fl2: "\<lfloor>2 :: rat\<rfloor> = 2" by simp
  from main have "\<forall>q. quantity ?item = Finite q \<and> safe_integer q \<longrightarrow>
      jsnum_string ?h (quantity ?item) = int_string \<lfloor>q\<rfloor>"
    by blast
  then have "quantity ?item = Finite 2 \<and> safe_integer 2 \<longrightarrow>
      jsnum_string ?h (quantity ?item) = int_string \<lfloor>2 :: rat\<rfloor>"
    by (rule spec)
  with s2 have "jsnum_string ?h (quantity ?item) = int_string \<lfloor>2 :: rat\<rfloor>"
    by simp
  then have qs: "jsnum_string ?h (quantity ?item) = ''2''"
    by (simp add: int_string_def nat_string.simps digit_char_def)
  have a: "length (jsnum_string ?h (quantity ?item)) \<le> 4"
    unfolding qs by simp
  have c: "\<bar>\<lfloor>(1251 / 2 :: rat) + 1 / 2\<rfloor>\<bar> \<le> 2 ^ 53"
    by simp
  have fl: "\<lfloor>(1251 / 2 :: rat) + 1 / 2\<rfloor> = 626" by simp
  from main have "\<forall>x. subtotal ?item = Finite x \<and> \<bar>\<lfloor>x + 1 / 2\<rfloor>\<bar> \<le> 2 ^ 53 \<longrightarrow>
      jsnum_string ?h (math_round (subtotal ?item)) = int_string \<lfloor>x + 1 / 2\<rfloor>"
    by blast
  then have "subtotal ?item = Finite (1251 / 2) \<and> \<bar>\<lfloor>(1251 / 2 :: rat) + 1 / 2\<rfloor>\<bar> \<le> 2 ^ 53 \<longrightarrow>
      jsnum_string ?h (math_round (subtotal ?item)) = int_string \<lfloor>(1251 / 2 :: rat) + 1 / 2\<rfloor>"
    by (rule spec)
  with c have "jsnum_string ?h (math_round (subtotal ?item)) = int_string \<lfloor>(1251 / 2 :: rat) + 1 / 2\<rfloor>"
    by simp
  then have r: "jsnum_string ?h (math_round (Finite (1251 / 2))) = ''626''"
    unfolding fl by (simp add: int_string_def nat_string.simps digit_char_def)
  have b: "length (jsnum_string ?h (math_round (subtotal ?item))) \<le> 8"
    by (simp add: r)
  from main have "invoice_item_row ?h (WIDTH_of P58) ?item =
       padEnd (jsnum_string ?h (quantity ?item) @ ''x'') 5
       @ padEnd (take (nat (WIDTH_of P58 - 17)) (productName ?item)) (WIDTH_of P58 - 16)
       @ ''..''
       @ padStart (jsnum_string ?h (math_round (subtotal ?item))) 8"
    by blast
  then have row: "invoice_item_row ?h (WIDTH_of P58) ?item = ''2x   Chicken Biryani ..     626''"
    unfolding qs by (simp add: r WIDTH_of_def padEnd_def padStart_def SP_def replicate_numeral)
  from main a b have len: "int (length (invoice_item_row ?h (WIDTH_of P58) ?item)) = WIDTH_of P58 - 1"
    by blast
  have e: "0 \<le> charsPerLine (new_encoder P58)"
    by (simp add: new_encoder_def initialize_def paper_chars_def)
  have fl': "\<lfloor>25 / 2 :: rat\<rfloor> = 12"
    by (rule floor_unique) simp_all
  have ni: "\<not> safe_integer (25 / 2)"
    unfolding safe_integer_def is_integer_def fl' by simp
  from main have "\<forall>x. parseNumber ?h (summaryTotal ?data) = Finite x \<and> \<not> safe_integer x \<longrightarrow>
      jsnum_string ?h (parseNumber ?h (summaryTotal ?data)) = numberText ?h x"
    by blast
  then have "parseNumber ?h (summaryTotal ?data) = Finite (25 / 2) \<and> \<not> safe_integer (25 / 2) \<longrightarrow>
      jsnum_string ?h (parseNumber ?h (summaryTotal ?data)) = numberText ?h (25 / 2)"
    by (rule spec)
  with ni have "jsnum_string ?h (parseNumber ?h (summaryTotal ?data)) = numberText ?h (25 / 2)"
    by simp
  then have j: "jsnum_string ?h (Finite (25 / 2)) = ''12.5''"
    by simp
  show ?thesis using a r s2 c row len e ni j by simp
qed

theorem item_rows_counterexample:
  "kot_item \<lparr>toLocaleString = (\<lambda>t. t), numberText = (\<lambda>x. []), parseNumber = (\<lambda>t. NaN), numberSum = (\<lambda>a b. NaN)\<rparr> (WIDTH_of P58)
       \<lparr>productName = ''Chicken Biryani Special Family Pack'', details = [],
         quantity = Finite 2, subtotal = Finite 0\<rparr>
       (new_encoder P58)
     = line ''2x   Chicken Biryani Special F'' (new_encoder P58)
   \<and> ''2x   '' @ slice0 ''Chicken Biryani Special Family Pack'' (spec_name_width False (WIDTH_of P58))
       = ''2x   Chicken Biryani Special Fam''
   \<and> invoice_item_row \<lparr>toLocaleString = (\<lambda>t. t), numberText = (\<lambda>x. []), parseNumber = (\<lambda>t. NaN), numberSum = (\<lambda>a b. NaN)\<rparr>
         (WIDTH_of P58)
         \<lparr>productName = ''Chicken Biryani Special Family Pack'', details = [],
           quantity = Finite 2, subtotal = Finite 0\<rparr>
       = ''2x   Chicken Biryani ..       0''
   \<and> slice0 ''Chicken Biryani Special Family Pack'' (spec_name_width True (WIDTH_of P58))
       = ''Chicken Biryani S''
   \<and> kot_item \<lparr>toLocaleString = (\<lambda>t. t), numberText = (\<lambda>x. []), parseNumber = (\<lambda>t. NaN), numberSum = (\<lambda>a b. NaN)\<rparr> (WIDTH_of P58)
       \<lparr>productName = ''Chicken Biryani Special Family Pack'', details = [],
         quantity = Finite 2, subtotal = Finite 0\<rparr>
       (new_encoder P58)
     \<noteq> line (''2x   '' @ slice0 ''Chicken Biryani Special Family Pack''
                              (spec_name_width False (WIDTH_of P58))) (new_encoder P58)
   \<and> \<not> prefix (''2x   '' @ slice0 ''Chicken Biryani Special Family Pack''
                              (spec_name_width True (WIDTH_of P58)))
         (invoice_item_row \<lparr>toLocaleString = (\<lambda>t. t), numberText = (\<lambda>x. []), parseNumber = (\<lambda>t. NaN), numberSum = (\<lambda>a b. NaN)\<rparr>
            (WIDTH_of P58)
            \<lparr>productName = ''Chicken Biryani Special Family Pack'', details = [],
              quantity = Finite 2, subtotal = Finite 0\<rparr>)
   \<and> padEnd (jsnum_string \<lparr>toLocaleString = (\<lambda>t. t), numberText = (\<lambda>x. []), parseNumber = (\<lambda>t. NaN), numberSum = (\<lambda>a b. NaN)\<rparr> (Finite 10000) @ ''x'') 5 = ''10000x''
   \<and> length (padEnd (jsnum_string \<lparr>toLocaleString = (\<lambda>t. t), numberText = (\<lambda>x. []), parseNumber = (\<lambda>t. NaN), numberSum = (\<lambda>a b. NaN)\<rparr> (Finite 10000) @ ''x'') 5) \<noteq> 5"
  by (simp add: kot_item_def invoice_item_row_def Let_def slice0_def WIDTH_of_def spec_name_width_def
      padEnd_def padStart_def SP_def jsnum_string_def number_string_def math_round_def
      safe_integer_def is_integer_def
      int_string_def nat_string.simps digit_char_def replicate_numeral
      line_def text_out_def text_encode_def utf8_unit_def new_encoder_def initialize_def)

subsection \<open>Which primitives can throw\<close>

lemma charsPerLine_ops [simp]:
  "charsPerLine (line s e) = charsPerLine e"
  "charsPerLine (raw bs e) = charsPerLine e"
  "charsPerLine (bold b e) = charsPerLine e"
  "charsPerLine (align a e) = charsPerLine e"
  "charsPerLine (size_cmd z e) = charsPerLine e"
  "charsPerLine (text_out s e) = charsPerLine e"
  by (simp_all add: line_def text_out_def raw_def bold_def align_def size_cmd_def Let_def)

lemma charsPerLine_feed [simp]: "charsPerLine (feed n e) = charsPerLine e"
  by (induction n arbitrary: e) simp_all

lemma charsPerLine_cut [simp]: "charsPerLine (cut p e) = charsPerLine e"
  by (simp add: cut_def)

lemma charsPerLine_fold_line [simp]: "charsPerLine (fold line ls e) = charsPerLine e"
  by (induction ls arbitrary: e) simp_all

lemma charsPerLine_wrap [simp]: "charsPerLine (wrap s e) = charsPerLine e"
  by (simp add: wrap_def)

lemma charsPerLine_new [simp]: "charsPerLine (new_encoder pw) = paper_chars pw"
  by (simp add: new_encoder_def initialize_def)

lemma paper_chars_nonneg [simp]: "0 \<le> paper_chars pw"
  by (cases pw) (simp_all add: paper_chars_def)

lemma charsPerLine_kot_item [simp]: "charsPerLine (kot_item h W item e) = charsPerLine e"
  by (simp add: kot_item_def Let_def)

lemma charsPerLine_kot_items [simp]: "charsPerLine (fold (kot_item h W) its e) = charsPerLine e"
  by (induction its arbitrary: e) simp_all

lemma charsPerLine_invoice_step [simp]:
  "charsPerLine (invoice_item_step h W item e) = charsPerLine e"
  by (simp add: invoice_item_step_def Let_def)

lemma charsPerLine_invoice_steps [simp]:
  "charsPerLine (fold (invoice_item_step h W) its e) = charsPerLine e"
  by (induction its arbitrary: e) simp_all

lemma separator_some:
  "0 \<le> charsPerLine e \<Longrightarrow> \<exists>e'. separator ''-'' e = Inr e' \<and> charsPerLine e' = charsPerLine e"
  by (simp add: separator_ok)

lemma twoColumn_some:
  "\<exists>e'. twoColumn left right e = Inr e' \<and> charsPerLine e' = charsPerLine e"
  by (simp add: twoColumn_ok)

lemma generateKOT_total: "\<exists>bytes. generateKOT h data pw = Inr bytes"
proof -
  let ?e0 = "new_encoder pw"
  obtain e1 where e1: "kot_header h data ?e0 = Inr e1" "charsPerLine e1 = paper_chars pw"
    by (simp add: kot_header_def Let_def separator_ok bind_result_def)
  let ?e2 = "kot_table_guest h data e1"
  have c2: "charsPerLine ?e2 = paper_chars pw"
    by (simp add: kot_table_guest_def Let_def e1)
  obtain e3 where e3: "kot_items h (WIDTH_of pw) data ?e2 = Inr e3" "charsPerLine e3 = paper_chars pw"
    by (simp add: kot_items_def Let_def separator_ok c2 bind_result_def)
  obtain e4 where e4: "kot_footer h data e3 = Inr e4"
    by (simp add: kot_footer_def Let_def separator_ok e3 bind_result_def)
  show ?thesis
    by (simp add: generateKOT_def Let_def e1 e3 e4 bind_result_def)
qed

lemma generateInvoice_total: "\<exists>bytes. generateInvoice h data pw = Inr bytes"
proof -
  let ?e0 = "new_encoder pw"
  obtain e1 where e1: "invoice_header data ?e0 = Inr e1" "charsPerLine e1 = paper_chars pw"
    by (simp add: invoice_header_def Let_def separator_ok bind_result_def)
  obtain e2 where e2: "invoice_meta h data e1 = Inr e2" "charsPerLine e2 = paper_chars pw"
    by (simp add: invoice_meta_def Let_def separator_ok e1)
  let ?e3 = "invoice_items h (WIDTH_of pw) data e2"
  have c3: "charsPerLine ?e3 = paper_chars pw"
    by (simp add: invoice_items_def Let_def e2)
  obtain e4 where e4: "invoice_totals h data ?e3 = Inr e4" "charsPerLine e4 = paper_chars pw"
    by (simp add: invoice_totals_def separator_ok twoColumn_ok c3 bind_result_def)
  have "\<exists>e5. invoice_payment h data e4 = Inr e5 \<and> charsPerLine e5 = paper_chars pw"
    by (cases "greater_zero (remainingAmount data)")
       (simp_all add: invoice_payment_def Let_def twoColumn_ok e4 bind_result_def)
  then obtain e5 where e5: "invoice_payment h data e4 = Inr e5" "charsPerLine e5 = paper_chars pw"
    by blast
  obtain e6 where e6: "invoice_footer e5 = Inr e6"
    by (simp add: invoice_footer_def Let_def separator_ok e5 bind_result_def)
  show ?thesis
    by (simp add: generateInvoice_def Let_def e1 e2 e4 e5 e6 bind_result_def)
qed

text \<open>
  Claim C7. \<open>twoColumn\<close>, \<open>centerText\<close>, \<open>wrap\<close> and the two receipt generators return a
  result for every input (lemmas \<open>twoColumn_ok\<close>, \<open>centerText_ok\<close>, \<open>generateKOT_total\<close>,
  \<open>generateInvoice_total\<close>). \<open>threeColumn\<close> does not clamp: it throws a RangeError exactly
  when the three texts together are longer than the line budget, as for two texts of 16
  characters and one of 1 on 58 mm paper (budget 32).
\<close>

theorem threeColumn_throws:
  "(threeColumn left center right e = Inl RangeError)
     = (charsPerLine e < int (length left) + int (length center) + int (length right))
   \<and> threeColumn ''AAAAAAAAAAAAAAAA'' ''BBBBBBBBBBBBBBBB'' ''C'' (new_encoder P58) = Inl RangeError"
proof -
  let ?rem = "charsPerLine e - (int (length left) + int (length center) + int (length right))"
  have gaps: "threeColumn_gaps (charsPerLine e) left center right = (?rem div 2, ?rem - ?rem div 2)"
    by (simp add: threeColumn_gaps_def Let_def)
  have a: "(threeColumn left center right e = Inl RangeError) = (?rem < 0)"
  proof (cases "?rem < 0")
    case True
    then have "?rem div 2 < 0" by simp
    then show ?thesis using True
      by (simp add: threeColumn_def threeColumn_text_def gaps repeat_def bind_result_def)
  next
    case False
    then have "0 \<le> ?rem div 2" "0 \<le> ?rem - ?rem div 2" by simp_all
    then show ?thesis using False
      by (simp add: threeColumn_def threeColumn_text_def gaps repeat_def bind_result_def)
  qed
  have b: "threeColumn ''AAAAAAAAAAAAAAAA'' ''BBBBBBBBBBBBBBBB'' ''C'' (new_encoder P58) = Inl RangeError"
    by (simp add: threeColumn_def threeColumn_text_def threeColumn_gaps_def new_encoder_def
        initialize_def paper_chars_def repeat_def bind_result_def)
  have "(?rem < 0) = (charsPerLine e < int (length left) + int (length center) + int (length right))"
    by auto
  with a b show ?thesis by simp
qed

section \<open>Properties of the printer storage\<close>

lemma next_fault_printers [simp]:
  "printersItem (snd (next_fault b)) = printersItem b"
  by (simp add: next_fault_def split: list.splits)

lemma getAllPrinters_cases:
  assumes "getAllPrinters b = (ps, b1)"
  shows "printersItem b1 = printersItem b \<and> (ps = stored b \<or> ps = [])"
  using assms
  by (auto simp: getAllPrinters_def getItem_printers_def next_fault_def stored_def
      split: prod.splits list.splits if_splits option.splits sum.splits)

lemma setItem_printers_cases:
  assumes "setItem_printers ps b = (r, b1)"
  shows "(r = Inr () \<and> printersItem b1 = Some ps) \<or> (r = Inl StorageError \<and> printersItem b1 = printersItem b)"
  using assms
  by (auto simp: setItem_printers_def next_fault_def split: prod.splits list.splits if_splits)

lemma setItem_default_printers:
  assumes "setItem_default v b = (r, b1)"
  shows "printersItem b1 = printersItem b"
  using assms
  by (auto simp: setItem_default_def next_fault_def split: prod.splits list.splits if_splits)

lemma removeItem_default_printers:
  assumes "removeItem_default b = (r, b1)"
  shows "printersItem b1 = printersItem b"
  using assms
  by (auto simp: removeItem_default_def next_fault_def split: prod.splits list.splits if_splits)

lemma getDefaultPrinterId_printers:
  assumes "getDefaultPrinterId b = (v, b1)"
  shows "printersItem b1 = printersItem b"
  using assms
  by (auto simp: getDefaultPrinterId_def getItem_default_def next_fault_def
      split: prod.splits list.splits if_splits sum.splits)

lemma stored_eq: "printersItem b1 = printersItem b \<Longrightarrow> stored b1 = stored b"
  by (simp add: stored_def)

lemma stored_Some: "printersItem b = Some ps \<Longrightarrow> stored b = ps"
  by (simp add: stored_def)

lemma filter_default_flagged:
  "filter cfg_isDefault (map (\<lambda>p. p\<lparr>cfg_isDefault := (cfg_id p = i)\<rparr>) ps)
     = filter (\<lambda>p. cfg_id p = i) (map (\<lambda>p. p\<lparr>cfg_isDefault := (cfg_id p = i)\<rparr>) ps)"
  by (induction ps) auto

lemma ids_flagged:
  "map cfg_id (map (\<lambda>p. p\<lparr>cfg_isDefault := f p\<rparr>) ps) = map cfg_id ps"
  by (induction ps) auto

lemma filter_id_absent: "i \<notin> cfg_id ` set ps \<Longrightarrow> filter (\<lambda>p. cfg_id p = i) ps = []"
  by (induction ps) auto

lemma filter_id_single:
  "distinct (map cfg_id ps) \<Longrightarrow> i \<in> cfg_id ` set ps \<Longrightarrow>
     \<exists>p. filter (\<lambda>p. cfg_id p = i) ps = [p] \<and> cfg_id p = i"
proof (induction ps)
  case Nil
  then show ?case by simp
next
  case (Cons q qs)
  show ?case
  proof (cases "cfg_id q = i")
    case True
    then have "i \<notin> cfg_id ` set qs" using Cons.prems(1) by auto
    then have "filter (\<lambda>p. cfg_id p = i) qs = []" by (rule filter_id_absent)
    then show ?thesis using True by simp
  next
    case False
    then have "i \<in> cfg_id ` set qs" using Cons.prems(2) by auto
    then show ?thesis using Cons.IH Cons.prems(1) False by simp
  qed
qed

lemma filter_id_le1:
  "distinct (map cfg_id ps) \<Longrightarrow> length (filter (\<lambda>p. cfg_id p = i) ps) \<le> 1"
proof (cases "i \<in> cfg_id ` set ps")
  case True
  assume "distinct (map cfg_id ps)"
  then obtain p where "filter (\<lambda>p. cfg_id p = i) ps = [p]" using True filter_id_single by blast
  then show ?thesis by simp
next
  case False
  then show ?thesis by (simp add: filter_id_absent)
qed

lemma flagged_ok:
  assumes "distinct_ids ps"
  shows "distinct_ids (map (\<lambda>p. p\<lparr>cfg_isDefault := (cfg_id p = i)\<rparr>) ps)"
    and "at_most_one_default (map (\<lambda>p. p\<lparr>cfg_isDefault := (cfg_id p = i)\<rparr>) ps)"
proof -
  let ?u = "map (\<lambda>p. p\<lparr>cfg_isDefault := (cfg_id p = i)\<rparr>) ps"
  show d: "distinct_ids ?u"
    unfolding distinct_ids_def ids_flagged using assms[unfolded distinct_ids_def] .
  then have "length (filter (\<lambda>p. cfg_id p = i) ?u) \<le> 1"
    unfolding distinct_ids_def by (rule filter_id_le1)
  then show "at_most_one_default ?u"
    by (simp only: at_most_one_default_def filter_default_flagged)
qed

lemma findIndex_Some: "findIndex P xs = Some k \<Longrightarrow> k < length xs \<and> P (xs ! k)"
  by (induction xs arbitrary: k) (auto split: if_splits)

lemma findIndex_None: "findIndex P xs = None \<Longrightarrow> \<forall>x\<in>set xs. \<not> P x"
  by (induction xs) (auto split: if_splits)

lemma save_list_distinct:
  assumes "distinct_ids ps"
  shows "distinct_ids (save_list p ps)"
proof (cases "findIndex (\<lambda>q. cfg_id q = cfg_id p) ps")
  case None
  from findIndex_None[OF None] have "cfg_id p \<notin> cfg_id ` set ps" by auto
  then show ?thesis using assms None by (simp add: save_list_def distinct_ids_def)
next
  case (Some k)
  then have k: "k < length ps" "cfg_id (ps ! k) = cfg_id p" using findIndex_Some by fastforce+
  have "map cfg_id (ps[k := p]) = (map cfg_id ps)[k := cfg_id p]" by (simp add: map_update)
  also have "\<dots> = map cfg_id ps" using k by (metis list_update_id nth_map)
  finally show ?thesis using assms Some by (simp add: save_list_def distinct_ids_def)
qed

lemma filter_update_le:
  "\<not> P y \<Longrightarrow> length (filter P (xs[k := y])) \<le> length (filter P xs)"
proof (induction xs arbitrary: k)
  case Nil
  then show ?case by simp
next
  case (Cons x xs)
  then show ?case by (cases k) (auto simp: le_SucI)
qed

lemma save_list_defaults:
  assumes "\<not> cfg_isDefault p" "at_most_one_default ps"
  shows "at_most_one_default (save_list p ps)"
proof (cases "findIndex (\<lambda>q. cfg_id q = cfg_id p) ps")
  case None
  then show ?thesis using assms by (simp add: save_list_def at_most_one_default_def)
next
  case (Some k)
  have "length (filter cfg_isDefault (ps[k := p])) \<le> length (filter cfg_isDefault ps)"
    using assms(1) by (rule filter_update_le)
  then show ?thesis using assms(2) Some by (simp add: save_list_def at_most_one_default_def)
qed

lemma filter_le: "at_most_one_default ps \<Longrightarrow> at_most_one_default (filter Q ps)"
proof -
  have "length (filter cfg_isDefault (filter Q ps)) \<le> length (filter cfg_isDefault ps)"
    by (induction ps) auto
  then show "at_most_one_default ps \<Longrightarrow> at_most_one_default (filter Q ps)"
    by (simp add: at_most_one_default_def)
qed

lemma setDefaultPrinter_ok:
  assumes "setDefaultPrinter i b = (Inr (), b')"
  shows "\<exists>ps. stored b' = map (\<lambda>p. p\<lparr>cfg_isDefault := (cfg_id p = i)\<rparr>) ps \<and> (ps = stored b \<or> ps = [])"
proof -
  obtain ps b1 where g: "getAllPrinters b = (ps, b1)" by (cases "getAllPrinters b")
  let ?u = "map (\<lambda>p. p\<lparr>cfg_isDefault := (cfg_id p = i)\<rparr>) ps"
  obtain r b2 where w: "setItem_printers ?u b1 = (r, b2)" by (cases "setItem_printers ?u b1")
  from assms g w have r: "r = Inr ()" and d: "setItem_default i b2 = (Inr (), b')"
    by (auto simp: setDefaultPrinter_def Let_def split: sum.splits)
  from w r setItem_printers_cases have "printersItem b2 = Some ?u" by blast
  with setItem_default_printers[OF d] have "stored b' = ?u" by (simp add: stored_def)
  with getAllPrinters_cases[OF g] show ?thesis by blast
qed

lemma setDefaultPrinter_any:
  assumes "setDefaultPrinter i b = (r, b')"
  shows "stored b' = stored b \<or> (\<exists>ps. stored b' = map (\<lambda>p. p\<lparr>cfg_isDefault := (cfg_id p = i)\<rparr>) ps \<and> (ps = stored b \<or> ps = []))"
proof -
  obtain ps b1 where g: "getAllPrinters b = (ps, b1)" by (cases "getAllPrinters b")
  let ?u = "map (\<lambda>p. p\<lparr>cfg_isDefault := (cfg_id p = i)\<rparr>) ps"
  obtain r2 b2 where w: "setItem_printers ?u b1 = (r2, b2)" by (cases "setItem_printers ?u b1")
  note gc = getAllPrinters_cases[OF g]
  show ?thesis
  proof (cases r2)
    case (Inl e)
    with assms g w have "b' = b2" by (simp add: setDefaultPrinter_def Let_def)
    moreover from w Inl setItem_printers_cases have "printersItem b2 = printersItem b1" by blast
    ultimately show ?thesis using gc by (simp add: stored_def)
  next
    case (Inr u)
    with assms g w have d: "setItem_default i b2 = (r, b')" by (simp add: setDefaultPrinter_def Let_def)
    from w Inr setItem_printers_cases have "printersItem b2 = Some ?u" by blast
    with setItem_default_printers[OF d] have "stored b' = ?u" by (simp add: stored_def)
    with gc show ?thesis by blast
  qed
qed

lemma setDefaultPrinter_inv:
  assumes "setDefaultPrinter i b = (r, b')" "distinct_ids (stored b)" "at_most_one_default (stored b)"
  shows "distinct_ids (stored b') \<and> at_most_one_default (stored b')"
proof -
  from setDefaultPrinter_any[OF assms(1)]
  consider "stored b' = stored b"
    | "stored b' = map (\<lambda>p. p\<lparr>cfg_isDefault := (cfg_id p = i)\<rparr>) (stored b)"
    | "stored b' = []"
    by auto
  then show ?thesis
  proof cases
    case 1
    then show ?thesis using assms by simp
  next
    case 2
    then show ?thesis using flagged_ok[OF assms(2), of i] by simp
  next
    case 3
    then show ?thesis by (simp add: distinct_ids_def at_most_one_default_def)
  qed
qed

lemma savePrinter_inv:
  assumes "savePrinter p b = (Inr (), b')" "distinct_ids (stored b)" "at_most_one_default (stored b)"
  shows "distinct_ids (stored b') \<and> at_most_one_default (stored b')"
proof -
  obtain ps b1 where g: "getAllPrinters b = (ps, b1)" by (cases "getAllPrinters b")
  let ?l = "save_list p ps"
  obtain r2 b2 where w: "setItem_printers ?l b1 = (r2, b2)" by (cases "setItem_printers ?l b1")
  from assms(1) g w have r2: "r2 = Inr ()"
    by (auto simp: savePrinter_def Let_def save_list_def split: sum.splits)
  with w setItem_printers_cases have s2: "stored b2 = ?l" by (metis stored_Some sum.distinct(1))
  from getAllPrinters_cases[OF g] assms(2,3) have ps: "distinct_ids ps" "at_most_one_default ps"
    by (auto simp: distinct_ids_def at_most_one_default_def)
  have d2: "distinct_ids (stored b2)" unfolding s2 using ps(1) by (rule save_list_distinct)
  show ?thesis
  proof (cases "cfg_isDefault p")
    case True
    with assms(1) g w r2 have sd: "setDefaultPrinter (cfg_id p) b2 = (Inr (), b')"
      by (simp add: savePrinter_def Let_def save_list_def)
    from setDefaultPrinter_ok[OF sd] obtain qs where
      qs: "stored b' = map (\<lambda>q. q\<lparr>cfg_isDefault := (cfg_id q = cfg_id p)\<rparr>) qs" "qs = stored b2 \<or> qs = []"
      by blast
    from qs(2) d2 have "distinct_ids qs" by (auto simp: distinct_ids_def)
    from flagged_ok[OF this, of "cfg_id p"] qs(1) show ?thesis by simp
  next
    case False
    with assms(1) g w r2 have "b' = b2" by (simp add: savePrinter_def Let_def save_list_def)
    moreover have "at_most_one_default (stored b2)"
      unfolding s2 using False ps(2) by (rule save_list_defaults)
    ultimately show ?thesis using d2 by simp
  qed
qed

lemma deletePrinter_inv:
  assumes "deletePrinter i b = (r, b')" "distinct_ids (stored b)" "at_most_one_default (stored b)"
  shows "distinct_ids (stored b') \<and> at_most_one_default (stored b')"
proof -
  obtain ps b1 where g: "getAllPrinters b = (ps, b1)" by (cases "getAllPrinters b")
  let ?f = "filter (\<lambda>p. cfg_id p \<noteq> i) ps"
  obtain r2 b2 where w: "setItem_printers ?f b1 = (r2, b2)" by (cases "setItem_printers ?f b1")
  note gc = getAllPrinters_cases[OF g]
  from gc assms(2,3) have ps: "distinct_ids ps" "at_most_one_default ps"
    by (auto simp: distinct_ids_def at_most_one_default_def)
  have f: "distinct_ids ?f \<and> at_most_one_default ?f"
    using ps filter_le[of ps] by (simp add: distinct_ids_def distinct_map_filter)
  show ?thesis
  proof (cases r2)
    case (Inl e)
    with assms(1) g w have "b' = b2" by (simp add: deletePrinter_def Let_def)
    moreover from w Inl setItem_printers_cases have "printersItem b2 = printersItem b1" by blast
    ultimately show ?thesis using gc assms(2,3) by (simp add: stored_def)
  next
    case (Inr u)
    from w Inr setItem_printers_cases have s2: "stored b2 = ?f" by (metis stored_Some sum.distinct(1))
    obtain v b3 where d: "getDefaultPrinterId b2 = (v, b3)" by (cases "getDefaultPrinterId b2")
    have s3: "stored b3 = ?f" using getDefaultPrinterId_printers[OF d] s2 by (simp add: stored_def)
    have "stored b' = ?f"
    proof (cases "v = Some i")
      case True
      with assms(1) g w Inr d have "removeItem_default b3 = (r, b')"
        by (simp add: deletePrinter_def Let_def)
      from removeItem_default_printers[OF this] s3 show ?thesis by (simp add: stored_def)
    next
      case False
      with assms(1) g w Inr d have "b' = b3" by (simp add: deletePrinter_def Let_def)
      with s3 show ?thesis by simp
    qed
    with f show ?thesis by simp
  qed
qed

lemma updateLastConnected_inv:
  assumes "updateLastConnected i now b = (Inr (), b')" "distinct_ids (stored b)" "at_most_one_default (stored b)"
  shows "distinct_ids (stored b') \<and> at_most_one_default (stored b')"
proof -
  obtain ps b1 where g: "getAllPrinters b = (ps, b1)" by (cases "getAllPrinters b")
  from getAllPrinters_cases[OF g] have b1: "stored b1 = stored b" by (simp add: stored_def)
  show ?thesis
  proof (cases "find (\<lambda>p. cfg_id p = i) ps")
    case None
    with assms(1) g have "b' = b1" by (simp add: updateLastConnected_def getPrinterById_def)
    with b1 assms(2,3) show ?thesis by simp
  next
    case (Some q)
    with assms(1) g have "savePrinter (q\<lparr>cfg_lastConnected := Some now\<rparr>) b1 = (Inr (), b')"
      by (simp add: updateLastConnected_def getPrinterById_def)
    then show ?thesis
      using savePrinter_inv[of "q\<lparr>cfg_lastConnected := Some now\<rparr>" b1 b'] assms(2,3) b1 by simp
  qed
qed

lemma clearAll_inv:
  assumes "clearAll b = (r, b')" "distinct_ids (stored b)" "at_most_one_default (stored b)"
  shows "distinct_ids (stored b') \<and> at_most_one_default (stored b')"
  using assms
  by (auto simp: clearAll_def multiRemove_all_def next_fault_def stored_def distinct_ids_def
      at_most_one_default_def split: prod.splits list.splits if_splits)

lemma getAllPrinters_read:
  assumes "getAllPrinters b = (ps, b1)"
  shows "ps = (if fst (next_fault b) then [] else stored b)"
  using assms
  by (auto simp: getAllPrinters_def getItem_printers_def next_fault_def stored_def
      split: prod.splits list.splits if_splits option.splits sum.splits)

lemma setDefaultPrinter_read:
  assumes "setDefaultPrinter i b = (Inr (), b')"
  shows "stored b' = map (\<lambda>p. p\<lparr>cfg_isDefault := (cfg_id p = i)\<rparr>)
                       (if fst (next_fault b) then [] else stored b)"
proof -
  obtain ps b1 where g: "getAllPrinters b = (ps, b1)" by (cases "getAllPrinters b")
  let ?u = "map (\<lambda>p. p\<lparr>cfg_isDefault := (cfg_id p = i)\<rparr>) ps"
  obtain r b2 where w: "setItem_printers ?u b1 = (r, b2)" by (cases "setItem_printers ?u b1")
  from assms g w have r: "r = Inr ()" and d: "setItem_default i b2 = (Inr (), b')"
    by (auto simp: setDefaultPrinter_def Let_def split: sum.splits)
  from w r setItem_printers_cases have "printersItem b2 = Some ?u" by blast
  with setItem_default_printers[OF d] have "stored b' = ?u" by (simp add: stored_def)
  then show ?thesis unfolding getAllPrinters_read[OF g] .
qed

text \<open>
  Claim C9, as the storage computes it. \<open>setDefaultPrinter(id)\<close> does not look whether the
  id is stored. The profiles stored before the call have pairwise distinct ids and the
  call completes. When the read of the list is not rejected by the backend
  (\<open>\<not> fst (next_fault b)\<close>: the read is the first call of the backend), the list stored
  afterwards is the list stored before with the flag set on the profiles with the given
  id and on no other: exactly one default, the profile with the id, when the id is among
  the profiles stored before the call, and none when it is not. When the read is rejected,
  \<open>getAllPrinters\<close> gives the empty list and the call stores it. In both cases the
  defaults afterwards are the stored profiles with the given id, and there is at most one.
  Distinct ids together with at most one default flag are preserved by
  \<open>setDefaultPrinter\<close>, \<open>deletePrinter\<close> and \<open>clearAll\<close> whatever their outcome, and by
  \<open>savePrinter\<close> and \<open>updateLastConnected\<close> when they complete without an error of the
  backend.
\<close>

theorem setDefault_at_most_one:
  "(setDefaultPrinter i b = (Inr (), b1) \<and> distinct_ids (stored b) \<longrightarrow>
      filter cfg_isDefault (stored b1) = filter (\<lambda>p. cfg_id p = i) (stored b1)
      \<and> at_most_one_default (stored b1)
      \<and> (\<not> fst (next_fault b) \<longrightarrow>
            stored b1 = map (\<lambda>p. p\<lparr>cfg_isDefault := (cfg_id p = i)\<rparr>) (stored b)
            \<and> (i \<in> cfg_id ` set (stored b) \<longrightarrow>
                  (\<exists>p. filter cfg_isDefault (stored b1) = [p] \<and> cfg_id p = i))
            \<and> (i \<notin> cfg_id ` set (stored b) \<longrightarrow> filter cfg_isDefault (stored b1) = []))
      \<and> (fst (next_fault b) \<longrightarrow> stored b1 = []))
   \<and> (distinct_ids (stored b) \<and> at_most_one_default (stored b) \<longrightarrow>
        (\<forall>r b'. setDefaultPrinter i b = (r, b') \<longrightarrow>
           distinct_ids (stored b') \<and> at_most_one_default (stored b'))
      \<and> (\<forall>b'. savePrinter p b = (Inr (), b') \<longrightarrow>
           distinct_ids (stored b') \<and> at_most_one_default (stored b'))
      \<and> (\<forall>r b'. deletePrinter i b = (r, b') \<longrightarrow>
           distinct_ids (stored b') \<and> at_most_one_default (stored b'))
      \<and> (\<forall>b'. updateLastConnected i now b = (Inr (), b') \<longrightarrow>
           distinct_ids (stored b') \<and> at_most_one_default (stored b'))
      \<and> (\<forall>r b'. clearAll b = (r, b') \<longrightarrow>
           distinct_ids (stored b') \<and> at_most_one_default (stored b')))"
proof -
  have first: "filter cfg_isDefault (stored b1) = filter (\<lambda>p. cfg_id p = i) (stored b1)
      \<and> at_most_one_default (stored b1)
      \<and> (\<not> fst (next_fault b) \<longrightarrow>
            stored b1 = map (\<lambda>p. p\<lparr>cfg_isDefault := (cfg_id p = i)\<rparr>) (stored b)
            \<and> (i \<in> cfg_id ` set (stored b) \<longrightarrow>
                  (\<exists>p. filter cfg_isDefault (stored b1) = [p] \<and> cfg_id p = i))
            \<and> (i \<notin> cfg_id ` set (stored b) \<longrightarrow> filter cfg_isDefault (stored b1) = []))
      \<and> (fst (next_fault b) \<longrightarrow> stored b1 = [])"
    if ok: "setDefaultPrinter i b = (Inr (), b1)" and d: "distinct_ids (stored b)"
  proof -
    let ?ps = "if fst (next_fault b) then [] else stored b"
    note ps = setDefaultPrinter_read[OF ok]
    have dps: "distinct_ids ?ps" using d by (simp add: distinct_ids_def)
    have eq: "filter cfg_isDefault (stored b1) = filter (\<lambda>p. cfg_id p = i) (stored b1)"
      unfolding ps by (rule filter_default_flagged)
    have d1: "distinct (map cfg_id (stored b1))"
      using flagged_ok(1)[OF dps, of i] ps by (simp add: distinct_ids_def)
    have am: "at_most_one_default (stored b1)"
      using flagged_ok(2)[OF dps, of i] ps by simp
    have rd: "stored b1 = map (\<lambda>p. p\<lparr>cfg_isDefault := (cfg_id p = i)\<rparr>) (stored b)"
      if "\<not> fst (next_fault b)"
      using ps that by simp
    have ids: "cfg_id ` set (stored b1) = cfg_id ` set (stored b)" if "\<not> fst (next_fault b)"
    proof -
      have "map cfg_id (stored b1) = map cfg_id (stored b)"
        unfolding rd[OF that] by (rule ids_flagged)
      then have "set (map cfg_id (stored b1)) = set (map cfg_id (stored b))" by simp
      then show ?thesis by simp
    qed
    have one: "\<exists>p. filter cfg_isDefault (stored b1) = [p] \<and> cfg_id p = i"
      if "\<not> fst (next_fault b)" "i \<in> cfg_id ` set (stored b)"
      unfolding eq using filter_id_single[OF d1, of i] that ids by blast
    have none: "filter cfg_isDefault (stored b1) = []"
      if "\<not> fst (next_fault b)" "i \<notin> cfg_id ` set (stored b)"
      unfolding eq using filter_id_absent[of i "stored b1"] that ids by blast
    have fl: "stored b1 = []" if "fst (next_fault b)"
      using ps that by simp
    from eq am rd one none fl show ?thesis by blast
  qed
  have second: "(\<forall>r b'. setDefaultPrinter i b = (r, b') \<longrightarrow>
           distinct_ids (stored b') \<and> at_most_one_default (stored b'))
      \<and> (\<forall>b'. savePrinter p b = (Inr (), b') \<longrightarrow>
           distinct_ids (stored b') \<and> at_most_one_default (stored b'))
      \<and> (\<forall>r b'. deletePrinter i b = (r, b') \<longrightarrow>
           distinct_ids (stored b') \<and> at_most_one_default (stored b'))
      \<and> (\<forall>b'. updateLastConnected i now b = (Inr (), b') \<longrightarrow>
           distinct_ids (stored b') \<and> at_most_one_default (stored b'))
      \<and> (\<forall>r b'. clearAll b = (r, b') \<longrightarrow>
           distinct_ids (stored b') \<and> at_most_one_default (stored b'))"
    if inv: "distinct_ids (stored b)" "at_most_one_default (stored b)"
    using setDefaultPrinter_inv[OF _ inv] savePrinter_inv[OF _ inv] deletePrinter_inv[OF _ inv]
      updateLastConnected_inv[OF _ inv] clearAll_inv[OF _ inv]
    by blast
  from first second show ?thesis by blast
qed

theorem setDefault_at_most_one_witness:
  "setDefaultPrinter ''net_2''
      \<lparr>printersItem = Some
          [\<lparr>cfg_id = ''bt_1'', cfg_name = ''Kitchen'', cfg_type = Bluetooth, cfg_address = ''AA:BB'',
            cfg_isDefault = True, cfg_paperWidth = P58, cfg_lastConnected = None\<rparr>,
           \<lparr>cfg_id = ''net_2'', cfg_name = ''Counter'', cfg_type = Network, cfg_address = ''10.0.0.2:9100'',
            cfg_isDefault = False, cfg_paperWidth = P80, cfg_lastConnected = None\<rparr>],
        defaultItem = Some ''bt_1'', settingsItem = None, faults = []\<rparr>
    = (Inr (),
      \<lparr>printersItem = Some
          [\<lparr>cfg_id = ''bt_1'', cfg_name = ''Kitchen'', cfg_type = Bluetooth, cfg_address = ''AA:BB'',
            cfg_isDefault = False, cfg_paperWidth = P58, cfg_lastConnected = None\<rparr>,
           \<lparr>cfg_id = ''net_2'', cfg_name = ''Counter'', cfg_type = Network, cfg_address = ''10.0.0.2:9100'',
            cfg_isDefault = True, cfg_paperWidth = P80, cfg_lastConnected = None\<rparr>],
        defaultItem = Some ''net_2'', settingsItem = None, faults = []\<rparr>)
   \<and> distinct_ids
        [\<lparr>cfg_id = ''bt_1'', cfg_name = ''Kitchen'', cfg_type = Bluetooth, cfg_address = ''AA:BB'',
          cfg_isDefault = True, cfg_paperWidth = P58, cfg_lastConnected = None\<rparr>,
         \<lparr>cfg_id = ''net_2'', cfg_name = ''Counter'', cfg_type = Network, cfg_address = ''10.0.0.2:9100'',
          cfg_isDefault = False, cfg_paperWidth = P80, cfg_lastConnected = None\<rparr>]
   \<and> at_most_one_default
        [\<lparr>cfg_id = ''bt_1'', cfg_name = ''Kitchen'', cfg_type = Bluetooth, cfg_address = ''AA:BB'',
          cfg_isDefault = True, cfg_paperWidth = P58, cfg_lastConnected = None\<rparr>,
         \<lparr>cfg_id = ''net_2'', cfg_name = ''Counter'', cfg_type = Network, cfg_address = ''10.0.0.2:9100'',
          cfg_isDefault = False, cfg_paperWidth = P80, cfg_lastConnected = None\<rparr>]
   \<and> at_most_one_default
        [\<lparr>cfg_id = ''bt_1'', cfg_name = ''Kitchen'', cfg_type = Bluetooth, cfg_address = ''AA:BB'',
          cfg_isDefault = False, cfg_paperWidth = P58, cfg_lastConnected = None\<rparr>,
         \<lparr>cfg_id = ''net_2'', cfg_name = ''Counter'', cfg_type = Network, cfg_address = ''10.0.0.2:9100'',
          cfg_isDefault = True, cfg_paperWidth = P80, cfg_lastConnected = None\<rparr>]
   \<and> (\<exists>b'. savePrinter
          \<lparr>cfg_id = ''usb_3'', cfg_name = ''Bar'', cfg_type = Usb, cfg_address = ''3'',
            cfg_isDefault = True, cfg_paperWidth = P80, cfg_lastConnected = None\<rparr>
          \<lparr>printersItem = Some
              [\<lparr>cfg_id = ''bt_1'', cfg_name = ''Kitchen'', cfg_type = Bluetooth, cfg_address = ''AA:BB'',
                cfg_isDefault = True, cfg_paperWidth = P58, cfg_lastConnected = None\<rparr>,
               \<lparr>cfg_id = ''net_2'', cfg_name = ''Counter'', cfg_type = Network, cfg_address = ''10.0.0.2:9100'',
                cfg_isDefault = False, cfg_paperWidth = P80, cfg_lastConnected = None\<rparr>],
            defaultItem = Some ''bt_1'', settingsItem = None, faults = []\<rparr> = (Inr (), b')
        \<and> at_most_one_default (stored b') \<and> distinct_ids (stored b'))
   \<and> \<not> fst (next_fault
        \<lparr>printersItem = Some
          [\<lparr>cfg_id = ''bt_1'', cfg_name = ''Kitchen'', cfg_type = Bluetooth, cfg_address = ''AA:BB'',
            cfg_isDefault = True, cfg_paperWidth = P58, cfg_lastConnected = None\<rparr>,
           \<lparr>cfg_id = ''net_2'', cfg_name = ''Counter'', cfg_type = Network, cfg_address = ''10.0.0.2:9100'',
            cfg_isDefault = False, cfg_paperWidth = P80, cfg_lastConnected = None\<rparr>],
        defaultItem = Some ''bt_1'', settingsItem = None, faults = []\<rparr>)
   \<and> (\<exists>p. filter cfg_isDefault
          [\<lparr>cfg_id = ''bt_1'', cfg_name = ''Kitchen'', cfg_type = Bluetooth, cfg_address = ''AA:BB'',
            cfg_isDefault = False, cfg_paperWidth = P58, cfg_lastConnected = None\<rparr>,
           \<lparr>cfg_id = ''net_2'', cfg_name = ''Counter'', cfg_type = Network, cfg_address = ''10.0.0.2:9100'',
            cfg_isDefault = True, cfg_paperWidth = P80, cfg_lastConnected = None\<rparr>] = [p]
        \<and> cfg_id p = ''net_2'')"
proof -
  let ?A = "\<lparr>cfg_id = ''bt_1'', cfg_name = ''Kitchen'', cfg_type = Bluetooth, cfg_address = ''AA:BB'',
            cfg_isDefault = True, cfg_paperWidth = P58, cfg_lastConnected = None\<rparr>"
  let ?B = "\<lparr>cfg_id = ''net_2'', cfg_name = ''Counter'', cfg_type = Network, cfg_address = ''10.0.0.2:9100'',
            cfg_isDefault = False, cfg_paperWidth = P80, cfg_lastConnected = None\<rparr>"
  let ?C = "\<lparr>cfg_id = ''usb_3'', cfg_name = ''Bar'', cfg_type = Usb, cfg_address = ''3'',
            cfg_isDefault = True, cfg_paperWidth = P80, cfg_lastConnected = None\<rparr>"
  let ?b = "\<lparr>printersItem = Some [?A, ?B], defaultItem = Some ''bt_1'', settingsItem = None, faults = []\<rparr>"
  let ?b1 = "\<lparr>printersItem = Some [?A\<lparr>cfg_isDefault := False\<rparr>, ?B\<lparr>cfg_isDefault := True\<rparr>],
              defaultItem = Some ''net_2'', settingsItem = None, faults = []\<rparr>"
  have run: "setDefaultPrinter ''net_2'' ?b = (Inr (), ?b1)"
    by (simp add: setDefaultPrinter_def getAllPrinters_def getItem_printers_def setItem_printers_def
        setItem_default_def next_fault_def Let_def)
  have d: "distinct_ids (stored ?b)"
    by (simp add: distinct_ids_def stored_def)
  have a: "at_most_one_default (stored ?b)"
    by (simp add: at_most_one_default_def stored_def)
  obtain b' where sv: "savePrinter ?C ?b = (Inr (), b')"
    by (simp add: savePrinter_def setDefaultPrinter_def getAllPrinters_def getItem_printers_def
        setItem_printers_def setItem_default_def next_fault_def Let_def)
  have nf: "\<not> fst (next_fault ?b)" by (simp add: next_fault_def)
  have mem: "''net_2'' \<in> cfg_id ` set (stored ?b)" by (simp add: stored_def)
  note main = setDefault_at_most_one [of "''net_2''" ?b ?b1 ?C _]
  from main run d have am: "at_most_one_default (stored ?b1)" by blast
  from main run d nf mem
  have one: "\<exists>p. filter cfg_isDefault (stored ?b1) = [p] \<and> cfg_id p = ''net_2''" by blast
  from main d a sv have inv: "distinct_ids (stored b') \<and> at_most_one_default (stored b')"
    by blast
  have st: "stored ?b = [?A, ?B]" "stored ?b1 = [?A\<lparr>cfg_isDefault := False\<rparr>, ?B\<lparr>cfg_isDefault := True\<rparr>]"
    by (simp_all add: stored_def)
  from am one d a have "at_most_one_default [?A\<lparr>cfg_isDefault := False\<rparr>, ?B\<lparr>cfg_isDefault := True\<rparr>]"
      "\<exists>p. filter cfg_isDefault [?A\<lparr>cfg_isDefault := False\<rparr>, ?B\<lparr>cfg_isDefault := True\<rparr>] = [p]
           \<and> cfg_id p = ''net_2''"
      "distinct_ids [?A, ?B]" "at_most_one_default [?A, ?B]"
    unfolding st by blast+
  then show ?thesis using run sv inv nf by auto
qed


theorem setDefault_counterexample:
  "setDefaultPrinter ''net_9''
      \<lparr>printersItem = Some
          [\<lparr>cfg_id = ''bt_1'', cfg_name = ''Kitchen'', cfg_type = Bluetooth, cfg_address = ''AA:BB'',
            cfg_isDefault = True, cfg_paperWidth = P58, cfg_lastConnected = None\<rparr>],
        defaultItem = Some ''bt_1'', settingsItem = None, faults = []\<rparr>
    = (Inr (),
      \<lparr>printersItem = Some
          [\<lparr>cfg_id = ''bt_1'', cfg_name = ''Kitchen'', cfg_type = Bluetooth, cfg_address = ''AA:BB'',
            cfg_isDefault = False, cfg_paperWidth = P58, cfg_lastConnected = None\<rparr>],
        defaultItem = Some ''net_9'', settingsItem = None, faults = []\<rparr>)
   \<and> filter cfg_isDefault
        (stored \<lparr>printersItem = Some
          [\<lparr>cfg_id = ''bt_1'', cfg_name = ''Kitchen'', cfg_type = Bluetooth, cfg_address = ''AA:BB'',
            cfg_isDefault = False, cfg_paperWidth = P58, cfg_lastConnected = None\<rparr>],
        defaultItem = Some ''net_9'', settingsItem = None, faults = []\<rparr>) = []
   \<and> fst (savePrinter
          \<lparr>cfg_id = ''usb_3'', cfg_name = ''Bar'', cfg_type = Usb, cfg_address = ''3'',
            cfg_isDefault = True, cfg_paperWidth = P80, cfg_lastConnected = None\<rparr>
          \<lparr>printersItem = Some
              [\<lparr>cfg_id = ''bt_1'', cfg_name = ''Kitchen'', cfg_type = Bluetooth, cfg_address = ''AA:BB'',
                cfg_isDefault = True, cfg_paperWidth = P58, cfg_lastConnected = None\<rparr>],
            defaultItem = Some ''bt_1'', settingsItem = None,
            faults = [False, False, False, True]\<rparr>) = Inl StorageError
   \<and> length (filter cfg_isDefault (stored (snd (savePrinter
          \<lparr>cfg_id = ''usb_3'', cfg_name = ''Bar'', cfg_type = Usb, cfg_address = ''3'',
            cfg_isDefault = True, cfg_paperWidth = P80, cfg_lastConnected = None\<rparr>
          \<lparr>printersItem = Some
              [\<lparr>cfg_id = ''bt_1'', cfg_name = ''Kitchen'', cfg_type = Bluetooth, cfg_address = ''AA:BB'',
                cfg_isDefault = True, cfg_paperWidth = P58, cfg_lastConnected = None\<rparr>],
            defaultItem = Some ''bt_1'', settingsItem = None,
            faults = [False, False, False, True]\<rparr>)))) = 2
   \<and> setDefaultPrinter ''bt_1''
      \<lparr>printersItem = Some
          [\<lparr>cfg_id = ''bt_1'', cfg_name = ''Kitchen'', cfg_type = Bluetooth, cfg_address = ''AA:BB'',
            cfg_isDefault = False, cfg_paperWidth = P58, cfg_lastConnected = None\<rparr>],
        defaultItem = None, settingsItem = None, faults = [True]\<rparr>
    = (Inr (),
      \<lparr>printersItem = Some [], defaultItem = Some ''bt_1'', settingsItem = None, faults = []\<rparr>)"
  by (simp add: savePrinter_def setDefaultPrinter_def getAllPrinters_def getItem_printers_def
      setItem_printers_def setItem_default_def next_fault_def Let_def stored_def)

section \<open>Properties of the orchestrator\<close>

subsection \<open>The store after each elementary operation\<close>

declare drain.simps(2) [simp del]

lemma encode_job_fits:
  assumes "payload_fits t p"
  shows "\<exists>bytes. encode_job h t p pw = Inr bytes"
proof (cases p)
  case (InvoicePayload d)
  then show ?thesis
    using generateKOT_total[of h d pw] generateInvoice_total[of h d pw]
    by (cases t) (auto simp: encode_job_def)
next
  case (BarcodePayload b)
  then show ?thesis using assms by (cases t) (auto simp: encode_job_def payload_fits_def)
qed

lemma case_encode_job_fits:
  "payload_fits t p \<Longrightarrow> (case encode_job h t p pw of Inl e \<Rightarrow> A e | Inr d \<Rightarrow> B) = B"
  using encode_job_fits[of t p h pw] by auto

lemma emit_fields:
  "objs (emit ev s) = objs s" "arrays (emit ev s) = arrays s" "jobs (emit ev s) = jobs s"
  "next_ref (emit ev s) = next_ref s" "this_state (emit ev s) = this_state s"
  "isProcessingQueue (emit ev s) = isProcessingQueue s" "tasks (emit ev s) = tasks s"
  "timers (emit ev s) = timers s" "events (emit ev s) = events s @ [ev]"
  "printing_seen (emit ev s) = printing_seen s @ [printing_count s]"
  "alerts (emit ev s) = alerts s"
  by (simp_all add: emit_def)

lemma updateState_fields:
  "objs (updateState f s) = (objs s)(next_ref s := f (objs s (this_state s)))"
  "arrays (updateState f s) = arrays s" "jobs (updateState f s) = jobs s"
  "next_ref (updateState f s) = Suc (next_ref s)" "this_state (updateState f s) = next_ref s"
  "isProcessingQueue (updateState f s) = isProcessingQueue s" "tasks (updateState f s) = tasks s"
  "timers (updateState f s) = timers s"
  "events (updateState f s) = events s @ [StateChanged (next_ref s)]"
  "printing_seen (updateState f s) =
     printing_seen s @ [length (filter (\<lambda>r. job_status (jobs s r) = JobPrinting) [0..<Suc (next_ref s)])]"
  "alerts (updateState f s) = alerts s"
  by (simp_all add: updateState_def emit_def cur_state_def printing_count_def Let_def)

lemma set_job_fields:
  "objs (set_job j f s) = objs s" "arrays (set_job j f s) = arrays s"
  "jobs (set_job j f s) = (jobs s)(j := f (jobs s j))"
  "next_ref (set_job j f s) = next_ref s" "this_state (set_job j f s) = this_state s"
  "isProcessingQueue (set_job j f s) = isProcessingQueue s" "tasks (set_job j f s) = tasks s"
  "timers (set_job j f s) = timers s" "events (set_job j f s) = events s"
  "printing_seen (set_job j f s) = printing_seen s" "alerts (set_job j f s) = alerts s"
  by (simp_all add: set_job_def)

lemma assign_queue_fields:
  "objs (assign_queue xs s) = (objs s)(this_state s := (objs s (this_state s))\<lparr>printQueue := next_ref s\<rparr>)"
  "arrays (assign_queue xs s) = (arrays s)(next_ref s := xs)" "jobs (assign_queue xs s) = jobs s"
  "next_ref (assign_queue xs s) = Suc (next_ref s)" "this_state (assign_queue xs s) = this_state s"
  "isProcessingQueue (assign_queue xs s) = isProcessingQueue s" "tasks (assign_queue xs s) = tasks s"
  "timers (assign_queue xs s) = timers s" "events (assign_queue xs s) = events s"
  "printing_seen (assign_queue xs s) = printing_seen s" "alerts (assign_queue xs s) = alerts s"
  by (simp_all add: assign_queue_def cur_state_def Let_def)

lemma new_job_fields:
  "objs (new_job job s) = objs s" "arrays (new_job job s) = arrays s"
  "jobs (new_job job s) = (jobs s)(next_ref s := job)"
  "next_ref (new_job job s) = Suc (next_ref s)" "this_state (new_job job s) = this_state s"
  "isProcessingQueue (new_job job s) = isProcessingQueue s" "tasks (new_job job s) = tasks s"
  "timers (new_job job s) = timers s" "events (new_job job s) = events s"
  "printing_seen (new_job job s) = printing_seen s" "alerts (new_job job s) = alerts s"
  by (simp_all add: new_job_def)

lemma push_queue_fields:
  "objs (push_queue j s) = objs s"
  "arrays (push_queue j s) =
     (arrays s)(printQueue (objs s (this_state s)) := arrays s (printQueue (objs s (this_state s))) @ [j])"
  "jobs (push_queue j s) = jobs s"
  "next_ref (push_queue j s) = next_ref s" "this_state (push_queue j s) = this_state s"
  "isProcessingQueue (push_queue j s) = isProcessingQueue s" "tasks (push_queue j s) = tasks s"
  "timers (push_queue j s) = timers s" "events (push_queue j s) = events s"
  "printing_seen (push_queue j s) = printing_seen s" "alerts (push_queue j s) = alerts s"
  by (simp_all add: push_queue_def cur_state_def queue_def)

lemma getState_fields:
  "fst (getState s) = next_ref s"
  "objs (snd (getState s)) = (objs s)(next_ref s := objs s (this_state s))"
  "arrays (snd (getState s)) = arrays s" "jobs (snd (getState s)) = jobs s"
  "next_ref (snd (getState s)) = Suc (next_ref s)" "this_state (snd (getState s)) = this_state s"
  "isProcessingQueue (snd (getState s)) = isProcessingQueue s" "tasks (snd (getState s)) = tasks s"
  "timers (snd (getState s)) = timers s" "events (snd (getState s)) = events s"
  "printing_seen (snd (getState s)) = printing_seen s" "alerts (snd (getState s)) = alerts s"
  by (simp_all add: getState_def cur_state_def Let_def)

lemma init_fields:
  "objs init r = \<lparr>status = Disconnected, connectedPrinter = None, printQueue = 1, lastError = None\<rparr>"
  "arrays init r = []" "jobs init r = no_job"
  "next_ref init = 2" "this_state init = 0" "isProcessingQueue init = False" "tasks init = []"
  "timers init = 0" "events init = []" "printing_seen init = []" "alerts init = []"
  by (simp_all add: init_def)

lemmas store_fields =
  emit_fields updateState_fields set_job_fields assign_queue_fields new_job_fields
  push_queue_fields getState_fields init_fields

lemmas service_unfold =
  cur_state_def queue_def printing_count_def setStatus_def setError_def removeJobFromQueue_def
  clearQueue_def showNoPrinterAlert_def executePrintJob_done_def executePrintJob_catch_def
  processQueue_def addPrintJob_def connect_catch_def remove_task_def task_at_def Let_def
  no_job_def case_encode_job_fits

subsection \<open>The current state, the queue and the jobs after each elementary operation\<close>

lemma cur_state_ops:
  "cur_state (emit ev s) = cur_state s"
  "cur_state (updateState f s) = f (cur_state s)"
  "cur_state (set_job j g s) = cur_state s"
  "cur_state (assign_queue xs s) = (cur_state s)\<lparr>printQueue := next_ref s\<rparr>"
  "cur_state (new_job job s) = cur_state s"
  "cur_state (push_queue j s) = cur_state s"
  "cur_state (s\<lparr>tasks := ts\<rparr>) = cur_state s"
  "cur_state (s\<lparr>timers := n\<rparr>) = cur_state s"
  "cur_state (s\<lparr>isProcessingQueue := b\<rparr>) = cur_state s"
  "cur_state (s\<lparr>alerts := al\<rparr>) = cur_state s"
  by (simp_all add: cur_state_def store_fields)

lemma queue_ops:
  "queue (emit ev s) = queue s"
  "printQueue (f (cur_state s)) = printQueue (cur_state s) \<Longrightarrow> queue (updateState f s) = queue s"
  "queue (set_job j g s) = queue s"
  "queue (assign_queue xs s) = xs"
  "queue (new_job job s) = queue s"
  "queue (push_queue j s) = queue s @ [j]"
  "queue (s\<lparr>tasks := ts\<rparr>) = queue s"
  "queue (s\<lparr>timers := n\<rparr>) = queue s"
  "queue (s\<lparr>isProcessingQueue := b\<rparr>) = queue s"
  "queue (s\<lparr>alerts := al\<rparr>) = queue s"
  by (simp_all add: queue_def cur_state_def store_fields)

lemma setStatus_ops:
  "status (cur_state (setStatus st s)) = st"
  "connectedPrinter (cur_state (setStatus st s)) = connectedPrinter (cur_state s)"
  "lastError (cur_state (setStatus st s)) = lastError (cur_state s)"
  "queue (setStatus st s) = queue s"
  "jobs (setStatus st s) = jobs s"
  "tasks (setStatus st s) = tasks s"
  "timers (setStatus st s) = timers s"
  "isProcessingQueue (setStatus st s) = isProcessingQueue s"
  "alerts (setStatus st s) = alerts s"
  "next_ref (setStatus st s) = Suc (next_ref s)"
  "events (setStatus st s) = events s @ [StateChanged (next_ref s)]"
  "printing_seen (setStatus st s) = printing_seen s @ [printing_count (s\<lparr>next_ref := Suc (next_ref s)\<rparr>)]"
  by (simp_all add: setStatus_def cur_state_ops queue_ops store_fields printing_count_def)

lemma removeJobFromQueue_ops:
  "status (cur_state (removeJobFromQueue i s)) = status (cur_state s)"
  "connectedPrinter (cur_state (removeJobFromQueue i s)) = connectedPrinter (cur_state s)"
  "lastError (cur_state (removeJobFromQueue i s)) = lastError (cur_state s)"
  "queue (removeJobFromQueue i s) = filter (\<lambda>j. job_id (jobs s j) \<noteq> i) (queue s)"
  "jobs (removeJobFromQueue i s) = jobs s"
  "tasks (removeJobFromQueue i s) = tasks s"
  "timers (removeJobFromQueue i s) = timers s"
  "isProcessingQueue (removeJobFromQueue i s) = isProcessingQueue s"
  "alerts (removeJobFromQueue i s) = alerts s"
  "next_ref (removeJobFromQueue i s) = Suc (next_ref s)"
  "events (removeJobFromQueue i s) = events s"
  "printing_seen (removeJobFromQueue i s) = printing_seen s"
  by (simp_all add: removeJobFromQueue_def cur_state_ops queue_ops store_fields)

lemma printing_count_ops:
  "printing_count (emit ev s) = printing_count s"
  "printing_count (s\<lparr>tasks := ts\<rparr>) = printing_count s"
  "printing_count (s\<lparr>timers := n\<rparr>) = printing_count s"
  "printing_count (s\<lparr>isProcessingQueue := b\<rparr>) = printing_count s"
  "printing_count (s\<lparr>alerts := al\<rparr>) = printing_count s"
  by (simp_all add: printing_count_def store_fields)

text \<open>When no job has the status printing, none is counted, whatever was allocated; when
  one job at most has it, one at most is counted.\<close>

lemma printing_count_none:
  "(\<And>r. job_status (jobs s r) \<noteq> JobPrinting) \<Longrightarrow> printing_count s = 0"
  by (simp add: printing_count_def)

lemma count_single: "distinct xs \<Longrightarrow> length (filter (\<lambda>r. r = j) xs) \<le> 1"
proof (induction xs)
  case Nil
  then show ?case by simp
next
  case (Cons x xs)
  show ?case
  proof (cases "x = j")
    case True
    then have "j \<notin> set xs" using Cons.prems by simp
    then have "filter (\<lambda>r. r = j) xs = []" by (induction xs) auto
    then show ?thesis using True by simp
  next
    case False
    then show ?thesis using Cons by simp
  qed
qed

lemma filter_length_mono:
  "(\<And>x. x \<in> set xs \<Longrightarrow> P x \<Longrightarrow> Q x) \<Longrightarrow> length (filter P xs) \<le> length (filter Q xs)"
  by (induction xs) (auto simp: le_SucI)

lemma printing_count_one:
  assumes "\<And>r. r \<noteq> j \<Longrightarrow> job_status (jobs s r) \<noteq> JobPrinting"
  shows "printing_count s \<le> 1"
proof -
  have "length (filter (\<lambda>r. job_status (jobs s r) = JobPrinting) [0..<next_ref s])
      \<le> length (filter (\<lambda>r. r = j) [0..<next_ref s])"
    using assms by (intro filter_length_mono) blast
  also have "\<dots> \<le> 1" by (rule count_single) simp
  finally show ?thesis by (simp add: printing_count_def)
qed

lemma printing_count_two:
  assumes "a < b" "b < next_ref s"
      and "job_status (jobs s a) = JobPrinting" "job_status (jobs s b) = JobPrinting"
  shows "2 \<le> printing_count s"
proof -
  let ?S = "{x. job_status (jobs s x) = JobPrinting} \<inter> set [0..<next_ref s]"
  have "{a, b} \<subseteq> ?S" using assms by auto
  then have "card {a, b} \<le> card ?S" by (intro card_mono) auto
  moreover have "card {a, b} = 2" using assms(1) by simp
  moreover have "printing_count s = card ?S"
    by (simp add: printing_count_def distinct_length_filter)
  ultimately show ?thesis by simp
qed

subsection \<open>One attempt of a job\<close>

lemma at_most_printing_seen:
  assumes "at_most_printing j s" "seen_ok s"
  shows "seen_ok (emit ev s)" "seen_ok (setStatus st s)"
proof -
  have "printing_count s \<le> 1"
    using assms(1) by (intro printing_count_one[of j]) (simp add: at_most_printing_def)
  then show "seen_ok (emit ev s)" using assms(2) by (simp add: seen_ok_def store_fields)
  have "printing_count (s\<lparr>next_ref := Suc (next_ref s)\<rparr>) \<le> 1"
    using assms(1) by (intro printing_count_one[of j]) (simp add: at_most_printing_def)
  then show "seen_ok (setStatus st s)" using assms(2) by (simp add: seen_ok_def setStatus_ops)
qed

lemma none_at_most: "none_printing s \<Longrightarrow> at_most_printing j s"
  by (simp add: none_printing_def at_most_printing_def)

text \<open>The start of an attempt: the loop of \<open>processQueue\<close> at a job, connected, with a
  payload that its generator accepts. The job is marked, the events are sent, and the
  method waits for the adapter.\<close>

lemma drain_start:
  assumes "status (cur_state s) = Connected" "connectedPrinter (cur_state s) = Some c"
      and "payload_fits (job_type (jobs s j)) (job_payload (jobs s j))"
  shows "drain rt (j # rest) s =
     (emit (PrintStarted j) (setStatus Printing (set_job j (\<lambda>x. x\<lparr>job_status := JobPrinting\<rparr>) s)))
       \<lparr>tasks := tasks s @ [AwaitSend j rest]\<rparr>"
  using assms
  by (simp add: drain.simps(2) Let_def cur_state_ops setStatus_ops store_fields
      case_encode_job_fits)

lemma drain_start_facts:
  assumes "status (cur_state s) = Connected" "connectedPrinter (cur_state s) = Some c"
      and "payload_fits (job_type (jobs s j)) (job_payload (jobs s j))"
  shows "tasks (drain rt (j # rest) s) = tasks s @ [AwaitSend j rest]"
    and "status (cur_state (drain rt (j # rest) s)) = Printing"
    and "connectedPrinter (cur_state (drain rt (j # rest) s)) = Some c"
    and "jobs (drain rt (j # rest) s) = (jobs s)(j := (jobs s j)\<lparr>job_status := JobPrinting\<rparr>)"
    and "queue (drain rt (j # rest) s) = queue s"
    and "timers (drain rt (j # rest) s) = timers s"
    and "isProcessingQueue (drain rt (j # rest) s) = isProcessingQueue s"
    and "events (drain rt (j # rest) s) = events s @ [StateChanged (next_ref s), PrintStarted j]"
    and "alerts (drain rt (j # rest) s) = alerts s"
  unfolding drain_start[OF assms]
  using assms(2)
  by (simp_all add: cur_state_ops queue_ops setStatus_ops store_fields)

lemma drain_start_seen:
  assumes "status (cur_state s) = Connected" "connectedPrinter (cur_state s) = Some c"
      and "payload_fits (job_type (jobs s j)) (job_payload (jobs s j))"
      and "none_printing s" "seen_ok s"
  shows "seen_ok (drain rt (j # rest) s)" "at_most_printing j (drain rt (j # rest) s)"
proof -
  let ?s1 = "set_job j (\<lambda>x. x\<lparr>job_status := JobPrinting\<rparr>) s"
  have a1: "at_most_printing j ?s1"
    using assms(4) by (simp add: at_most_printing_def none_printing_def store_fields)
  have k1: "seen_ok ?s1" using assms(5) by (simp add: seen_ok_def store_fields)
  have k2: "seen_ok (setStatus Printing ?s1)" using a1 k1 by (rule at_most_printing_seen)
  have a2: "at_most_printing j (setStatus Printing ?s1)"
    using a1 by (simp add: at_most_printing_def setStatus_ops)
  have "seen_ok (emit (PrintStarted j) (setStatus Printing ?s1))"
    using a2 k2 by (rule at_most_printing_seen)
  then show "seen_ok (drain rt (j # rest) s)"
    unfolding drain_start[OF assms(1-3)] by (simp add: seen_ok_def)
  show "at_most_printing j (drain rt (j # rest) s)"
    unfolding drain_start[OF assms(1-3)] using a2
    by (simp add: at_most_printing_def store_fields)
qed

text \<open>The \<open>catch\<close> block while retries remain, and when they are used up.\<close>

lemma catch_retry:
  assumes "retryCount (jobs s j) < 2"
  shows "status (cur_state (executePrintJob_catch j msg s)) = Connected"
    and "connectedPrinter (cur_state (executePrintJob_catch j msg s)) = connectedPrinter (cur_state s)"
    and "queue (executePrintJob_catch j msg s) = queue s"
    and "jobs (executePrintJob_catch j msg s) =
           (jobs s)(j := (jobs s j)\<lparr>retryCount := retryCount (jobs s j) + 1,
                                    job_error := Some (if msg \<noteq> [] then msg else ''Print failed''),
                                    job_status := Pending\<rparr>)"
    and "tasks (executePrintJob_catch j msg s) = tasks s"
    and "timers (executePrintJob_catch j msg s) = timers s + 1"
    and "isProcessingQueue (executePrintJob_catch j msg s) = isProcessingQueue s"
    and "events (executePrintJob_catch j msg s) = events s @ [StateChanged (next_ref s)]"
    and "alerts (executePrintJob_catch j msg s) = alerts s"
  using assms
  by (simp_all add: executePrintJob_catch_def Let_def cur_state_ops queue_ops setStatus_ops store_fields)

lemma catch_final:
  assumes "2 \<le> retryCount (jobs s j)"
  shows "status (cur_state (executePrintJob_catch j msg s)) = Connected"
    and "connectedPrinter (cur_state (executePrintJob_catch j msg s)) = connectedPrinter (cur_state s)"
    and "queue (executePrintJob_catch j msg s) =
           filter (\<lambda>k. job_id (if k = j then jobs s j else jobs s k) \<noteq> job_id (jobs s j)) (queue s)"
    and "jobs (executePrintJob_catch j msg s) =
           (jobs s)(j := (jobs s j)\<lparr>retryCount := retryCount (jobs s j) + 1,
                                    job_error := Some (if msg \<noteq> [] then msg else ''Print failed''),
                                    job_status := Failed\<rparr>)"
    and "tasks (executePrintJob_catch j msg s) = tasks s"
    and "timers (executePrintJob_catch j msg s) = timers s"
    and "isProcessingQueue (executePrintJob_catch j msg s) = isProcessingQueue s"
    and "events (executePrintJob_catch j msg s) =
           events s @ [PrintFailed j msg, StateChanged (Suc (next_ref s))]"
    and "alerts (executePrintJob_catch j msg s) = alerts s @ [PrintFailedAlert (job_type (jobs s j)) msg]"
  using assms
  by (simp_all add: executePrintJob_catch_def Let_def cur_state_ops queue_ops setStatus_ops
      removeJobFromQueue_ops store_fields cong: if_cong)

lemma done_facts:
  shows "status (cur_state (executePrintJob_done j s)) = Connected"
    and "connectedPrinter (cur_state (executePrintJob_done j s)) = connectedPrinter (cur_state s)"
    and "jobs (executePrintJob_done j s) = (jobs s)(j := (jobs s j)\<lparr>job_status := Completed\<rparr>)"
    and "tasks (executePrintJob_done j s) = tasks s"
    and "timers (executePrintJob_done j s) = timers s"
    and "isProcessingQueue (executePrintJob_done j s) = isProcessingQueue s"
    and "events (executePrintJob_done j s) =
           events s @ [StateChanged (Suc (next_ref s)), PrintCompleted j]"
    and "alerts (executePrintJob_done j s) = alerts s"
  by (simp_all add: executePrintJob_done_def Let_def cur_state_ops queue_ops setStatus_ops
      removeJobFromQueue_ops store_fields)

lemma seen_ok_frame:
  "seen_ok (set_job j g s) = seen_ok s"
  "seen_ok (removeJobFromQueue i s) = seen_ok s"
  "seen_ok (s\<lparr>tasks := ts\<rparr>) = seen_ok s"
  "seen_ok (s\<lparr>timers := n\<rparr>) = seen_ok s"
  "seen_ok (s\<lparr>isProcessingQueue := b\<rparr>) = seen_ok s"
  "seen_ok (s\<lparr>alerts := al\<rparr>) = seen_ok s"
  by (simp_all add: seen_ok_def store_fields removeJobFromQueue_ops)

lemma at_most_printing_frame:
  "at_most_printing j (set_job j g s) = at_most_printing j s"
  "at_most_printing j (removeJobFromQueue i s) = at_most_printing j s"
  "at_most_printing j (setStatus st s) = at_most_printing j s"
  "at_most_printing j (emit ev s) = at_most_printing j s"
  "at_most_printing j (s\<lparr>tasks := ts\<rparr>) = at_most_printing j s"
  "at_most_printing j (s\<lparr>timers := n\<rparr>) = at_most_printing j s"
  "at_most_printing j (s\<lparr>isProcessingQueue := b\<rparr>) = at_most_printing j s"
  "at_most_printing j (s\<lparr>alerts := al\<rparr>) = at_most_printing j s"
  by (simp_all add: at_most_printing_def store_fields removeJobFromQueue_ops setStatus_ops)

lemma catch_seen:
  assumes "at_most_printing j s" "seen_ok s"
  shows "seen_ok (executePrintJob_catch j msg s)"
proof -
  let ?f1 = "\<lambda>x. x\<lparr>retryCount := retryCount x + 1\<rparr>"
  let ?f2 = "\<lambda>x. x\<lparr>job_error := Some (if msg \<noteq> [] then msg else ''Print failed'')\<rparr>"
  let ?s2 = "set_job j ?f2 (set_job j ?f1 s)"
  have a2: "at_most_printing j ?s2" and k2: "seen_ok ?s2"
    using assms by (simp_all add: at_most_printing_frame seen_ok_frame)
  show ?thesis
  proof (cases "retryCount (jobs ?s2 j) < 3")
    case True
    let ?s3 = "(set_job j (\<lambda>x. x\<lparr>job_status := Pending\<rparr>) ?s2)"
    let ?s4 = "?s3\<lparr>timers := timers ?s3 + 1\<rparr>"
    have eq: "executePrintJob_catch j msg s = setStatus Connected ?s4"
      using True by (simp add: executePrintJob_catch_def Let_def)
    have "at_most_printing j ?s4" "seen_ok ?s4"
      using a2 k2 by (simp_all add: at_most_printing_frame seen_ok_frame)
    then show ?thesis unfolding eq by (rule at_most_printing_seen)
  next
    case False
    let ?s3 = "(set_job j (\<lambda>x. x\<lparr>job_status := Failed\<rparr>) ?s2)"
    let ?s4 = "removeJobFromQueue (job_id (jobs ?s3 j)) ?s3"
    let ?s5 = "emit (PrintFailed j msg) ?s4"
    let ?s6 = "?s5\<lparr>alerts := alerts ?s5 @ [PrintFailedAlert (job_type (jobs ?s5 j)) msg]\<rparr>"
    have eq: "executePrintJob_catch j msg s = setStatus Connected ?s6"
      using False by (simp add: executePrintJob_catch_def Let_def)
    have a4: "at_most_printing j ?s4" and k4: "seen_ok ?s4"
      using a2 k2 by (simp_all add: at_most_printing_frame seen_ok_frame)
    have k5: "seen_ok ?s5" using a4 k4 by (rule at_most_printing_seen)
    have a5: "at_most_printing j ?s5" using a4 by (simp add: at_most_printing_frame)
    have "at_most_printing j ?s6" "seen_ok ?s6"
      using a5 k5 by (simp_all add: at_most_printing_frame seen_ok_frame)
    then show ?thesis unfolding eq by (rule at_most_printing_seen)
  qed
qed

lemma catch_none_printing:
  assumes "at_most_printing j s"
  shows "none_printing (executePrintJob_catch j msg s)"
proof (cases "retryCount (jobs s j) < 2")
  case True
  show ?thesis
    using assms by (simp add: none_printing_def at_most_printing_def catch_retry(4)[OF True])
next
  case False
  then have "2 \<le> retryCount (jobs s j)" by simp
  then show ?thesis
    using assms by (simp add: none_printing_def at_most_printing_def catch_final(4))
qed

lemma done_seen:
  assumes "at_most_printing j s" "seen_ok s"
  shows "seen_ok (executePrintJob_done j s)"
proof -
  let ?s1 = "set_job j (\<lambda>x. x\<lparr>job_status := Completed\<rparr>) s"
  let ?s2 = "removeJobFromQueue (job_id (jobs ?s1 j)) ?s1"
  have eq: "executePrintJob_done j s = emit (PrintCompleted j) (setStatus Connected ?s2)"
    by (simp add: executePrintJob_done_def Let_def)
  have a2: "at_most_printing j ?s2" and k2: "seen_ok ?s2"
    using assms by (simp_all add: at_most_printing_frame seen_ok_frame)
  have k3: "seen_ok (setStatus Connected ?s2)" using a2 k2 by (rule at_most_printing_seen)
  have a3: "at_most_printing j (setStatus Connected ?s2)"
    using a2 by (simp add: at_most_printing_frame)
  show ?thesis unfolding eq using a3 k3 by (rule at_most_printing_seen)
qed

lemma done_none_printing:
  assumes "at_most_printing j s"
  shows "none_printing (executePrintJob_done j s)"
  using assms by (simp add: none_printing_def at_most_printing_def done_facts)

lemma catch_keeps_payload:
  "job_type (jobs (executePrintJob_catch j msg s) k) = job_type (jobs s k)"
  "job_payload (jobs (executePrintJob_catch j msg s) k) = job_payload (jobs s k)"
  "job_id (jobs (executePrintJob_catch j msg s) k) = job_id (jobs s k)"
  by (cases "retryCount (jobs s j) < 2"; simp add: catch_retry catch_final)+

lemma done_keeps_payload:
  "job_type (jobs (executePrintJob_done j s) k) = job_type (jobs s k)"
  "job_payload (jobs (executePrintJob_done j s) k) = job_payload (jobs s k)"
  "job_id (jobs (executePrintJob_done j s) k) = job_id (jobs s k)"
  by (simp_all add: done_facts)

lemma catch_events_started:
  "filter is_print_started (events (executePrintJob_catch j msg s)) = filter is_print_started (events s)"
  by (cases "retryCount (jobs s j) < 2"; simp add: catch_retry catch_final is_print_started_def)

lemma done_events_started:
  "filter is_print_started (events (executePrintJob_done j s)) = filter is_print_started (events s)"
  by (simp add: done_facts is_print_started_def)

lemma catch_tasks: "tasks (executePrintJob_catch j msg s) = tasks s"
  by (cases "retryCount (jobs s j) < 2"; simp add: catch_retry catch_final)

lemma catch_connected:
  "status (cur_state (executePrintJob_catch j msg s)) = Connected"
  "connectedPrinter (cur_state (executePrintJob_catch j msg s)) = connectedPrinter (cur_state s)"
  by (cases "retryCount (jobs s j) < 2"; simp add: catch_retry catch_final)+

subsection \<open>The drain over a list of pending jobs\<close>

lemma send_settled_step:
  assumes "tasks s = [AwaitSend j rest]"
  shows "step rt (SendSettled 0 r) s =
     Some (drain rt rest
       (case r of Resolved \<Rightarrow> executePrintJob_done j (s\<lparr>tasks := []\<rparr>)
                | Rejected msg \<Rightarrow> executePrintJob_catch j msg (s\<lparr>tasks := []\<rparr>)))"
  by (cases r) (simp_all add: task_at_def remove_task_def assms)

lemma drain_count:
  assumes "status (cur_state s) = Connected" "connectedPrinter (cur_state s) = Some c"
      and "none_printing s" "seen_ok s"
      and "\<forall>j\<in>set js. payload_fits (job_type (jobs s j)) (job_payload (jobs s j))"
  shows "printing_count (drain rt js s) \<le> 1"
proof (cases js)
  case Nil
  have "printing_count (s\<lparr>isProcessingQueue := False\<rparr>) = 0"
    using assms(3) by (intro printing_count_none) (simp add: none_printing_def)
  then show ?thesis using Nil by simp
next
  case (Cons j rest)
  then have fit: "payload_fits (job_type (jobs s j)) (job_payload (jobs s j))"
    using assms(5) by simp
  have "at_most_printing j (drain rt (j # rest) s)"
    using assms(1,2) fit assms(3,4) by (rule drain_start_seen)
  then show ?thesis
    unfolding Cons by (intro printing_count_one[of j]) (simp add: at_most_printing_def)
qed

lemma drain_run:
  assumes "status (cur_state s) = Connected" "connectedPrinter (cur_state s) = Some c"
      and "tasks s = []" "none_printing s" "seen_ok s"
      and "\<forall>j\<in>set js. payload_fits (job_type (jobs s j)) (job_payload (jobs s j))"
      and "length rs = length js"
  shows "\<exists>s'. run rt (map (SendSettled 0) rs) (drain rt js s) = Some s'
           \<and> filter is_print_started (events s')
               = filter is_print_started (events s) @ map PrintStarted js
           \<and> seen_ok s' \<and> none_printing s' \<and> tasks s' = [] \<and> \<not> isProcessingQueue s'
           \<and> list_all (\<lambda>x. printing_count x \<le> 1)
                (run_states rt (map (SendSettled 0) rs) (drain rt js s))
           \<and> length (run_states rt (map (SendSettled 0) rs) (drain rt js s)) = length js
           \<and> (\<forall>k. job_id (jobs s' k) = job_id (jobs s k))"
  using assms
proof (induction js arbitrary: s rs)
  case Nil
  then show ?case
    by (simp add: seen_ok_frame none_printing_def)
next
  case (Cons j rest)
  from Cons.prems(7) obtain r rs' where rs: "rs = r # rs'" "length rs' = length rest"
    by (cases rs) auto
  from Cons.prems(6) have fit: "payload_fits (job_type (jobs s j)) (job_payload (jobs s j))"
    by simp
  let ?s1 = "drain rt (j # rest) s"
  note st = drain_start_facts[OF Cons.prems(1,2) fit, of rt rest]
  note sn = drain_start_seen[OF Cons.prems(1,2) fit Cons.prems(4,5), of rt rest]
  have t1: "tasks ?s1 = [AwaitSend j rest]" using st(1) Cons.prems(3) by simp
  let ?s1' = "?s1\<lparr>tasks := []\<rparr>"
  let ?s2 = "case r of Resolved \<Rightarrow> executePrintJob_done j ?s1'
                     | Rejected msg \<Rightarrow> executePrintJob_catch j msg ?s1'"
  have step: "step rt (SendSettled 0 r) ?s1 = Some (drain rt rest ?s2)"
    using t1 by (rule send_settled_step)
  have a1: "at_most_printing j ?s1'" "seen_ok ?s1'"
    using sn by (simp_all add: at_most_printing_frame seen_ok_frame)
  have c1: "connectedPrinter (cur_state ?s1') = Some c"
    using st(3) by (simp add: cur_state_ops)
  have inv2: "status (cur_state ?s2) = Connected" "connectedPrinter (cur_state ?s2) = Some c"
      "tasks ?s2 = []" "none_printing ?s2" "seen_ok ?s2"
    using a1 c1
    by (cases r; simp add: done_facts catch_connected catch_tasks done_none_printing
        catch_none_printing done_seen catch_seen)+
  have pay2: "job_type (jobs ?s2 k) = job_type (jobs s k)"
             "job_payload (jobs ?s2 k) = job_payload (jobs s k)" for k
    by (cases r; simp add: done_keeps_payload catch_keeps_payload st(4))+
  have fits2: "\<forall>k\<in>set rest. payload_fits (job_type (jobs ?s2 k)) (job_payload (jobs ?s2 k))"
    using Cons.prems(6) by (simp add: pay2)
  have ev2: "filter is_print_started (events ?s2)
      = filter is_print_started (events s) @ [PrintStarted j]"
    by (cases r; simp add: done_events_started catch_events_started st(8) is_print_started_def)
  from Cons.IH[OF inv2 fits2 rs(2)] obtain s' where
    s': "run rt (map (SendSettled 0) rs') (drain rt rest ?s2) = Some s'"
        "filter is_print_started (events s')
           = filter is_print_started (events ?s2) @ map PrintStarted rest"
        "seen_ok s'" "none_printing s'" "tasks s' = []" "\<not> isProcessingQueue s'"
        "list_all (\<lambda>x. printing_count x \<le> 1)
           (run_states rt (map (SendSettled 0) rs') (drain rt rest ?s2))"
        "length (run_states rt (map (SendSettled 0) rs') (drain rt rest ?s2)) = length rest"
        "\<forall>k. job_id (jobs s' k) = job_id (jobs ?s2 k)"
    by blast
  have id2: "job_id (jobs ?s2 k) = job_id (jobs s k)" for k
    by (cases r; simp add: done_keeps_payload catch_keeps_payload st(4))
  have cnt: "printing_count (drain rt rest ?s2) \<le> 1"
    using inv2(1,2,4,5) fits2 by (rule drain_count)
  have run: "run rt (map (SendSettled 0) rs) ?s1 = Some s'"
    unfolding rs(1) using step s'(1) by simp
  have states: "run_states rt (map (SendSettled 0) rs) ?s1
      = drain rt rest ?s2 # run_states rt (map (SendSettled 0) rs') (drain rt rest ?s2)"
    unfolding rs(1) using step by simp
  show ?case
    using run s'(2-6) ev2 s'(7,8) cnt s'(9) id2 unfolding states by simp
qed

subsection \<open>Runs\<close>

lemma run_append:
  "run rt (xs @ ys) s = (case run rt xs s of None \<Rightarrow> None | Some s' \<Rightarrow> run rt ys s')"
  by (induction xs arbitrary: s) (simp_all split: option.splits)

lemma run_states_append:
  "run rt xs s = Some s' \<Longrightarrow> run_states rt (xs @ ys) s = run_states rt xs s @ run_states rt ys s'"
  by (induction xs arbitrary: s) (auto split: option.splits)

lemma queued_states:
  assumes "payload_fits t1 p1" "payload_fits t2 p2" "payload_fits t3 p3"
  shows "list_all none_printing
           (run_states rt [CallAddPrintJob t1 p1 i1 n1, CallAddPrintJob t2 p2 i2 n2,
              CallAddPrintJob t3 p3 i3 n3, CallConnect c,
              AdapterConnectSettled 0 ConnectTrue, StorageSettled 0 Resolved] init)"
    and "length (run_states rt [CallAddPrintJob t1 p1 i1 n1, CallAddPrintJob t2 p2 i2 n2,
              CallAddPrintJob t3 p3 i3 n3, CallConnect c,
              AdapterConnectSettled 0 ConnectTrue, StorageSettled 0 Resolved] init) = 6"
  by (simp_all add: store_fields service_unfold none_printing_def)

lemma queued_then_connected:
  assumes "payload_fits t1 p1" "payload_fits t2 p2" "payload_fits t3 p3"
  shows "\<exists>s0. run rt [CallAddPrintJob t1 p1 i1 n1, CallAddPrintJob t2 p2 i2 n2,
                    CallAddPrintJob t3 p3 i3 n3, CallConnect c,
                    AdapterConnectSettled 0 ConnectTrue, StorageSettled 0 Resolved,
                    StorageSettled 0 Resolved] init = Some (drain rt [2, 3, 4] s0)
           \<and> status (cur_state s0) = Connected \<and> connectedPrinter (cur_state s0) = Some c
           \<and> tasks s0 = [] \<and> none_printing s0 \<and> seen_ok s0
           \<and> (\<forall>j\<in>set [2, 3, 4]. payload_fits (job_type (jobs s0 j)) (job_payload (jobs s0 j)))
           \<and> filter is_print_started (events s0) = []
           \<and> job_id (jobs s0 2) = i1 \<and> job_id (jobs s0 3) = i2 \<and> job_id (jobs s0 4) = i3
           \<and> list_all (\<lambda>x. printing_count x \<le> 1)
                 (run_states rt [CallAddPrintJob t1 p1 i1 n1, CallAddPrintJob t2 p2 i2 n2,
                    CallAddPrintJob t3 p3 i3 n3, CallConnect c,
                    AdapterConnectSettled 0 ConnectTrue, StorageSettled 0 Resolved,
                    StorageSettled 0 Resolved] init)
           \<and> length (run_states rt [CallAddPrintJob t1 p1 i1 n1, CallAddPrintJob t2 p2 i2 n2,
                    CallAddPrintJob t3 p3 i3 n3, CallConnect c,
                    AdapterConnectSettled 0 ConnectTrue, StorageSettled 0 Resolved,
                    StorageSettled 0 Resolved] init) = 7"
proof -
  let ?L6 = "[CallAddPrintJob t1 p1 i1 n1, CallAddPrintJob t2 p2 i2 n2,
              CallAddPrintJob t3 p3 i3 n3, CallConnect c,
              AdapterConnectSettled 0 ConnectTrue, StorageSettled 0 Resolved]"
  define s6 where "s6 = the (run rt ?L6 init)"
  have r6: "run rt ?L6 init = Some s6"
    unfolding s6_def by (simp add: store_fields service_unfold)
  have f6: "tasks s6 = [AwaitSavePrinter c]" "isProcessingQueue s6 = False"
      "status (cur_state s6) = Connected" "connectedPrinter (cur_state s6) = Some c"
      "queue s6 = [2, 3, 4]"
      "jobs s6 = (\<lambda>r. no_job)
         (2 := \<lparr>job_id = i1, job_type = t1, job_payload = p1, job_timestamp = n1,
                 job_status = Pending, retryCount = 0, job_error = None\<rparr>,
          3 := \<lparr>job_id = i2, job_type = t2, job_payload = p2, job_timestamp = n2,
                 job_status = Pending, retryCount = 0, job_error = None\<rparr>,
          4 := \<lparr>job_id = i3, job_type = t3, job_payload = p3, job_timestamp = n3,
                 job_status = Pending, retryCount = 0, job_error = None\<rparr>)"
      "filter is_print_started (events s6) = []"
      "printing_seen s6 = [0, 0, 0, 0, 0, 0]"
    unfolding s6_def
    by (simp_all add: store_fields service_unfold is_print_started_def fun_eq_iff)
  let ?s0 = "(emit (DeviceConnected c) (s6\<lparr>tasks := []\<rparr>))\<lparr>isProcessingQueue := True\<rparr>"
  have np6: "none_printing s6" by (simp add: none_printing_def f6 no_job_def)
  have step7: "step rt (StorageSettled 0 Resolved) s6 = Some (drain rt [2, 3, 4] ?s0)"
    by (simp add: task_at_def remove_task_def f6 processQueue_def Let_def cur_state_ops queue_ops
        store_fields)
  have "run rt (?L6 @ [StorageSettled 0 Resolved]) init
      = (case run rt ?L6 init of None \<Rightarrow> None
         | Some s' \<Rightarrow> run rt [StorageSettled 0 Resolved] s')"
    by (rule run_append)
  also have "\<dots> = run rt [StorageSettled 0 Resolved] s6"
    by (simp only: r6 option.case)
  also have "\<dots> = Some (drain rt [2, 3, 4] ?s0)"
    by (simp only: run.simps step7 option.case)
  finally have run7: "run rt (?L6 @ [StorageSettled 0 Resolved]) init = Some (drain rt [2, 3, 4] ?s0)" .
  have "printing_count (s6\<lparr>tasks := []\<rparr>) = 0"
    using np6 by (intro printing_count_none) (simp add: none_printing_def)
  then have seen: "seen_ok ?s0"
    by (simp add: seen_ok_def store_fields f6)
  have "status (cur_state ?s0) = Connected" "connectedPrinter (cur_state ?s0) = Some c"
      "tasks ?s0 = []" "none_printing ?s0"
      "\<forall>j\<in>set [2, 3, 4]. payload_fits (job_type (jobs ?s0 j)) (job_payload (jobs ?s0 j))"
      "filter is_print_started (events ?s0) = []"
      "job_id (jobs ?s0 2) = i1" "job_id (jobs ?s0 3) = i2" "job_id (jobs ?s0 4) = i3"
    using assms np6
    by (simp_all add: cur_state_ops store_fields f6 none_printing_def is_print_started_def)
  note facts0 = this
  have states7: "run_states rt (?L6 @ [StorageSettled 0 Resolved]) init
      = run_states rt ?L6 init @ [drain rt [2, 3, 4] ?s0]"
    unfolding run_states_append[OF r6]
    by (simp only: run_states.simps step7 option.case)
  have "at_most_printing 2 (drain rt [2, 3, 4] ?s0)"
    using facts0(1,2) _ facts0(4) seen by (rule drain_start_seen(2)) (use facts0(5) in simp)
  then have c7: "printing_count (drain rt [2, 3, 4] ?s0) \<le> 1"
    by (intro printing_count_one[of 2]) (simp add: at_most_printing_def)
  have "list_all none_printing (run_states rt ?L6 init)"
    using assms by (rule queued_states(1))
  then have c6: "list_all (\<lambda>x. printing_count x \<le> 1) (run_states rt ?L6 init)"
    by (simp add: list_all_iff printing_count_none none_printing_def)
  have l6: "length (run_states rt ?L6 init) = 6"
    using assms by (rule queued_states(2))
  have all7: "list_all (\<lambda>x. printing_count x \<le> 1)
                (run_states rt (?L6 @ [StorageSettled 0 Resolved]) init)"
       "length (run_states rt (?L6 @ [StorageSettled 0 Resolved]) init) = 7"
    unfolding states7 using c6 c7 l6 by simp_all
  have "[CallAddPrintJob t1 p1 i1 n1, CallAddPrintJob t2 p2 i2 n2,
                    CallAddPrintJob t3 p3 i3 n3, CallConnect c,
                    AdapterConnectSettled 0 ConnectTrue, StorageSettled 0 Resolved,
                    StorageSettled 0 Resolved] = ?L6 @ [StorageSettled 0 Resolved]"
    by simp
  then show ?thesis
    using run7 seen facts0 all7 by (intro exI[of _ ?s0]) (simp only: simp_thms)
qed

subsection \<open>Retries of a job whose send fails\<close>

lemma waiting_start:
  assumes "waiting c j n s"
  shows "processQueue rt s = drain rt [j] (s\<lparr>isProcessingQueue := True\<rparr>)"
    and "tasks (processQueue rt s) = [AwaitSend j []]"
    and "job_status (jobs (processQueue rt s) j) = JobPrinting"
    and "retryCount (jobs (processQueue rt s) j) = n"
    and "job_type (jobs (processQueue rt s) j) = job_type (jobs s j)"
    and "job_payload (jobs (processQueue rt s) j) = job_payload (jobs s j)"
    and "job_id (jobs (processQueue rt s) j) = job_id (jobs s j)"
    and "connectedPrinter (cur_state (processQueue rt s)) = Some c"
    and "queue (processQueue rt s) = [j]"
    and "timers (processQueue rt s) = timers s"
    and "events (processQueue rt s) = events s @ [StateChanged (next_ref s), PrintStarted j]"
proof -
  let ?s' = "s\<lparr>isProcessingQueue := True\<rparr>"
  show eq: "processQueue rt s = drain rt [j] ?s'"
    using assms by (simp add: waiting_def processQueue_def Let_def)
  have pre: "status (cur_state ?s') = Connected" "connectedPrinter (cur_state ?s') = Some c"
      "payload_fits (job_type (jobs ?s' j)) (job_payload (jobs ?s' j))"
    using assms by (simp_all add: waiting_def cur_state_ops)
  note st = drain_start_facts[OF pre, of rt "[]"]
  show "tasks (processQueue rt s) = [AwaitSend j []]"
    unfolding eq st using assms by (simp add: waiting_def)
  show "job_status (jobs (processQueue rt s) j) = JobPrinting"
       "retryCount (jobs (processQueue rt s) j) = n"
       "job_type (jobs (processQueue rt s) j) = job_type (jobs s j)"
       "job_payload (jobs (processQueue rt s) j) = job_payload (jobs s j)"
       "job_id (jobs (processQueue rt s) j) = job_id (jobs s j)"
    unfolding eq st using assms by (simp_all add: waiting_def)
  show "connectedPrinter (cur_state (processQueue rt s)) = Some c"
    unfolding eq st ..
  show "queue (processQueue rt s) = [j]" "timers (processQueue rt s) = timers s"
       "events (processQueue rt s) = events s @ [StateChanged (next_ref s), PrintStarted j]"
    unfolding eq st using assms by (simp_all add: waiting_def queue_ops)
qed

lemma attempt_rejected:
  assumes "waiting c j n s" "n < 2"
  shows "\<exists>s2. step rt (SendSettled 0 (Rejected msg)) (processQueue rt s) = Some s2
           \<and> waiting c j (Suc n) s2 \<and> timers s2 = timers s + 1
           \<and> filter is_print_started (events s2) = filter is_print_started (events s) @ [PrintStarted j]
           \<and> filter is_print_failed (events s2) = filter is_print_failed (events s)"
proof -
  let ?s1 = "processQueue rt s"
  note w = waiting_start[OF assms(1), of rt]
  let ?s1' = "?s1\<lparr>tasks := []\<rparr>"
  let ?s2 = "(executePrintJob_catch j msg ?s1')\<lparr>isProcessingQueue := False\<rparr>"
  have step: "step rt (SendSettled 0 (Rejected msg)) ?s1 = Some ?s2"
    using send_settled_step[OF w(2), of rt "Rejected msg"] by simp
  have n1: "retryCount (jobs ?s1' j) < 2" using w(4) assms(2) by simp
  note c = catch_retry[OF n1, of msg]
  have "waiting c j (Suc n) ?s2"
    unfolding waiting_def
    using w(4-9) assms(1)
    by (simp add: cur_state_ops queue_ops c waiting_def)
  moreover have "timers ?s2 = timers s + 1" by (simp add: c w(10))
  moreover have "filter is_print_started (events ?s2) = filter is_print_started (events s) @ [PrintStarted j]"
    by (simp add: c w(11) is_print_started_def)
  moreover have "filter is_print_failed (events ?s2) = filter is_print_failed (events s)"
    by (simp add: c w(11) is_print_failed_def)
  ultimately show ?thesis using step by blast
qed

lemma attempt_rejected_last:
  assumes "waiting c j 2 s"
  shows "\<exists>s2. step rt (SendSettled 0 (Rejected msg)) (processQueue rt s) = Some s2
           \<and> job_status (jobs s2 j) = Failed \<and> retryCount (jobs s2 j) = 3
           \<and> queue s2 = [] \<and> tasks s2 = [] \<and> \<not> isProcessingQueue s2 \<and> timers s2 = timers s
           \<and> status (cur_state s2) = Connected \<and> connectedPrinter (cur_state s2) = Some c
           \<and> filter is_print_started (events s2) = filter is_print_started (events s) @ [PrintStarted j]
           \<and> filter is_print_failed (events s2) = filter is_print_failed (events s) @ [PrintFailed j msg]"
proof -
  let ?s1 = "processQueue rt s"
  note w = waiting_start[OF assms(1), of rt]
  let ?s1' = "?s1\<lparr>tasks := []\<rparr>"
  let ?s2 = "(executePrintJob_catch j msg ?s1')\<lparr>isProcessingQueue := False\<rparr>"
  have step: "step rt (SendSettled 0 (Rejected msg)) ?s1 = Some ?s2"
    using send_settled_step[OF w(2), of rt "Rejected msg"] by simp
  have n1: "2 \<le> retryCount (jobs ?s1' j)" using w(4) by simp
  note c = catch_final[OF n1, of msg]
  have "job_status (jobs ?s2 j) = Failed" "retryCount (jobs ?s2 j) = 3"
       "queue ?s2 = []" "tasks ?s2 = []" "\<not> isProcessingQueue ?s2" "timers ?s2 = timers s"
       "status (cur_state ?s2) = Connected" "connectedPrinter (cur_state ?s2) = Some c"
    using w(4,8,9,10) by (simp_all add: cur_state_ops queue_ops c)
  moreover have "filter is_print_started (events ?s2) = filter is_print_started (events s) @ [PrintStarted j]"
    by (simp add: c w(11) is_print_started_def)
  moreover have "filter is_print_failed (events ?s2) = filter is_print_failed (events s) @ [PrintFailed j msg]"
    by (simp add: c w(11) is_print_failed_def)
  ultimately show ?thesis using step by blast
qed

lemma timer_fires:
  assumes "waiting c j n s" "timers s = Suc k"
  shows "step rt TimerFires s = Some (processQueue rt (s\<lparr>timers := k, isProcessingQueue := False\<rparr>))"
    and "waiting c j n (s\<lparr>timers := k, isProcessingQueue := False\<rparr>)"
  using assms by (simp_all add: waiting_def cur_state_ops queue_ops)

text \<open>
  The retries of a job that is alone in the queue. A job \<open>j\<close> waits alone in the queue of
  a connected, idle service with no failed attempt, and every send of it is rejected. The
  drain marks it printing and sends; the first and the second rejection put it back to
  pending, count the failure and set a timer; each timer starts the next attempt; the third
  rejection marks it failed with three counted failures, takes it out of the queue and
  sends the only \<open>print_failed\<close> event. There were three \<open>print_started\<close> events, and then
  there is no fourth attempt: no send is awaited, no timer is set, and a drain of the queue
  changes nothing.
\<close>

theorem retry_bound:
  assumes "waiting c j 0 s" "timers s = 0"
  shows "\<exists>s'. run rt [SendSettled 0 (Rejected m1), TimerFires, SendSettled 0 (Rejected m2),
                    TimerFires, SendSettled 0 (Rejected m3)] (processQueue rt s) = Some s'
           \<and> map (\<lambda>x. job_status (jobs x j))
                (s # processQueue rt s #
                 run_states rt [SendSettled 0 (Rejected m1), TimerFires, SendSettled 0 (Rejected m2),
                    TimerFires, SendSettled 0 (Rejected m3)] (processQueue rt s))
               = [Pending, JobPrinting, Pending, JobPrinting, Pending, JobPrinting, Failed]
           \<and> retryCount (jobs s' j) = 3
           \<and> filter is_print_started (events s')
               = filter is_print_started (events s) @ [PrintStarted j, PrintStarted j, PrintStarted j]
           \<and> filter is_print_failed (events s')
               = filter is_print_failed (events s) @ [PrintFailed j m3]
           \<and> queue s' = [] \<and> tasks s' = [] \<and> timers s' = 0
           \<and> processQueue rt s' = s' \<and> step rt TimerFires s' = None"
proof -
  have n: "(0::nat) < 2" "(1::nat) < 2" by simp_all
  from attempt_rejected[OF assms(1) n(1), of rt m1]
  obtain s2 where s2: "step rt (SendSettled 0 (Rejected m1)) (processQueue rt s) = Some s2"
      "waiting c j (Suc 0) s2" "timers s2 = timers s + 1"
      "filter is_print_started (events s2) = filter is_print_started (events s) @ [PrintStarted j]"
      "filter is_print_failed (events s2) = filter is_print_failed (events s)"
    by blast
  have t2: "timers s2 = Suc 0" using s2(3) assms(2) by simp
  let ?s2 = "s2\<lparr>timers := 0, isProcessingQueue := False\<rparr>"
  note f2 = timer_fires(1)[OF s2(2) t2, of rt] timer_fires(2)[OF s2(2) t2]
  have n1: "Suc 0 < 2" by simp
  from attempt_rejected[OF f2(2) n1, of rt m2]
  obtain s4 where s4: "step rt (SendSettled 0 (Rejected m2)) (processQueue rt ?s2) = Some s4"
      "waiting c j (Suc (Suc 0)) s4" "timers s4 = timers ?s2 + 1"
      "filter is_print_started (events s4) = filter is_print_started (events ?s2) @ [PrintStarted j]"
      "filter is_print_failed (events s4) = filter is_print_failed (events ?s2)"
    by blast
  have t4: "timers s4 = Suc 0" using s4(3) by simp
  let ?s4 = "s4\<lparr>timers := 0, isProcessingQueue := False\<rparr>"
  have w4: "waiting c j 2 s4" using s4(2) by (simp add: numeral_2_eq_2)
  note f4 = timer_fires(1)[OF w4 t4, of rt] timer_fires(2)[OF w4 t4]
  from attempt_rejected_last[OF f4(2), of rt m3]
  obtain s6 where s6: "step rt (SendSettled 0 (Rejected m3)) (processQueue rt ?s4) = Some s6"
      "job_status (jobs s6 j) = Failed" "retryCount (jobs s6 j) = 3"
      "queue s6 = []" "tasks s6 = []" "\<not> isProcessingQueue s6" "timers s6 = timers ?s4"
      "filter is_print_started (events s6) = filter is_print_started (events ?s4) @ [PrintStarted j]"
      "filter is_print_failed (events s6) = filter is_print_failed (events ?s4) @ [PrintFailed j m3]"
    by blast
  let ?L = "[SendSettled 0 (Rejected m1), TimerFires, SendSettled 0 (Rejected m2),
             TimerFires, SendSettled 0 (Rejected m3)]"
  have run: "run rt ?L (processQueue rt s) = Some s6"
    by (simp only: run.simps s2(1) f2(1) s4(1) f4(1) s6(1) option.case)
  have states: "run_states rt ?L (processQueue rt s)
      = [s2, processQueue rt ?s2, s4, processQueue rt ?s4, s6]"
    by (simp only: run_states.simps s2(1) f2(1) s4(1) f4(1) s6(1) option.case)
  have st: "job_status (jobs s j) = Pending" "job_status (jobs s2 j) = Pending"
      "job_status (jobs s4 j) = Pending"
    using assms(1) s2(2) s4(2) by (simp_all add: waiting_def)
  have pr: "job_status (jobs (processQueue rt s) j) = JobPrinting"
      "job_status (jobs (processQueue rt ?s2) j) = JobPrinting"
      "job_status (jobs (processQueue rt ?s4) j) = JobPrinting"
    using waiting_start(3)[OF assms(1)] waiting_start(3)[OF f2(2)] waiting_start(3)[OF f4(2)]
    by simp_all
  have trace: "map (\<lambda>x. job_status (jobs x j))
                 (s # processQueue rt s # run_states rt ?L (processQueue rt s))
               = [Pending, JobPrinting, Pending, JobPrinting, Pending, JobPrinting, Failed]"
    unfolding states by (simp add: st pr s6(2))
  have started: "filter is_print_started (events s6)
      = filter is_print_started (events s) @ [PrintStarted j, PrintStarted j, PrintStarted j]"
    using s6(8) s4(4) s2(4) by simp
  have failed: "filter is_print_failed (events s6)
      = filter is_print_failed (events s) @ [PrintFailed j m3]"
    using s6(9) s4(5) s2(5) by simp
  have t6: "timers s6 = 0" using s6(7) by simp
  have idle: "processQueue rt s6 = s6" by (simp add: processQueue_def s6(4))
  have notimer: "step rt TimerFires s6 = None" by (simp add: t6)
  show ?thesis
    using run trace s6(3) started failed s6(4,5) t6 idle notimer
    by (intro exI[of _ s6]) (simp only: simp_thms)
qed

theorem retry_bound_witness:
  "waiting \<lparr>cfg_id = ''bt_1'', cfg_name = ''Kitchen'', cfg_type = Bluetooth,
             cfg_address = ''AA:BB'', cfg_isDefault = False, cfg_paperWidth = P58,
             cfg_lastConnected = None\<rparr> 2 0
     (init\<lparr>objs := (\<lambda>r. \<lparr>status = Connected,
                          connectedPrinter = Some \<lparr>cfg_id = ''bt_1'', cfg_name = ''Kitchen'',
                            cfg_type = Bluetooth, cfg_address = ''AA:BB'', cfg_isDefault = False,
                            cfg_paperWidth = P58, cfg_lastConnected = None\<rparr>,
                          printQueue = 1, lastError = None\<rparr>),
           arrays := (\<lambda>r. [2]),
           jobs := (\<lambda>r. \<lparr>job_id = ''J1'', job_type = BARCODE,
                          job_payload = BarcodePayload \<lparr>bc_sku = ''SKU-1'', bc_brandName = None,
                            bc_categoryName = None, bc_modelNo = None, bc_shopName = None\<rparr>,
                          job_timestamp = 1, job_status = Pending, retryCount = 0,
                          job_error = None\<rparr>),
           next_ref := 3\<rparr>)
   \<and> (\<exists>s'. run \<lparr>rt_host = \<lparr>toLocaleString = (\<lambda>x. x), numberText = (\<lambda>q. []),
                              parseNumber = (\<lambda>x. NaN), numberSum = (\<lambda>a b. NaN)\<rparr>,
                   builtinMessage = (\<lambda>e. ''Invalid count value'')\<rparr>
             [SendSettled 0 (Rejected ''e1''), TimerFires, SendSettled 0 (Rejected ''e2''),
              TimerFires, SendSettled 0 (Rejected ''e3'')]
             (processQueue \<lparr>rt_host = \<lparr>toLocaleString = (\<lambda>x. x), numberText = (\<lambda>q. []),
                              parseNumber = (\<lambda>x. NaN), numberSum = (\<lambda>a b. NaN)\<rparr>,
                   builtinMessage = (\<lambda>e. ''Invalid count value'')\<rparr>
               (init\<lparr>objs := (\<lambda>r. \<lparr>status = Connected,
                          connectedPrinter = Some \<lparr>cfg_id = ''bt_1'', cfg_name = ''Kitchen'',
                            cfg_type = Bluetooth, cfg_address = ''AA:BB'', cfg_isDefault = False,
                            cfg_paperWidth = P58, cfg_lastConnected = None\<rparr>,
                          printQueue = 1, lastError = None\<rparr>),
                     arrays := (\<lambda>r. [2]),
                     jobs := (\<lambda>r. \<lparr>job_id = ''J1'', job_type = BARCODE,
                          job_payload = BarcodePayload \<lparr>bc_sku = ''SKU-1'', bc_brandName = None,
                            bc_categoryName = None, bc_modelNo = None, bc_shopName = None\<rparr>,
                          job_timestamp = 1, job_status = Pending, retryCount = 0,
                          job_error = None\<rparr>),
                     next_ref := 3\<rparr>)) = Some s'
          \<and> retryCount (jobs s' 2) = 3
          \<and> filter is_print_started (events s') = [PrintStarted 2, PrintStarted 2, PrintStarted 2]
          \<and> filter is_print_failed (events s') = [PrintFailed 2 ''e3'']
          \<and> queue s' = [] \<and> tasks s' = [] \<and> timers s' = 0)"
proof -
  define rt where "rt = \<lparr>rt_host = \<lparr>toLocaleString = (\<lambda>x. x), numberText = (\<lambda>q. []),
                              parseNumber = (\<lambda>x. NaN), numberSum = (\<lambda>a b. NaN)\<rparr>,
                   builtinMessage = (\<lambda>e. ''Invalid count value'')\<rparr>"
  define c where "c = \<lparr>cfg_id = ''bt_1'', cfg_name = ''Kitchen'', cfg_type = Bluetooth,
                           cfg_address = ''AA:BB'', cfg_isDefault = False, cfg_paperWidth = P58,
                           cfg_lastConnected = None\<rparr>"
  define s where "s = init\<lparr>objs := (\<lambda>r. \<lparr>status = Connected, connectedPrinter = Some c,
                          printQueue = 1, lastError = None\<rparr>),
           arrays := (\<lambda>r. [2]),
           jobs := (\<lambda>r. \<lparr>job_id = ''J1'', job_type = BARCODE,
                          job_payload = BarcodePayload \<lparr>bc_sku = ''SKU-1'', bc_brandName = None,
                            bc_categoryName = None, bc_modelNo = None, bc_shopName = None\<rparr>,
                          job_timestamp = 1, job_status = Pending, retryCount = 0,
                          job_error = None\<rparr>),
           next_ref := 3\<rparr>"
  define L where "L = [SendSettled 0 (Rejected ''e1''), TimerFires, SendSettled 0 (Rejected ''e2''),
              TimerFires, SendSettled 0 (Rejected ''e3'')]"
  have w: "waiting c 2 0 s"
    by (simp add: waiting_def cur_state_def queue_def init_def payload_fits_def s_def)
  have t: "timers s = 0" by (simp add: init_def s_def)
  have ev: "events s = []" by (simp add: init_def s_def)
  have "\<exists>s'. run rt [SendSettled 0 (Rejected ''e1''), TimerFires, SendSettled 0 (Rejected ''e2''),
                    TimerFires, SendSettled 0 (Rejected ''e3'')] (processQueue rt s) = Some s'
           \<and> map (\<lambda>x. job_status (jobs x 2))
                (s # processQueue rt s #
                 run_states rt [SendSettled 0 (Rejected ''e1''), TimerFires, SendSettled 0 (Rejected ''e2''),
                    TimerFires, SendSettled 0 (Rejected ''e3'')] (processQueue rt s))
               = [Pending, JobPrinting, Pending, JobPrinting, Pending, JobPrinting, Failed]
           \<and> retryCount (jobs s' 2) = 3
           \<and> filter is_print_started (events s')
               = filter is_print_started (events s) @ [PrintStarted 2, PrintStarted 2, PrintStarted 2]
           \<and> filter is_print_failed (events s')
               = filter is_print_failed (events s) @ [PrintFailed 2 ''e3'']
           \<and> queue s' = [] \<and> tasks s' = [] \<and> timers s' = 0
           \<and> processQueue rt s' = s' \<and> step rt TimerFires s' = None"
    using w t by (rule retry_bound)
  then obtain s' where s': "run rt L (processQueue rt s) = Some s'"
      "map (\<lambda>x. job_status (jobs x 2)) (s # processQueue rt s # run_states rt L (processQueue rt s))
        = [Pending, JobPrinting, Pending, JobPrinting, Pending, JobPrinting, Failed]"
      "retryCount (jobs s' 2) = 3"
      "filter is_print_started (events s')
         = filter is_print_started (events s) @ [PrintStarted 2, PrintStarted 2, PrintStarted 2]"
      "filter is_print_failed (events s')
         = filter is_print_failed (events s) @ [PrintFailed 2 ''e3'']"
      "queue s' = []" "tasks s' = []" "timers s' = 0"
    unfolding L_def[symmetric] by (elim exE conjE)
  have "waiting c 2 0 s
      \<and> (\<exists>s'. run rt L (processQueue rt s) = Some s'
          \<and> retryCount (jobs s' 2) = 3
          \<and> filter is_print_started (events s') = [PrintStarted 2, PrintStarted 2, PrintStarted 2]
          \<and> filter is_print_failed (events s') = [PrintFailed 2 ''e3'']
          \<and> queue s' = [] \<and> tasks s' = [] \<and> timers s' = 0)"
    using w s'(1,3,6,7,8) s'(4,5)[unfolded ev]
    by (intro conjI exI[of _ s']) (simp_all only: filter.simps append_Nil)
  then show ?thesis unfolding L_def s_def c_def rt_def .
qed

text \<open>
  The drain when the sends settle before any retry timer fires and no other call is made.
  Three jobs J1, J2, J3 are submitted, in this order, to the service as constructed
  (disconnected), and then a connect succeeds: the adapter connects and the two writes of
  the storage resolve. The drain that the connect starts then takes the three jobs in the
  order of submission, whatever the outcome \<open>r1\<close>, \<open>r2\<close>, \<open>r3\<close> of each send (resolved or
  rejected): the \<open>print_started\<close> events of the whole run are those of J1, J2, J3, in this
  order; after every step of the run, and at every event sent during it, at most one job
  has the status printing. The payloads are ones that the generators accept.
\<close>

theorem fifo_drain:
  assumes "payload_fits t1 p1" "payload_fits t2 p2" "payload_fits t3 p3"
  shows "\<exists>s'. run rt ([CallAddPrintJob t1 p1 i1 n1, CallAddPrintJob t2 p2 i2 n2,
                     CallAddPrintJob t3 p3 i3 n3, CallConnect c,
                     AdapterConnectSettled 0 ConnectTrue, StorageSettled 0 Resolved,
                     StorageSettled 0 Resolved]
                    @ [SendSettled 0 r1, SendSettled 0 r2, SendSettled 0 r3]) init = Some s'
           \<and> filter is_print_started (events s') = [PrintStarted 2, PrintStarted 3, PrintStarted 4]
           \<and> job_id (jobs s' 2) = i1 \<and> job_id (jobs s' 3) = i2 \<and> job_id (jobs s' 4) = i3
           \<and> seen_ok s'
           \<and> list_all (\<lambda>x. printing_count x \<le> 1)
                (run_states rt ([CallAddPrintJob t1 p1 i1 n1, CallAddPrintJob t2 p2 i2 n2,
                     CallAddPrintJob t3 p3 i3 n3, CallConnect c,
                     AdapterConnectSettled 0 ConnectTrue, StorageSettled 0 Resolved,
                     StorageSettled 0 Resolved]
                    @ [SendSettled 0 r1, SendSettled 0 r2, SendSettled 0 r3]) init)
           \<and> length (run_states rt ([CallAddPrintJob t1 p1 i1 n1, CallAddPrintJob t2 p2 i2 n2,
                     CallAddPrintJob t3 p3 i3 n3, CallConnect c,
                     AdapterConnectSettled 0 ConnectTrue, StorageSettled 0 Resolved,
                     StorageSettled 0 Resolved]
                    @ [SendSettled 0 r1, SendSettled 0 r2, SendSettled 0 r3]) init) = 10"
proof -
  let ?L7 = "[CallAddPrintJob t1 p1 i1 n1, CallAddPrintJob t2 p2 i2 n2,
              CallAddPrintJob t3 p3 i3 n3, CallConnect c,
              AdapterConnectSettled 0 ConnectTrue, StorageSettled 0 Resolved,
              StorageSettled 0 Resolved]"
  let ?S = "map (SendSettled 0) [r1, r2, r3]"
  from queued_then_connected[OF assms, of rt i1 n1 i2 n2 i3 n3 c]
  obtain s0 where s0: "run rt ?L7 init = Some (drain rt [2, 3, 4] s0)"
      "status (cur_state s0) = Connected" "connectedPrinter (cur_state s0) = Some c"
      "tasks s0 = []" "none_printing s0" "seen_ok s0"
      "\<forall>j\<in>set [2, 3, 4]. payload_fits (job_type (jobs s0 j)) (job_payload (jobs s0 j))"
      "filter is_print_started (events s0) = []"
      "job_id (jobs s0 2) = i1" "job_id (jobs s0 3) = i2" "job_id (jobs s0 4) = i3"
      "list_all (\<lambda>x. printing_count x \<le> 1) (run_states rt ?L7 init)"
      "length (run_states rt ?L7 init) = 7"
    by blast
  have len: "length [r1, r2, r3] = length [2::nat, 3, 4]" by simp
  from drain_run[OF s0(2-7) len, of rt]
  obtain s' where s': "run rt ?S (drain rt [2, 3, 4] s0) = Some s'"
      "filter is_print_started (events s')
         = filter is_print_started (events s0) @ map PrintStarted [2, 3, 4]"
      "seen_ok s'"
      "list_all (\<lambda>x. printing_count x \<le> 1) (run_states rt ?S (drain rt [2, 3, 4] s0))"
      "length (run_states rt ?S (drain rt [2, 3, 4] s0)) = length [2::nat, 3, 4]"
      "\<forall>k. job_id (jobs s' k) = job_id (jobs s0 k)"
    by blast
  have run: "run rt (?L7 @ ?S) init = Some s'"
    unfolding run_append by (simp only: s0(1) option.case s'(1))
  have states: "run_states rt (?L7 @ ?S) init
      = run_states rt ?L7 init @ run_states rt ?S (drain rt [2, 3, 4] s0)"
    using s0(1) by (rule run_states_append)
  have ev: "filter is_print_started (events s') = [PrintStarted 2, PrintStarted 3, PrintStarted 4]"
    unfolding s'(2) s0(8) by simp
  have ids: "job_id (jobs s' 2) = i1" "job_id (jobs s' 3) = i2" "job_id (jobs s' 4) = i3"
    using s'(6) s0(9-11) by simp_all
  have all: "list_all (\<lambda>x. printing_count x \<le> 1) (run_states rt (?L7 @ ?S) init)"
    unfolding states using s0(12) s'(4) by simp
  have n: "length (run_states rt (?L7 @ ?S) init) = 10"
    unfolding states using s0(13) s'(5) by simp
  have S: "[SendSettled 0 r1, SendSettled 0 r2, SendSettled 0 r3] = ?S" by simp
  show ?thesis
    unfolding S using run ev ids s'(3) all n by blast
qed

theorem fifo_drain_witness:
  "payload_fits BARCODE
     (BarcodePayload \<lparr>bc_sku = ''SKU-1'', bc_brandName = None, bc_categoryName = None,
                       bc_modelNo = None, bc_shopName = None\<rparr>)
   \<and> (\<exists>s'. run \<lparr>rt_host = \<lparr>toLocaleString = (\<lambda>x. x), numberText = (\<lambda>q. []),
                              parseNumber = (\<lambda>x. NaN), numberSum = (\<lambda>a b. NaN)\<rparr>,
                   builtinMessage = (\<lambda>e. ''Invalid count value'')\<rparr>
             [CallAddPrintJob BARCODE
                (BarcodePayload \<lparr>bc_sku = ''SKU-1'', bc_brandName = None, bc_categoryName = None,
                                  bc_modelNo = None, bc_shopName = None\<rparr>) ''J1'' 1,
              CallAddPrintJob BARCODE
                (BarcodePayload \<lparr>bc_sku = ''SKU-1'', bc_brandName = None, bc_categoryName = None,
                                  bc_modelNo = None, bc_shopName = None\<rparr>) ''J2'' 2,
              CallAddPrintJob BARCODE
                (BarcodePayload \<lparr>bc_sku = ''SKU-1'', bc_brandName = None, bc_categoryName = None,
                                  bc_modelNo = None, bc_shopName = None\<rparr>) ''J3'' 3,
              CallConnect \<lparr>cfg_id = ''bt_1'', cfg_name = ''Kitchen'', cfg_type = Bluetooth,
                           cfg_address = ''AA:BB'', cfg_isDefault = False, cfg_paperWidth = P58,
                           cfg_lastConnected = None\<rparr>,
              AdapterConnectSettled 0 ConnectTrue, StorageSettled 0 Resolved,
              StorageSettled 0 Resolved,
              SendSettled 0 Resolved, SendSettled 0 (Rejected ''paper out''),
              SendSettled 0 Resolved] init = Some s'
          \<and> filter is_print_started (events s') = [PrintStarted 2, PrintStarted 3, PrintStarted 4]
          \<and> job_id (jobs s' 2) = ''J1'' \<and> job_id (jobs s' 3) = ''J2'' \<and> job_id (jobs s' 4) = ''J3''
          \<and> seen_ok s')"
proof -
  define p where "p = BarcodePayload \<lparr>bc_sku = ''SKU-1'', bc_brandName = None,
      bc_categoryName = None, bc_modelNo = None, bc_shopName = None\<rparr>"
  define rt where "rt = \<lparr>rt_host = \<lparr>toLocaleString = (\<lambda>x. x), numberText = (\<lambda>q. []),
                              parseNumber = (\<lambda>x. NaN), numberSum = (\<lambda>a b. NaN)\<rparr>,
                   builtinMessage = (\<lambda>e. ''Invalid count value'')\<rparr>"
  define c where "c = \<lparr>cfg_id = ''bt_1'', cfg_name = ''Kitchen'', cfg_type = Bluetooth,
                           cfg_address = ''AA:BB'', cfg_isDefault = False, cfg_paperWidth = P58,
                           cfg_lastConnected = None\<rparr>"
  have fits: "payload_fits BARCODE p" by (simp add: payload_fits_def p_def)
  have "\<exists>s'. run rt ([CallAddPrintJob BARCODE p ''J1'' 1, CallAddPrintJob BARCODE p ''J2'' 2,
                     CallAddPrintJob BARCODE p ''J3'' 3, CallConnect c,
                     AdapterConnectSettled 0 ConnectTrue, StorageSettled 0 Resolved,
                     StorageSettled 0 Resolved]
                    @ [SendSettled 0 Resolved, SendSettled 0 (Rejected ''paper out''),
                       SendSettled 0 Resolved]) init = Some s'
           \<and> filter is_print_started (events s') = [PrintStarted 2, PrintStarted 3, PrintStarted 4]
           \<and> job_id (jobs s' 2) = ''J1'' \<and> job_id (jobs s' 3) = ''J2'' \<and> job_id (jobs s' 4) = ''J3''
           \<and> seen_ok s'
           \<and> list_all (\<lambda>x. printing_count x \<le> 1)
                (run_states rt ([CallAddPrintJob BARCODE p ''J1'' 1, CallAddPrintJob BARCODE p ''J2'' 2,
                     CallAddPrintJob BARCODE p ''J3'' 3, CallConnect c,
                     AdapterConnectSettled 0 ConnectTrue, StorageSettled 0 Resolved,
                     StorageSettled 0 Resolved]
                    @ [SendSettled 0 Resolved, SendSettled 0 (Rejected ''paper out''),
                       SendSettled 0 Resolved]) init)
           \<and> length (run_states rt ([CallAddPrintJob BARCODE p ''J1'' 1, CallAddPrintJob BARCODE p ''J2'' 2,
                     CallAddPrintJob BARCODE p ''J3'' 3, CallConnect c,
                     AdapterConnectSettled 0 ConnectTrue, StorageSettled 0 Resolved,
                     StorageSettled 0 Resolved]
                    @ [SendSettled 0 Resolved, SendSettled 0 (Rejected ''paper out''),
                       SendSettled 0 Resolved]) init) = 10"
    using fits fits fits by (rule fifo_drain)
  then obtain s' where s': "run rt ([CallAddPrintJob BARCODE p ''J1'' 1, CallAddPrintJob BARCODE p ''J2'' 2,
                     CallAddPrintJob BARCODE p ''J3'' 3, CallConnect c,
                     AdapterConnectSettled 0 ConnectTrue, StorageSettled 0 Resolved,
                     StorageSettled 0 Resolved]
                    @ [SendSettled 0 Resolved, SendSettled 0 (Rejected ''paper out''),
                       SendSettled 0 Resolved]) init = Some s'"
      "filter is_print_started (events s') = [PrintStarted 2, PrintStarted 3, PrintStarted 4]"
      "job_id (jobs s' 2) = ''J1''" "job_id (jobs s' 3) = ''J2''" "job_id (jobs s' 4) = ''J3''"
      "seen_ok s'"
    by (elim exE conjE)
  then have "payload_fits BARCODE p
      \<and> (\<exists>s'. run rt [CallAddPrintJob BARCODE p ''J1'' 1, CallAddPrintJob BARCODE p ''J2'' 2,
                     CallAddPrintJob BARCODE p ''J3'' 3, CallConnect c,
                     AdapterConnectSettled 0 ConnectTrue, StorageSettled 0 Resolved,
                     StorageSettled 0 Resolved,
                     SendSettled 0 Resolved, SendSettled 0 (Rejected ''paper out''),
                     SendSettled 0 Resolved] init = Some s'
          \<and> filter is_print_started (events s') = [PrintStarted 2, PrintStarted 3, PrintStarted 4]
          \<and> job_id (jobs s' 2) = ''J1'' \<and> job_id (jobs s' 3) = ''J2'' \<and> job_id (jobs s' 4) = ''J3''
          \<and> seen_ok s')"
    using fits by (intro conjI exI[of _ s']) (simp_all only: append.simps)
  then show ?thesis unfolding p_def rt_def c_def .
qed

subsection \<open>Where the retry timer meets a drain in progress\<close>

text \<open>
  Claim C1. The claim does not hold of the code. Two jobs are submitted while disconnected
  and a connect succeeds. The send of the first job is rejected: the job is put back to
  pending with one counted failure, a retry timer is set, and the drain goes on to the
  second job. The timer fires while the send of the second job is awaited: its callback
  clears \<open>isProcessingQueue\<close> and calls \<open>processQueue\<close>, which finds the status printing,
  shows the alert of the missing printer and returns. The second send resolves and the
  drain ends. The first job is then pending in the queue with one counted failure: it was
  attempted once, no \<open>print_failed\<close> event was sent, and neither a timer nor a send is left
  that would start another attempt.
\<close>

theorem retry_dropped:
  assumes "payload_fits t1 p1" "payload_fits t2 p2" "i1 \<noteq> i2"
  shows "\<exists>s'. run rt [CallAddPrintJob t1 p1 i1 n1, CallAddPrintJob t2 p2 i2 n2, CallConnect c,
                    AdapterConnectSettled 0 ConnectTrue, StorageSettled 0 Resolved,
                    StorageSettled 0 Resolved, SendSettled 0 (Rejected m), TimerFires,
                    SendSettled 0 Resolved] init = Some s'
           \<and> job_id (jobs s' 2) = i1
           \<and> job_status (jobs s' 2) = Pending \<and> retryCount (jobs s' 2) = 1
           \<and> queue s' = [2]
           \<and> filter is_print_started (events s') = [PrintStarted 2, PrintStarted 3]
           \<and> filter is_print_failed (events s') = []
           \<and> status (cur_state s') = Connected
           \<and> tasks s' = [] \<and> timers s' = 0 \<and> \<not> isProcessingQueue s'
           \<and> step rt TimerFires s' = None"
  using assms
  by (simp add: store_fields service_unfold drain.simps(2) is_print_started_def is_print_failed_def)

theorem retry_dropped_witness:
  "payload_fits BARCODE
     (BarcodePayload \<lparr>bc_sku = ''SKU-1'', bc_brandName = None, bc_categoryName = None,
                       bc_modelNo = None, bc_shopName = None\<rparr>)
   \<and> ''J1'' \<noteq> ''J2''
   \<and> (\<exists>s'. run \<lparr>rt_host = \<lparr>toLocaleString = (\<lambda>x. x), numberText = (\<lambda>q. []),
                              parseNumber = (\<lambda>x. NaN), numberSum = (\<lambda>a b. NaN)\<rparr>,
                   builtinMessage = (\<lambda>e. ''Invalid count value'')\<rparr>
             [CallAddPrintJob BARCODE
                (BarcodePayload \<lparr>bc_sku = ''SKU-1'', bc_brandName = None, bc_categoryName = None,
                                  bc_modelNo = None, bc_shopName = None\<rparr>) ''J1'' 1,
              CallAddPrintJob BARCODE
                (BarcodePayload \<lparr>bc_sku = ''SKU-1'', bc_brandName = None, bc_categoryName = None,
                                  bc_modelNo = None, bc_shopName = None\<rparr>) ''J2'' 2,
              CallConnect \<lparr>cfg_id = ''bt_1'', cfg_name = ''Kitchen'', cfg_type = Bluetooth,
                           cfg_address = ''AA:BB'', cfg_isDefault = False, cfg_paperWidth = P58,
                           cfg_lastConnected = None\<rparr>,
              AdapterConnectSettled 0 ConnectTrue, StorageSettled 0 Resolved,
              StorageSettled 0 Resolved, SendSettled 0 (Rejected ''paper out''), TimerFires,
              SendSettled 0 Resolved] init = Some s'
          \<and> job_id (jobs s' 2) = ''J1''
          \<and> job_status (jobs s' 2) = Pending \<and> retryCount (jobs s' 2) = 1
          \<and> queue s' = [2]
          \<and> filter is_print_failed (events s') = []
          \<and> tasks s' = [] \<and> timers s' = 0)"
proof -
  define p where "p = BarcodePayload \<lparr>bc_sku = ''SKU-1'', bc_brandName = None,
      bc_categoryName = None, bc_modelNo = None, bc_shopName = None\<rparr>"
  define rt where "rt = \<lparr>rt_host = \<lparr>toLocaleString = (\<lambda>x. x), numberText = (\<lambda>q. []),
                              parseNumber = (\<lambda>x. NaN), numberSum = (\<lambda>a b. NaN)\<rparr>,
                   builtinMessage = (\<lambda>e. ''Invalid count value'')\<rparr>"
  define c where "c = \<lparr>cfg_id = ''bt_1'', cfg_name = ''Kitchen'', cfg_type = Bluetooth,
                           cfg_address = ''AA:BB'', cfg_isDefault = False, cfg_paperWidth = P58,
                           cfg_lastConnected = None\<rparr>"
  define L where "L = [CallAddPrintJob BARCODE p ''J1'' 1, CallAddPrintJob BARCODE p ''J2'' 2,
      CallConnect c, AdapterConnectSettled 0 ConnectTrue, StorageSettled 0 Resolved,
      StorageSettled 0 Resolved, SendSettled 0 (Rejected ''paper out''), TimerFires,
      SendSettled 0 Resolved]"
  have fits: "payload_fits BARCODE p" by (simp add: payload_fits_def p_def)
  have ids: "''J1'' \<noteq> ''J2''" by simp
  have "\<exists>s'. run rt [CallAddPrintJob BARCODE p ''J1'' 1, CallAddPrintJob BARCODE p ''J2'' 2,
                    CallConnect c, AdapterConnectSettled 0 ConnectTrue, StorageSettled 0 Resolved,
                    StorageSettled 0 Resolved, SendSettled 0 (Rejected ''paper out''), TimerFires,
                    SendSettled 0 Resolved] init = Some s'
           \<and> job_id (jobs s' 2) = ''J1''
           \<and> job_status (jobs s' 2) = Pending \<and> retryCount (jobs s' 2) = 1
           \<and> queue s' = [2]
           \<and> filter is_print_started (events s') = [PrintStarted 2, PrintStarted 3]
           \<and> filter is_print_failed (events s') = []
           \<and> status (cur_state s') = Connected
           \<and> tasks s' = [] \<and> timers s' = 0 \<and> \<not> isProcessingQueue s'
           \<and> step rt TimerFires s' = None"
    using fits fits ids by (rule retry_dropped)
  then obtain s' where "run rt L init = Some s'" "job_id (jobs s' 2) = ''J1''"
      "job_status (jobs s' 2) = Pending" "retryCount (jobs s' 2) = 1" "queue s' = [2]"
      "filter is_print_failed (events s') = []" "tasks s' = []" "timers s' = 0"
    unfolding L_def[symmetric] by (elim exE conjE)
  then have "payload_fits BARCODE p \<and> ''J1'' \<noteq> ''J2''
      \<and> (\<exists>s'. run rt L init = Some s' \<and> job_id (jobs s' 2) = ''J1''
            \<and> job_status (jobs s' 2) = Pending \<and> retryCount (jobs s' 2) = 1
            \<and> queue s' = [2] \<and> filter is_print_failed (events s') = []
            \<and> tasks s' = [] \<and> timers s' = 0)"
    using fits ids by (intro conjI exI[of _ s'])
  then show ?thesis unfolding L_def p_def rt_def c_def .
qed

text \<open>
  Claim C2. The claim does not hold of the code. Three jobs are submitted while
  disconnected and a connect succeeds. The send of the first job is rejected, which sets a
  retry timer, and the drain goes on to the second job. The timer fires while the second
  send is awaited: its callback clears \<open>isProcessingQueue\<close> although the drain is still
  running. \<open>connect\<close> is then called again and succeeds: it sets the status connected and
  calls \<open>processQueue\<close>, which no longer sees a drain in progress and starts a second one
  with the first job. The first and the second job now both have the status printing, two
  sends are awaited at once, and the \<open>print_started\<close> events so far are those of the
  first, the second and again the first job.
\<close>

theorem two_jobs_printing:
  assumes "payload_fits t1 p1" "payload_fits t2 p2" "payload_fits t3 p3"
  shows "\<exists>s'. run rt [CallAddPrintJob t1 p1 i1 n1, CallAddPrintJob t2 p2 i2 n2,
                    CallAddPrintJob t3 p3 i3 n3, CallConnect c,
                    AdapterConnectSettled 0 ConnectTrue, StorageSettled 0 Resolved,
                    StorageSettled 0 Resolved, SendSettled 0 (Rejected m), TimerFires,
                    CallConnect c', AdapterConnectSettled 1 ConnectTrue,
                    StorageSettled 1 Resolved, StorageSettled 1 Resolved] init = Some s'
           \<and> job_status (jobs s' 2) = JobPrinting \<and> job_status (jobs s' 3) = JobPrinting
           \<and> 2 \<le> printing_count s'
           \<and> filter is_print_started (events s') = [PrintStarted 2, PrintStarted 3, PrintStarted 2]
           \<and> tasks s' = [AwaitSend 3 [4], AwaitSend 2 [4]]"
proof -
  define L where "L = [CallAddPrintJob t1 p1 i1 n1, CallAddPrintJob t2 p2 i2 n2,
                    CallAddPrintJob t3 p3 i3 n3, CallConnect c,
                    AdapterConnectSettled 0 ConnectTrue, StorageSettled 0 Resolved,
                    StorageSettled 0 Resolved, SendSettled 0 (Rejected m), TimerFires,
                    CallConnect c', AdapterConnectSettled 1 ConnectTrue,
                    StorageSettled 1 Resolved, StorageSettled 1 Resolved]"
  have "\<exists>s'. run rt L init = Some s'
           \<and> job_status (jobs s' 2) = JobPrinting \<and> job_status (jobs s' 3) = JobPrinting
           \<and> 3 < next_ref s'
           \<and> filter is_print_started (events s') = [PrintStarted 2, PrintStarted 3, PrintStarted 2]
           \<and> tasks s' = [AwaitSend 3 [4], AwaitSend 2 [4]]"
    unfolding L_def using assms
    by (simp add: store_fields service_unfold drain.simps(2) is_print_started_def)
  then obtain s' where s': "run rt L init = Some s'"
      "job_status (jobs s' 2) = JobPrinting" "job_status (jobs s' 3) = JobPrinting"
      "3 < next_ref s'"
      "filter is_print_started (events s') = [PrintStarted 2, PrintStarted 3, PrintStarted 2]"
      "tasks s' = [AwaitSend 3 [4], AwaitSend 2 [4]]"
    by (elim exE conjE)
  have lt: "(2::nat) < 3" by simp
  have "2 \<le> printing_count s'"
    using lt s'(4,2,3) by (rule printing_count_two)
  with s' have "\<exists>s'. run rt L init = Some s'
           \<and> job_status (jobs s' 2) = JobPrinting \<and> job_status (jobs s' 3) = JobPrinting
           \<and> 2 \<le> printing_count s'
           \<and> filter is_print_started (events s') = [PrintStarted 2, PrintStarted 3, PrintStarted 2]
           \<and> tasks s' = [AwaitSend 3 [4], AwaitSend 2 [4]]"
    by (intro exI[of _ s'] conjI)
  then show ?thesis unfolding L_def .
qed

theorem two_jobs_printing_witness:
  "payload_fits BARCODE
     (BarcodePayload \<lparr>bc_sku = ''SKU-1'', bc_brandName = None, bc_categoryName = None,
                       bc_modelNo = None, bc_shopName = None\<rparr>)
   \<and> (\<exists>s'. run \<lparr>rt_host = \<lparr>toLocaleString = (\<lambda>x. x), numberText = (\<lambda>q. []),
                              parseNumber = (\<lambda>x. NaN), numberSum = (\<lambda>a b. NaN)\<rparr>,
                   builtinMessage = (\<lambda>e. ''Invalid count value'')\<rparr>
             [CallAddPrintJob BARCODE
                (BarcodePayload \<lparr>bc_sku = ''SKU-1'', bc_brandName = None, bc_categoryName = None,
                                  bc_modelNo = None, bc_shopName = None\<rparr>) ''J1'' 1,
              CallAddPrintJob BARCODE
                (BarcodePayload \<lparr>bc_sku = ''SKU-1'', bc_brandName = None, bc_categoryName = None,
                                  bc_modelNo = None, bc_shopName = None\<rparr>) ''J2'' 2,
              CallAddPrintJob BARCODE
                (BarcodePayload \<lparr>bc_sku = ''SKU-1'', bc_brandName = None, bc_categoryName = None,
                                  bc_modelNo = None, bc_shopName = None\<rparr>) ''J3'' 3,
              CallConnect \<lparr>cfg_id = ''bt_1'', cfg_name = ''Kitchen'', cfg_type = Bluetooth,
                           cfg_address = ''AA:BB'', cfg_isDefault = False, cfg_paperWidth = P58,
                           cfg_lastConnected = None\<rparr>,
              AdapterConnectSettled 0 ConnectTrue, StorageSettled 0 Resolved,
              StorageSettled 0 Resolved, SendSettled 0 (Rejected ''paper out''), TimerFires,
              CallConnect \<lparr>cfg_id = ''bt_1'', cfg_name = ''Kitchen'', cfg_type = Bluetooth,
                           cfg_address = ''AA:BB'', cfg_isDefault = False, cfg_paperWidth = P58,
                           cfg_lastConnected = None\<rparr>,
              AdapterConnectSettled 1 ConnectTrue, StorageSettled 1 Resolved,
              StorageSettled 1 Resolved] init = Some s'
          \<and> job_status (jobs s' 2) = JobPrinting \<and> job_status (jobs s' 3) = JobPrinting
          \<and> 2 \<le> printing_count s'
          \<and> filter is_print_started (events s') = [PrintStarted 2, PrintStarted 3, PrintStarted 2])"
proof -
  define p where "p = BarcodePayload \<lparr>bc_sku = ''SKU-1'', bc_brandName = None,
      bc_categoryName = None, bc_modelNo = None, bc_shopName = None\<rparr>"
  define rt where "rt = \<lparr>rt_host = \<lparr>toLocaleString = (\<lambda>x. x), numberText = (\<lambda>q. []),
                              parseNumber = (\<lambda>x. NaN), numberSum = (\<lambda>a b. NaN)\<rparr>,
                   builtinMessage = (\<lambda>e. ''Invalid count value'')\<rparr>"
  define c where "c = \<lparr>cfg_id = ''bt_1'', cfg_name = ''Kitchen'', cfg_type = Bluetooth,
                           cfg_address = ''AA:BB'', cfg_isDefault = False, cfg_paperWidth = P58,
                           cfg_lastConnected = None\<rparr>"
  define L where "L = [CallAddPrintJob BARCODE p ''J1'' 1, CallAddPrintJob BARCODE p ''J2'' 2,
      CallAddPrintJob BARCODE p ''J3'' 3, CallConnect c,
      AdapterConnectSettled 0 ConnectTrue, StorageSettled 0 Resolved,
      StorageSettled 0 Resolved, SendSettled 0 (Rejected ''paper out''), TimerFires,
      CallConnect c, AdapterConnectSettled 1 ConnectTrue,
      StorageSettled 1 Resolved, StorageSettled 1 Resolved]"
  have fits: "payload_fits BARCODE p" by (simp add: payload_fits_def p_def)
  have "\<exists>s'. run rt [CallAddPrintJob BARCODE p ''J1'' 1, CallAddPrintJob BARCODE p ''J2'' 2,
                    CallAddPrintJob BARCODE p ''J3'' 3, CallConnect c,
                    AdapterConnectSettled 0 ConnectTrue, StorageSettled 0 Resolved,
                    StorageSettled 0 Resolved, SendSettled 0 (Rejected ''paper out''), TimerFires,
                    CallConnect c, AdapterConnectSettled 1 ConnectTrue,
                    StorageSettled 1 Resolved, StorageSettled 1 Resolved] init = Some s'
           \<and> job_status (jobs s' 2) = JobPrinting \<and> job_status (jobs s' 3) = JobPrinting
           \<and> 2 \<le> printing_count s'
           \<and> filter is_print_started (events s') = [PrintStarted 2, PrintStarted 3, PrintStarted 2]
           \<and> tasks s' = [AwaitSend 3 [4], AwaitSend 2 [4]]"
    using fits fits fits by (rule two_jobs_printing)
  then obtain s' where "run rt L init = Some s'"
      "job_status (jobs s' 2) = JobPrinting" "job_status (jobs s' 3) = JobPrinting"
      "2 \<le> printing_count s'"
      "filter is_print_started (events s') = [PrintStarted 2, PrintStarted 3, PrintStarted 2]"
    unfolding L_def[symmetric] by (elim exE conjE)
  then have "payload_fits BARCODE p
      \<and> (\<exists>s'. run rt L init = Some s'
            \<and> job_status (jobs s' 2) = JobPrinting \<and> job_status (jobs s' 3) = JobPrinting
            \<and> 2 \<le> printing_count s'
            \<and> filter is_print_started (events s') = [PrintStarted 2, PrintStarted 3, PrintStarted 2])"
    using fits by (intro conjI exI[of _ s'])
  then show ?thesis unfolding L_def p_def rt_def c_def .
qed

subsection \<open>The status and the connected printer\<close>

text \<open>
  Claim C8. The claim does not hold of the code. A connect succeeds, a job is submitted and
  its send is awaited (status printing); \<open>disconnect()\<close> is called and completes, which sets
  the status disconnected and clears the connected printer; then the send settles, resolved
  or rejected. Both branches of \<open>executePrintJob\<close> end with \<open>setStatus("connected")\<close>:
  the status is connected and no printer is set.
\<close>

theorem connected_without_printer:
  assumes "payload_fits t p"
  shows "\<exists>s'. run rt [CallConnect c, AdapterConnectSettled 0 ConnectTrue,
                    StorageSettled 0 Resolved, StorageSettled 0 Resolved,
                    CallAddPrintJob t p i n, CallDisconnect,
                    AdapterDisconnectSettled 1 r, SendSettled 0 r'] init = Some s'
           \<and> status (cur_state s') = Connected \<and> connectedPrinter (cur_state s') = None"
proof (cases r')
  case Resolved
  then show ?thesis
    using assms by (simp add: store_fields service_unfold drain.simps(2))
next
  case (Rejected msg)
  then show ?thesis
    using assms by (simp add: store_fields service_unfold drain.simps(2))
qed

theorem connected_without_printer_witness:
  "payload_fits BARCODE
     (BarcodePayload \<lparr>bc_sku = ''SKU-1'', bc_brandName = None, bc_categoryName = None,
                       bc_modelNo = None, bc_shopName = None\<rparr>)
   \<and> (\<exists>s'. run \<lparr>rt_host = \<lparr>toLocaleString = (\<lambda>x. x), numberText = (\<lambda>q. []),
                              parseNumber = (\<lambda>x. NaN), numberSum = (\<lambda>a b. NaN)\<rparr>,
                   builtinMessage = (\<lambda>e. ''Invalid count value'')\<rparr>
             [CallConnect \<lparr>cfg_id = ''bt_1'', cfg_name = ''Kitchen'', cfg_type = Bluetooth,
                           cfg_address = ''AA:BB'', cfg_isDefault = False, cfg_paperWidth = P58,
                           cfg_lastConnected = None\<rparr>,
              AdapterConnectSettled 0 ConnectTrue, StorageSettled 0 Resolved,
              StorageSettled 0 Resolved,
              CallAddPrintJob BARCODE
                (BarcodePayload \<lparr>bc_sku = ''SKU-1'', bc_brandName = None, bc_categoryName = None,
                                  bc_modelNo = None, bc_shopName = None\<rparr>) ''J1'' 1,
              CallDisconnect, AdapterDisconnectSettled 1 Resolved,
              SendSettled 0 (Rejected ''Not connected'')] init = Some s'
          \<and> status (cur_state s') = Connected \<and> connectedPrinter (cur_state s') = None)"
proof -
  define p where "p = BarcodePayload \<lparr>bc_sku = ''SKU-1'', bc_brandName = None,
      bc_categoryName = None, bc_modelNo = None, bc_shopName = None\<rparr>"
  define rt where "rt = \<lparr>rt_host = \<lparr>toLocaleString = (\<lambda>x. x), numberText = (\<lambda>q. []),
                              parseNumber = (\<lambda>x. NaN), numberSum = (\<lambda>a b. NaN)\<rparr>,
                   builtinMessage = (\<lambda>e. ''Invalid count value'')\<rparr>"
  define c where "c = \<lparr>cfg_id = ''bt_1'', cfg_name = ''Kitchen'', cfg_type = Bluetooth,
                           cfg_address = ''AA:BB'', cfg_isDefault = False, cfg_paperWidth = P58,
                           cfg_lastConnected = None\<rparr>"
  have fits: "payload_fits BARCODE p" by (simp add: payload_fits_def p_def)
  have "\<exists>s'. run rt [CallConnect c, AdapterConnectSettled 0 ConnectTrue,
                    StorageSettled 0 Resolved, StorageSettled 0 Resolved,
                    CallAddPrintJob BARCODE p ''J1'' 1, CallDisconnect,
                    AdapterDisconnectSettled 1 Resolved,
                    SendSettled 0 (Rejected ''Not connected'')] init = Some s'
           \<and> status (cur_state s') = Connected \<and> connectedPrinter (cur_state s') = None"
    using fits by (rule connected_without_printer)
  with fits have "payload_fits BARCODE p
      \<and> (\<exists>s'. run rt [CallConnect c, AdapterConnectSettled 0 ConnectTrue,
                    StorageSettled 0 Resolved, StorageSettled 0 Resolved,
                    CallAddPrintJob BARCODE p ''J1'' 1, CallDisconnect,
                    AdapterDisconnectSettled 1 Resolved,
                    SendSettled 0 (Rejected ''Not connected'')] init = Some s'
           \<and> status (cur_state s') = Connected \<and> connectedPrinter (cur_state s') = None)"
    by (rule conjI)
  then show ?thesis unfolding p_def rt_def c_def .
qed

subsection \<open>State objects that are not the current one\<close>

lemma kept_refl: "detached r s \<Longrightarrow> kept r s s"
  by (simp add: kept_def)

lemma kept_trans: "kept r s s' \<Longrightarrow> kept r s' s'' \<Longrightarrow> kept r s s''"
  by (simp add: kept_def)

lemma kept_detached: "kept r s s' \<Longrightarrow> detached r s'"
  by (simp add: kept_def)

lemma kept_then: "kept r s s' \<Longrightarrow> (detached r s' \<Longrightarrow> kept r s' s'') \<Longrightarrow> kept r s s''"
  by (simp add: kept_def)

lemma kept_fields:
  "detached r s \<Longrightarrow> kept r s (s\<lparr>tasks := ts\<rparr>)"
  "detached r s \<Longrightarrow> kept r s (s\<lparr>timers := n\<rparr>)"
  "detached r s \<Longrightarrow> kept r s (s\<lparr>isProcessingQueue := b\<rparr>)"
  "detached r s \<Longrightarrow> kept r s (s\<lparr>alerts := al\<rparr>)"
  "detached r s \<Longrightarrow> kept r s (s\<lparr>timers := n, isProcessingQueue := b\<rparr>)"
  by (simp_all add: kept_def detached_def)

lemma kept_prims:
  "detached r s \<Longrightarrow> kept r s (emit ev s)"
  "detached r s \<Longrightarrow> kept r s (updateState f s)"
  "detached r s \<Longrightarrow> kept r s (set_job j g s)"
  "detached r s \<Longrightarrow> kept r s (assign_queue xs s)"
  "detached r s \<Longrightarrow> kept r s (new_job job s)"
  "detached r s \<Longrightarrow> kept r s (push_queue j s)"
  "detached r s \<Longrightarrow> kept r s (snd (getState s))"
  by (simp_all add: kept_def detached_def store_fields)

lemma kept_ops:
  "detached r s \<Longrightarrow> kept r s (setStatus st s)"
  "detached r s \<Longrightarrow> kept r s (setError err s)"
  "detached r s \<Longrightarrow> kept r s (removeJobFromQueue i s)"
  "detached r s \<Longrightarrow> kept r s (clearQueue s)"
  "detached r s \<Longrightarrow> kept r s (showNoPrinterAlert s)"
  "detached r s \<Longrightarrow> kept r s (remove_task k s)"
  "detached r s \<Longrightarrow> kept r s (connect_catch msg s)"
  "detached r s \<Longrightarrow> kept r s (executePrintJob_done j s)"
  "detached r s \<Longrightarrow> kept r s (executePrintJob_catch j msg s)"
  by (simp_all add: kept_def detached_def store_fields setStatus_def setError_def
      removeJobFromQueue_def clearQueue_def showNoPrinterAlert_def remove_task_def
      connect_catch_def executePrintJob_done_def executePrintJob_catch_def Let_def)

lemma kept_drain: "detached r s \<Longrightarrow> kept r s (drain rt js s)"
proof (induction js arbitrary: s)
  case Nil
  then show ?case by (simp add: kept_fields)
next
  case (Cons j rest)
  let ?s1 = "emit (PrintStarted j) (setStatus Printing (set_job j (\<lambda>x. x\<lparr>job_status := JobPrinting\<rparr>) s))"
  have k1: "kept r s ?s1"
    using Cons.prems
    by (simp add: kept_def detached_def store_fields setStatus_def)
  then have d1: "detached r ?s1" by (rule kept_detached)
  have kc: "kept r s (drain rt rest (executePrintJob_catch j msg ?s1))" for msg
  proof -
    have "kept r ?s1 (executePrintJob_catch j msg ?s1)" using d1 by (rule kept_ops)
    with k1 have k2: "kept r s (executePrintJob_catch j msg ?s1)" by (rule kept_trans)
    then have "detached r (executePrintJob_catch j msg ?s1)" by (rule kept_detached)
    then have "kept r (executePrintJob_catch j msg ?s1) (drain rt rest (executePrintJob_catch j msg ?s1))"
      by (rule Cons.IH)
    with k2 show ?thesis by (rule kept_trans)
  qed
  have kt: "kept r s (?s1\<lparr>tasks := ts\<rparr>)" for ts
    using k1 kept_fields(1)[OF d1] by (rule kept_trans)
  show ?case
    using Cons.prems kc kt
    by (simp add: drain.simps(2) Let_def kept_fields split: sum.splits option.splits)
qed

lemma kept_processQueue: "detached r s \<Longrightarrow> kept r s (processQueue rt s)"
proof -
  assume d: "detached r s"
  have "kept r s (drain rt js (s\<lparr>isProcessingQueue := True\<rparr>))" for js
    using kept_fields(3)[OF d] kept_drain kept_detached kept_trans by blast
  then show ?thesis
    using d by (simp add: processQueue_def Let_def kept_refl kept_ops)
qed

lemma kept_addPrintJob: "detached r s \<Longrightarrow> kept r s (addPrintJob rt t p i n s)"
proof -
  assume d: "detached r s"
  let ?s1 = "emit (JobAdded (next_ref s))
               (push_queue (next_ref s)
                  (new_job \<lparr>job_id = i, job_type = t, job_payload = p, job_timestamp = n,
                            job_status = Pending, retryCount = 0, job_error = None\<rparr> s))"
  have k1: "kept r s ?s1"
    using d by (simp add: kept_def detached_def store_fields)
  then have "kept r ?s1 (processQueue rt ?s1)"
    using kept_detached kept_processQueue by blast
  with k1 have "kept r s (processQueue rt ?s1)" by (rule kept_trans)
  then show ?thesis by (simp add: addPrintJob_def Let_def)
qed

lemma kept_step:
  assumes "detached r s" "step rt l s = Some s'"
  shows "kept r s s'"
proof (cases l)
  case (CallConnect c)
  then show ?thesis
    using assms
    by (auto simp: kept_def detached_def store_fields setStatus_def setError_def Let_def)
next
  case (AdapterConnectSettled i res)
  have a: "kept r s (connect_catch msg (remove_task i s))" for msg
    using kept_ops(6)[OF assms(1)] kept_ops(7) kept_detached kept_trans by blast
  have b: "kept r s ((updateState f s)\<lparr>tasks := ts\<rparr>)" for f ts
    using assms(1) by (simp add: kept_def detached_def store_fields)
  show ?thesis
    using assms(2) a b unfolding AdapterConnectSettled
    by (auto simp: Let_def split: option.splits task.splits connect_result.splits)
next
  case (StorageSettled i res)
  have a: "kept r s (connect_catch msg (remove_task i s))" for msg
    using kept_ops(6)[OF assms(1)] kept_ops(7) kept_detached kept_trans by blast
  have b: "kept r s (s\<lparr>tasks := ts\<rparr>)" for ts
    using assms(1) by (rule kept_fields)
  have c: "kept r s (processQueue rt (emit ev (remove_task i s)))" for ev
  proof -
    have "kept r s (emit ev (remove_task i s))"
      using kept_ops(6)[OF assms(1)] kept_prims(1) kept_detached kept_trans by blast
    then show ?thesis
      using kept_processQueue kept_detached kept_trans by blast
  qed
  show ?thesis
    using assms(2) a b c unfolding StorageSettled
    by (auto split: option.splits task.splits settled.splits)
next
  case CallDisconnect
  then show ?thesis
    using assms kept_refl[OF assms(1)] kept_fields(1)[OF assms(1)]
    by (auto split: option.splits)
next
  case (AdapterDisconnectSettled i res)
  have "kept r s (emit ev (updateState f (remove_task i s)))" for ev f
    using assms(1) by (simp add: kept_def detached_def store_fields remove_task_def)
  then show ?thesis
    using assms(2) unfolding AdapterDisconnectSettled
    by (auto split: option.splits task.splits)
next
  case (CallAddPrintJob t p i n)
  then show ?thesis using assms kept_addPrintJob by auto
next
  case (SendSettled i res)
  have a: "kept r s (drain rt rest (executePrintJob_done j (remove_task i s)))" for rest j
  proof -
    have "kept r s (executePrintJob_done j (remove_task i s))"
      using kept_ops(6)[OF assms(1)] kept_ops(8) kept_detached kept_trans by blast
    then show ?thesis using kept_drain kept_detached kept_trans by blast
  qed
  have b: "kept r s (drain rt rest (executePrintJob_catch j msg (remove_task i s)))" for rest j msg
  proof -
    have "kept r s (executePrintJob_catch j msg (remove_task i s))"
      using kept_ops(6)[OF assms(1)] kept_ops(9) kept_detached kept_trans by blast
    then show ?thesis using kept_drain kept_detached kept_trans by blast
  qed
  show ?thesis
    using assms(2) a b unfolding SendSettled
    by (auto split: option.splits task.splits settled.splits)
next
  case TimerFires
  have "kept r s (processQueue rt (s\<lparr>timers := n, isProcessingQueue := b\<rparr>))" for n b
    using kept_fields(5)[OF assms(1)] kept_processQueue kept_detached kept_trans by blast
  then show ?thesis
    using assms(2) unfolding TimerFires by (auto split: if_splits)
next
  case CallClearQueue
  then show ?thesis using assms kept_ops(4) by auto
next
  case CallGetState
  then show ?thesis using assms kept_prims(7) by auto
qed

lemma kept_run:
  assumes "detached r s" "run rt ls s = Some s'"
  shows "kept r s s'"
  using assms
proof (induction ls arbitrary: s)
  case Nil
  then show ?case by (simp add: kept_refl)
next
  case (Cons l ls)
  from Cons.prems(2) obtain s1 where s1: "step rt l s = Some s1" "run rt ls s1 = Some s'"
    by (auto split: option.splits)
  have k1: "kept r s s1" using Cons.prems(1) s1(1) by (rule kept_step)
  then have "detached r s1" by (rule kept_detached)
  then have "kept r s1 s'" using s1(2) by (rule Cons.IH)
  with k1 show ?case by (rule kept_trans)
qed

lemma reachable_current:
  assumes "run rt ls init = Some s"
  shows "this_state s < next_ref s"
proof -
  have "detached 1 init" by (simp add: detached_def init_def)
  then have "kept 1 init s" using assms by (rule kept_run)
  then show ?thesis by (simp add: kept_def detached_def)
qed

subsection \<open>What a reader of the state holds\<close>

text \<open>
  Claim C10, as the service computes it. \<open>getState()\<close> returns a new object with the
  values that the fields of the state object have at the time of the read; the read
  changes nothing else. In every state the service can reach, and at any later time: the
  steps of the service never change the fields of the object returned, and an assignment
  by the caller to the fields of that object changes neither the current state object, nor
  an array, nor a job. The copy is shallow: the field \<open>printQueue\<close> of the object returned
  is the address of the queue array of the service, so the array and the jobs in it are
  shared. A \<open>state_changed\<close> event carries the address of the current state object itself.
\<close>

theorem getState_shallow_copy:
  assumes "run rt ls0 init = Some s"
  shows "fst (getState s) = next_ref s
       \<and> fst (getState s) \<noteq> this_state (snd (getState s))
       \<and> objs (snd (getState s)) (fst (getState s)) = cur_state s
       \<and> cur_state (snd (getState s)) = cur_state s
       \<and> arrays (snd (getState s)) = arrays s
       \<and> jobs (snd (getState s)) = jobs s
       \<and> (\<forall>ls s'. run rt ls (snd (getState s)) = Some s' \<longrightarrow>
             objs s' (fst (getState s)) = cur_state s
             \<and> (\<forall>f. cur_state (client_write_state (fst (getState s)) f s') = cur_state s'
                    \<and> arrays (client_write_state (fst (getState s)) f s') = arrays s'
                    \<and> jobs (client_write_state (fst (getState s)) f s') = jobs s'))
       \<and> printQueue (objs (snd (getState s)) (fst (getState s))) = printQueue (cur_state s)
       \<and> events (updateState g s) = events s @ [StateChanged (this_state (updateState g s))]"
proof -
  let ?r = "fst (getState s)"
  let ?s1 = "snd (getState s)"
  have wf: "this_state s < next_ref s" using assms by (rule reachable_current)
  have r: "?r = next_ref s" by (simp add: store_fields)
  have ne: "?r \<noteq> this_state ?s1" using wf by (simp add: store_fields)
  have o: "objs ?s1 ?r = cur_state s" by (simp add: store_fields cur_state_def)
  have c: "cur_state ?s1 = cur_state s" using wf by (simp add: store_fields cur_state_def)
  have a: "arrays ?s1 = arrays s" "jobs ?s1 = jobs s" by (simp_all add: store_fields)
  have d: "detached ?r ?s1" using wf by (simp add: detached_def store_fields)
  have later: "objs s' ?r = cur_state s
      \<and> (\<forall>f. cur_state (client_write_state ?r f s') = cur_state s'
             \<and> arrays (client_write_state ?r f s') = arrays s'
             \<and> jobs (client_write_state ?r f s') = jobs s')"
    if run: "run rt ls ?s1 = Some s'" for ls s'
  proof -
    have k: "kept ?r ?s1 s'" using d run by (rule kept_run)
    then have "objs s' ?r = objs ?s1 ?r" and d': "detached ?r s'"
      by (simp_all add: kept_def)
    then have 1: "objs s' ?r = cur_state s" using o by simp
    have 2: "cur_state (client_write_state ?r f s') = cur_state s'
             \<and> arrays (client_write_state ?r f s') = arrays s'
             \<and> jobs (client_write_state ?r f s') = jobs s'" for f
      using d' by (simp add: client_write_state_def cur_state_def detached_def)
    from 1 2 show ?thesis by blast
  qed
  have q: "printQueue (objs ?s1 ?r) = printQueue (cur_state s)" using o by simp
  have e: "events (updateState g s) = events s @ [StateChanged (this_state (updateState g s))]"
    by (simp add: store_fields)
  from r ne o c a later q e show ?thesis by blast
qed

theorem getState_shallow_copy_witness:
  "run \<lparr>rt_host = \<lparr>toLocaleString = (\<lambda>x. x), numberText = (\<lambda>q. []),
                     parseNumber = (\<lambda>x. NaN), numberSum = (\<lambda>a b. NaN)\<rparr>,
          builtinMessage = (\<lambda>e. ''Invalid count value'')\<rparr> [] init = Some init
   \<and> fst (getState init) = 2
   \<and> (\<exists>s'. run \<lparr>rt_host = \<lparr>toLocaleString = (\<lambda>x. x), numberText = (\<lambda>q. []),
                     parseNumber = (\<lambda>x. NaN), numberSum = (\<lambda>a b. NaN)\<rparr>,
                   builtinMessage = (\<lambda>e. ''Invalid count value'')\<rparr>
             [CallConnect \<lparr>cfg_id = ''bt_1'', cfg_name = ''Kitchen'', cfg_type = Bluetooth,
                           cfg_address = ''AA:BB'', cfg_isDefault = False, cfg_paperWidth = P58,
                           cfg_lastConnected = None\<rparr>] (snd (getState init)) = Some s'
          \<and> status (cur_state s') = Connecting
          \<and> status (objs s' 2) = Disconnected
          \<and> status (cur_state (client_write_state 2 (\<lambda>p. p\<lparr>status := Printing\<rparr>) s')) = Connecting)"
proof -
  define rt where "rt = \<lparr>rt_host = \<lparr>toLocaleString = (\<lambda>x. x), numberText = (\<lambda>q. []),
                     parseNumber = (\<lambda>x. NaN), numberSum = (\<lambda>a b. NaN)\<rparr>,
          builtinMessage = (\<lambda>e. ''Invalid count value'')\<rparr>"
  define c where "c = \<lparr>cfg_id = ''bt_1'', cfg_name = ''Kitchen'', cfg_type = Bluetooth,
                           cfg_address = ''AA:BB'', cfg_isDefault = False, cfg_paperWidth = P58,
                           cfg_lastConnected = None\<rparr>"
  define s' where "s' = (setError None (setStatus Connecting (snd (getState init))))
                          \<lparr>tasks := [AwaitAdapterConnect c]\<rparr>"
  have r0: "run rt [] init = Some init" by simp
  have r2: "fst (getState init) = 2" by (simp add: store_fields)
  have r1: "run rt [CallConnect c] (snd (getState init)) = Some s'"
    by (simp add: s'_def Let_def store_fields setStatus_def setError_def)
  have cs: "status (cur_state s') = Connecting"
    by (simp add: s'_def cur_state_def store_fields setStatus_def setError_def)
  have ci: "status (cur_state init) = Disconnected"
    by (simp add: cur_state_def store_fields)
  note main = getState_shallow_copy[OF r0, of "\<lambda>p. p"]
  from main have "\<forall>ls s'. run rt ls (snd (getState init)) = Some s' \<longrightarrow>
             objs s' (fst (getState init)) = cur_state init
             \<and> (\<forall>f. cur_state (client_write_state (fst (getState init)) f s') = cur_state s'
                    \<and> arrays (client_write_state (fst (getState init)) f s') = arrays s'
                    \<and> jobs (client_write_state (fst (getState init)) f s') = jobs s')"
    by (elim conjE)
  then have "objs s' (fst (getState init)) = cur_state init
             \<and> (\<forall>f. cur_state (client_write_state (fst (getState init)) f s') = cur_state s'
                    \<and> arrays (client_write_state (fst (getState init)) f s') = arrays s'
                    \<and> jobs (client_write_state (fst (getState init)) f s') = jobs s')"
    using r1 by blast
  then have o: "objs s' 2 = cur_state init"
      and w: "cur_state (client_write_state 2 (\<lambda>p. p\<lparr>status := Printing\<rparr>) s') = cur_state s'"
    unfolding r2 by blast+
  have "run rt [] init = Some init \<and> fst (getState init) = 2
      \<and> (\<exists>s'. run rt [CallConnect c] (snd (getState init)) = Some s'
            \<and> status (cur_state s') = Connecting \<and> status (objs s' 2) = Disconnected
            \<and> status (cur_state (client_write_state 2 (\<lambda>p. p\<lparr>status := Printing\<rparr>) s')) = Connecting)"
    using r0 r2 r1 cs o w ci by (intro conjI exI[of _ s']) simp_all
  then show ?thesis unfolding rt_def c_def .
qed

theorem snapshot_counterexample:
  "fst (getState init) = 2
   \<and> view (snd (getState init)) 2 = (Disconnected, None, None, [])
   \<and> view (addPrintJob
             \<lparr>rt_host = \<lparr>toLocaleString = (\<lambda>x. x), numberText = (\<lambda>q. []),
                          parseNumber = (\<lambda>x. NaN), numberSum = (\<lambda>a b. NaN)\<rparr>,
               builtinMessage = (\<lambda>e. ''Invalid count value'')\<rparr>
             BARCODE
             (BarcodePayload \<lparr>bc_sku = ''SKU-1'', bc_brandName = None, bc_categoryName = None,
                               bc_modelNo = None, bc_shopName = None\<rparr>)
             ''J1'' 1 (snd (getState init))) 2
       = (Disconnected, None, None,
          [\<lparr>job_id = ''J1'', job_type = BARCODE,
            job_payload = BarcodePayload \<lparr>bc_sku = ''SKU-1'', bc_brandName = None,
                            bc_categoryName = None, bc_modelNo = None, bc_shopName = None\<rparr>,
            job_timestamp = 1, job_status = Pending, retryCount = 0, job_error = None\<rparr>])
   \<and> queue (snd (getState init)) = []
   \<and> queue (client_write_array (printQueue (objs (snd (getState init)) 2)) (\<lambda>xs. xs @ [7])
              (snd (getState init))) = [7]
   \<and> events (setStatus Connecting init) = [StateChanged 2]
   \<and> this_state (setStatus Connecting init) = 2
   \<and> status (cur_state (setStatus Connecting init)) = Connecting
   \<and> status (cur_state (client_write_state 2 (\<lambda>p. p\<lparr>status := Printing\<rparr>)
                          (setStatus Connecting init))) = Printing"
  by (simp add: view_def client_write_array_def client_write_state_def store_fields
      service_unfold)

end
